(* ===== verification/Prelude.thy ===== *)
theory Prelude
  imports Complex_Main "HOL-Library.Multiset"
begin

text \<open>
  Shared vocabulary of the DiNTS training-driver development: the Python
  exceptions the drivers can raise, the result type that carries them, a
  bind for that type, and generic facts on lists and multisets that the
  component theories share. Each component proof adds the collection
  \<open>py_simps\<close> (the evaluation rules of the Python built-ins) to the simplifier.
\<close>

named_theorems py_simps "evaluation rules of the modelled Python built-ins"

section \<open>Python exceptions as values\<close>

text \<open>
  Every exception the two scripts \<^verbatim>\<open>search_dints.py\<close> and
  \<^verbatim>\<open>train_dints.py\<close> can raise on the modelled paths is a constructor; the
  string names the missing key, variable or failing check. A computation
  that may raise returns \<open>'a result\<close>, \<open>Inl\<close> being the exception.
\<close>

datatype py_error =
    ZeroDivisionError
  | KeyError string
  | IndexError
  | ValueError string
  | RuntimeError string
  | StopIteration
  | NameError string
  | UnboundLocalError string
  | TypeError string
  | AttributeError string
  | SystemExit int
  | AssertionError string

type_synonym 'a result = "py_error + 'a"

definition bind_result :: "'a result \<Rightarrow> ('a \<Rightarrow> 'b result) \<Rightarrow> 'b result" where
  "bind_result r f = (case r of Inl e \<Rightarrow> Inl e | Inr a \<Rightarrow> f a)"

lemma bind_result_Inl [simp]: "bind_result (Inl e) f = Inl e"
  by (simp add: bind_result_def)

lemma bind_result_Inr [simp]: "bind_result (Inr a) f = f a"
  by (simp add: bind_result_def)

lemma bind_result_eq_Inr [simp]:
  "bind_result r f = Inr b \<longleftrightarrow> (\<exists>a. r = Inr a \<and> f a = Inr b)"
  by (cases r) (auto simp: bind_result_def)

lemma bind_result_return [simp]: "bind_result r Inr = r"
  by (cases r) (simp_all add: bind_result_def)

lemma bind_result_eq_Inl:
  "bind_result r f = Inl e \<longleftrightarrow> r = Inl e \<or> (\<exists>a. r = Inr a \<and> f a = Inl e)"
  by (cases r) (auto simp: bind_result_def)

text \<open>
  A Python loop whose body may raise, run over a list and collecting the
  body's values: the first exception ends it.
\<close>

fun map_result :: "('a \<Rightarrow> 'b result) \<Rightarrow> 'a list \<Rightarrow> 'b list result" where
  "map_result f [] = Inr []"
| "map_result f (x # xs) = bind_result (f x) (\<lambda>y. bind_result (map_result f xs) (\<lambda>ys. Inr (y # ys)))"

lemma map_result_Inr:
  "(\<forall>x \<in> set xs. f x = Inr (g x)) \<Longrightarrow> map_result f xs = Inr (map g xs)"
  by (induction xs) auto

lemma map_result_Inr_set:
  "map_result f xs = Inr ys \<Longrightarrow> \<forall>y \<in> set ys. \<exists>x \<in> set xs. f x = Inr y"
proof (induction xs arbitrary: ys)
  case Nil
  then show ?case by simp
next
  case (Cons x xs)
  then obtain y ys' where "f x = Inr y" and "map_result f xs = Inr ys'" and "ys = y # ys'"
    by auto
  then show ?case
    using Cons.IH by auto
qed

lemma map_result_rel:
  "map_result f xs = Inr ys \<Longrightarrow> list_all2 (\<lambda>x y. f x = Inr y) xs ys"
  by (induction xs arbitrary: ys) auto

lemma list_all2_list_all_iff:
  "list_all2 R xs ys \<Longrightarrow> (\<And>x y. R x y \<Longrightarrow> P x \<longleftrightarrow> Q y) \<Longrightarrow> list_all P xs \<longleftrightarrow> list_all Q ys"
  by (induction rule: list_all2_induct) auto

lemma list_all2_list_all:
  "list_all2 R xs ys \<Longrightarrow> (\<And>x y. R x y \<Longrightarrow> Q y) \<Longrightarrow> list_all Q ys"
  by (induction rule: list_all2_induct) auto

lemma map_result_Inr_ex:
  "(\<And>x. x \<in> set xs \<Longrightarrow> \<exists>y. f x = Inr y) \<Longrightarrow> \<exists>ys. map_result f xs = Inr ys"
  by (induction xs) fastforce+

lemma map_result_nth:
  "map_result f xs = Inr ys \<Longrightarrow> length ys = length xs \<and> (\<forall>i < length xs. f (xs ! i) = Inr (ys ! i))"
proof (induction xs arbitrary: ys)
  case Nil
  then show ?case by simp
next
  case (Cons x xs)
  then obtain y ys' where "f x = Inr y" and "map_result f xs = Inr ys'" and "ys = y # ys'"
    by auto
  then show ?case
    using Cons.IH by (auto simp: nth_Cons')
qed

text \<open>Every error of a loop is an error of one of its iterations.\<close>

lemma map_result_Inl_from:
  assumes "map_result f xs = Inl e" and "\<And>x e'. x \<in> set xs \<Longrightarrow> f x = Inl e' \<Longrightarrow> P e'"
  shows "P e"
  using assms by (induction xs) (auto simp: bind_result_def split: sum.splits)

lemma map_result_Inl:
  "x \<in> set xs \<Longrightarrow> f x = Inl e \<Longrightarrow> \<exists>e'. map_result f xs = Inl e'"
  by (induction xs) (auto simp: bind_result_def split: sum.splits)

text \<open>
  A Python \<^verbatim>\<open>for\<close> loop over a list whose body updates a state and may
  raise: the first exception ends the loop.
\<close>

fun fold_result :: "('a \<Rightarrow> 's \<Rightarrow> 's result) \<Rightarrow> 'a list \<Rightarrow> 's \<Rightarrow> 's result" where
  "fold_result f [] s = Inr s"
| "fold_result f (x # xs) s = bind_result (f x s) (fold_result f xs)"

lemma fold_result_Nil_fun: "fold_result f [] = Inr"
  by (rule ext) simp

lemma fold_result_single: "fold_result f [x] = f x"
  by (rule ext) (simp add: fold_result_Nil_fun)

lemma fold_result_append:
  "fold_result f (xs @ ys) s = bind_result (fold_result f xs s) (fold_result f ys)"
  by (induction xs arbitrary: s) (auto simp: bind_result_def split: sum.splits)

text \<open>An invariant kept by every iteration of the body holds after the loop.\<close>

lemma fold_result_invariant:
  assumes "\<And>x s s'. x \<in> set xs \<Longrightarrow> P s \<Longrightarrow> f x s = Inr s' \<Longrightarrow> P s'"
    and "P s" and "fold_result f xs s = Inr s'"
  shows "P s'"
  using assms
proof (induction xs arbitrary: s)
  case Nil
  then show ?case by simp
next
  case (Cons x xs)
  from Cons.prems(3) obtain s1 where s1: "f x s = Inr s1" and rest: "fold_result f xs s1 = Inr s'"
    by auto
  have "P s1"
    using Cons.prems(1) [of x s s1] Cons.prems(2) s1 by simp
  moreover have "\<And>y t t'. y \<in> set xs \<Longrightarrow> P t \<Longrightarrow> f y t = Inr t' \<Longrightarrow> P t'"
    by (rule Cons.prems(1)) simp_all
  ultimately show ?case
    using Cons.IH rest by blast
qed

section \<open>Lists and multisets\<close>

text \<open>A list split by \<open>take\<close>/\<open>drop\<close> keeps its multiset of elements.\<close>

lemma fold_result_Inl_from:
  assumes "\<And>x s e'. x \<in> set xs \<Longrightarrow> f x s = Inl e' \<Longrightarrow> P e'"
  shows "fold_result f xs s = Inl e \<Longrightarrow> P e"
  using assms
proof (induction xs arbitrary: s)
  case (Cons x xs)
  then show ?case
    by (cases "f x s") auto
qed simp

lemma mset_take_drop_three:
  "mset (take a xs) + mset (take b (drop a xs)) + mset (drop (a + b) xs) = mset xs"
proof -
  have "mset xs = mset (take a xs) + mset (drop a xs)"
    by (simp flip: mset_append)
  also have "mset (drop a xs) = mset (take b (drop a xs)) + mset (drop b (drop a xs))"
    by (simp only: mset_append [symmetric] append_take_drop_id)
  finally show ?thesis
    by (simp add: add.assoc add.commute [of b a])
qed

text \<open>A sum over a list only depends on its multiset of summands.\<close>

lemma sum_list_map_mset_eq:
  fixes f :: "'a \<Rightarrow> 'b::comm_monoid_add"
  assumes "mset xs = mset ys"
  shows "sum_list (map f xs) = sum_list (map f ys)"
proof -
  have "sum_list (map f xs) = sum_mset (image_mset f (mset xs))"
    by (simp flip: sum_mset_sum_list)
  also have "\<dots> = sum_list (map f ys)"
    using assms by (simp flip: sum_mset_sum_list)
  finally show ?thesis .
qed

text \<open>Filtering an interval whose first elements all fail the test.\<close>

lemma filter_upt_skip:
  assumes "i \<le> m" and "\<forall>j. i \<le> j \<and> j < m \<longrightarrow> \<not> P j"
  shows "filter P [i..<b] = filter P [m..<b]"
proof (cases "m \<le> b")
  case True
  have "[i..<b] = [i..<m] @ [m..<b]"
    using upt_add_eq_append [OF assms(1), of "b - m"] True by simp
  moreover have "filter P [i..<m] = []"
    using assms(2) by auto
  ultimately show ?thesis by simp
next
  case False
  then show ?thesis
    using assms(2) by auto
qed

text \<open>No number strictly between \<open>a\<close> and \<open>a + k\<close> is congruent to \<open>a\<close> modulo \<open>k\<close>.\<close>

lemma mod_gap:
  assumes "a < j" and "j < a + k"
  shows "j mod k \<noteq> a mod (k::nat)"
proof
  assume "j mod k = a mod k"
  then have "k dvd j - a"
    using assms(1) by (simp add: mod_eq_dvd_iff_nat)
  moreover have "0 < j - a" and "j - a < k"
    using assms by auto
  ultimately show False
    using dvd_imp_le by fastforce
qed

text \<open>Consecutive blocks of length \<open>s\<close> read off a list give back its prefix.\<close>

lemma concat_take_blocks:
  "concat (map (\<lambda>f. take s (drop (s * f) xs)) [0..<k]) = take (k * s) xs"
proof (induction k)
  case 0
  then show ?case by simp
next
  case (Suc k)
  have "take (Suc k * s) xs = take (k * s + s) xs"
    by (simp add: add.commute)
  also have "\<dots> = take (k * s) xs @ take s (drop (k * s) xs)"
    by (rule take_add)
  finally have "take (Suc k * s) xs = take (k * s) xs @ take s (drop (k * s) xs)" .
  with Suc.IH show ?case
    by (simp add: mult.commute)
qed

text \<open>The first block of a concatenation over an interval.\<close>

lemma concat_map_upt_Suc:
  "concat (map f [0..<Suc n]) = f 0 @ concat (map (\<lambda>i. f (Suc i)) [0..<n])"
  by (induction n) auto

text \<open>A map that is constant on a list.\<close>

lemma map_const_replicate:
  "\<forall>x \<in> set xs. f x = c \<Longrightarrow> map f xs = replicate (length xs) c"
  by (induction xs) auto

text \<open>A sum over a concatenation is the sum of the sums of the parts.\<close>

lemma sum_list_map_concat:
  "sum_list (map f (concat xss)) = sum_list (map (\<lambda>xs. sum_list (map f xs)) xss)"
  by (induction xss) auto

text \<open>A mean of numbers in \<open>[0, 1]\<close> lies in \<open>[0, 1]\<close>.\<close>

lemma mean_unit_interval:
  fixes xs :: "real list"
  assumes "\<forall>x \<in> set xs. 0 \<le> x \<and> x \<le> 1"
  shows "0 \<le> sum_list xs / real (length xs) \<and> sum_list xs / real (length xs) \<le> 1"
proof -
  have "sum_list xs \<le> sum_list (map (\<lambda>x. 1::real) xs)"
    using assms sum_list_mono [of xs id "\<lambda>x. 1::real"] by simp
  then have "sum_list xs \<le> real (length xs)"
    by (simp add: sum_list_triv)
  moreover have "0 \<le> sum_list xs"
    using assms by (auto intro: sum_list_nonneg)
  ultimately show ?thesis
    by (cases "xs = []") (auto simp: divide_le_eq_1)
qed

text \<open>The residue classes modulo \<open>k\<close> split any list of numbers.\<close>

lemma residue_classes_mset:
  assumes "0 < k"
  shows "(\<Sum>i\<leftarrow>[0..<k]. mset (filter (\<lambda>j. j mod k = i) xs)) = mset xs"
proof (induction xs)
  case Nil
  then show ?case by simp
next
  case (Cons x xs)
  have eq: "\<And>i. mset (filter (\<lambda>j. j mod k = i) (x # xs))
             = (if x mod k = i then {#x#} else {#}) + mset (filter (\<lambda>j. j mod k = i) xs)"
    by simp
  have one: "(\<Sum>i\<leftarrow>[0..<k]. (if x mod k = i then {#x#} else {#})) = {#x#}"
    using assms by (simp add: sum_list_distinct_conv_sum_set)
  show ?case
    by (simp only: eq sum_list_addf one Cons.IH) simp
qed

text \<open>A concatenation of index-mapped lists, as a multiset.\<close>

lemma mset_concat_map_nth:
  "mset (concat (map (\<lambda>i. map g (F i)) is)) = image_mset g (\<Sum>i\<leftarrow>is. mset (F i))"
  by (induction "is") auto

end
