(* ===== verification/PySemantics.thy ===== *)
theory PySemantics
  imports Prelude
begin

text \<open>
  The Python built-ins the drivers call, with CPython's semantics: floor and
  true division with their \<^verbatim>\<open>ZeroDivisionError\<close>, list slicing
  \<^verbatim>\<open>xs[a:b]\<close> with negative and out-of-range bounds, the strided slice
  \<^verbatim>\<open>xs[a:b:k]\<close> as \<^verbatim>\<open>range(a, b, k)\<close>, dictionary
  subscription, and \<^verbatim>\<open>posixpath.join\<close> of two components. None of this
  code is in the repository; it is modelled from the language reference.
\<close>

section \<open>Arithmetic\<close>

text \<open>\<^verbatim>\<open>a // b\<close> on Python ints rounds towards minus infinity, as \<open>div\<close> on \<open>int\<close> does.\<close>

definition py_floordiv :: "int \<Rightarrow> int \<Rightarrow> int result" where
  "py_floordiv a b = (if b = 0 then Inl ZeroDivisionError else Inr (a div b))"

text \<open>\<^verbatim>\<open>a / b\<close> on Python floats (rounding is not modelled: floats are reals).\<close>

definition py_truediv :: "real \<Rightarrow> real \<Rightarrow> real result" where
  "py_truediv a b = (if b = 0 then Inl ZeroDivisionError else Inr (a / b))"

lemma py_floordiv_simps [py_simps]:
  "b \<noteq> 0 \<Longrightarrow> py_floordiv a b = Inr (a div b)"
  "py_floordiv a 0 = Inl ZeroDivisionError"
  by (simp_all add: py_floordiv_def)

lemma py_truediv_simps [py_simps]:
  "b \<noteq> 0 \<Longrightarrow> py_truediv a b = Inr (a / b)"
  "py_truediv a 0 = Inl ZeroDivisionError"
  by (simp_all add: py_truediv_def)

section \<open>Slicing\<close>

text \<open>
  A slice bound is normalised as \<^verbatim>\<open>PySlice_AdjustIndices\<close> does for step 1:
  a negative bound counts from the end and is clipped at 0, a bound past the
  end is clipped at the length. An omitted bound is \<open>None\<close>.
\<close>

definition slice_index :: "nat \<Rightarrow> int \<Rightarrow> nat" where
  "slice_index n i = nat (if i < 0 then max 0 (i + int n) else min i (int n))"

definition py_slice :: "'a list \<Rightarrow> int option \<Rightarrow> int option \<Rightarrow> 'a list" where
  "py_slice xs lo hi =
     (let a = (case lo of None \<Rightarrow> 0 | Some i \<Rightarrow> slice_index (length xs) i);
          b = (case hi of None \<Rightarrow> length xs | Some j \<Rightarrow> slice_index (length xs) j)
      in take (b - a) (drop a xs))"

lemma slice_index_nonneg [py_simps]:
  "0 \<le> i \<Longrightarrow> slice_index n i = min (nat i) n"
  by (auto simp: slice_index_def min_def)

lemma py_slice_prefix [py_simps]:
  "0 \<le> j \<Longrightarrow> py_slice xs None (Some j) = take (nat j) xs"
  by (auto simp: py_slice_def slice_index_nonneg Let_def min_def)

lemma py_slice_suffix [py_simps]:
  "0 \<le> i \<Longrightarrow> py_slice xs (Some i) None = drop (nat i) xs"
  by (auto simp: py_slice_def slice_index_nonneg Let_def min_def)

lemma py_slice_between [py_simps]:
  "0 \<le> i \<Longrightarrow> 0 \<le> j \<Longrightarrow> py_slice xs (Some i) (Some j) = take (nat j - nat i) (drop (nat i) xs)"
  by (auto simp: py_slice_def slice_index_nonneg Let_def min_def)

section \<open>Ranges and strided slices\<close>

text \<open>\<^verbatim>\<open>range(a, b, k)\<close> for a positive step, and \<^verbatim>\<open>xs[a:b:k]\<close> for non-negative bounds.\<close>

function py_range :: "nat \<Rightarrow> nat \<Rightarrow> nat \<Rightarrow> nat list" where
  "py_range a b k = (if a < b \<and> 0 < k then a # py_range (a + k) b k else [])"
  by pat_completeness auto
termination
  by (relation "measure (\<lambda>(a, b, k). b - a)") auto

declare py_range.simps [simp del]

definition py_stride :: "'a list \<Rightarrow> nat \<Rightarrow> nat \<Rightarrow> nat \<Rightarrow> 'a list" where
  "py_stride xs a b k = map (\<lambda>j. xs ! j) (py_range a (min b (length xs)) k)"

text \<open>The indices of a range are exactly those of its residue class.\<close>

lemma py_range_filter:
  "0 < k \<Longrightarrow> py_range a b k = filter (\<lambda>j. j mod k = a mod k) [a..<b]"
proof (induction a b k rule: py_range.induct)
  case (1 a b k)
  show ?case
  proof (cases "a < b")
    case True
    have "\<forall>j. Suc a \<le> j \<and> j < a + k \<longrightarrow> \<not> j mod k = a mod k"
      using mod_gap by auto
    then have "filter (\<lambda>j. j mod k = a mod k) [Suc a..<b] = filter (\<lambda>j. j mod k = a mod k) [a + k..<b]"
      using "1.prems" by (intro filter_upt_skip) auto
    moreover have "(a + k) mod k = a mod k"
      by simp
    ultimately show ?thesis
      using True "1.IH" "1.prems" by (simp add: py_range.simps [of a b k] upt_conv_Cons)
  next
    case False
    then show ?thesis by (simp add: py_range.simps [of a b k])
  qed
qed

section \<open>Subscription\<close>

text \<open>
  Subscripting a dict, \<^verbatim>\<open>d[key]\<close>: the stored value, or
  \<^verbatim>\<open>KeyError(key)\<close> when the key is absent.
\<close>

definition py_getitem :: "(string \<rightharpoonup> 'v) \<Rightarrow> string \<Rightarrow> 'v result" where
  "py_getitem d key = (if key \<in> dom d then Inr (the (d key)) else Inl (KeyError key))"

lemma py_getitem_simps [py_simps]:
  "d key = Some v \<Longrightarrow> py_getitem d key = Inr v"
  "d key = None \<Longrightarrow> py_getitem d key = Inl (KeyError key)"
  by (simp_all add: py_getitem_def domIff)

section \<open>Paths\<close>

text \<open>
  \<^verbatim>\<open>posixpath.join(a, b)\<close>: an absolute \<open>b\<close> replaces \<open>a\<close>; otherwise the
  two are joined by one separator unless \<open>a\<close> is empty or ends in one.
\<close>

definition path_join :: "string \<Rightarrow> string \<Rightarrow> string" where
  "path_join a b =
     (if b \<noteq> [] \<and> hd b = CHR ''/'' then b
      else if a = [] \<or> last a = CHR ''/'' then a @ b
      else a @ ''/'' @ b)"

end
