(* ===== verification/Architecture.thy ===== *)
theory Architecture
  imports PySemantics
begin

text \<open>
  Loading the searched architecture (search lines 303--320, train lines
  284--301): \<^verbatim>\<open>torch.load(args.arch_ckpt)\<close> gives a dictionary, from which
  the drivers read the arrays \<^verbatim>\<open>node_a\<close>, \<^verbatim>\<open>code_a\<close> and \<^verbatim>\<open>code_c\<close>;
  \<^verbatim>\<open>code_a\<close> becomes a float tensor and \<^verbatim>\<open>code_c\<close>, the index of the
  operation of each cell, its one-hot encoding over \<^verbatim>\<open>cell_ops = 5\<close>
  operations. A numpy array of rank 2 is a list of rows, tagged with its
  element type; the file holds a list of keys and arrays, read as a
  Python dictionary (the first entry of a key). \<^verbatim>\<open>F.one_hot\<close> is modelled
  from the PyTorch documentation and error messages; the \<^verbatim>\<open>DiNTS\<close>
  constructor (MONAI) that receives the arrays in between is not modelled
  and is taken to accept them.
\<close>

datatype ndarray =
    BoolArr "bool list list"
  | IntArr "int list list"
  | FloatArr "real list list"

type_synonym arch_ckpt = "(string \<times> ndarray) list"

text \<open>The three reads \<^verbatim>\<open>ckpt[key]\<close>, in the order of the code.\<close>

definition load_arch :: "arch_ckpt \<Rightarrow> (ndarray \<times> ndarray \<times> ndarray) result" where
  "load_arch ck =
     bind_result (py_getitem (map_of ck) ''node_a'') (\<lambda>node_a.
     bind_result (py_getitem (map_of ck) ''code_a'') (\<lambda>code_a.
     bind_result (py_getitem (map_of ck) ''code_c'') (\<lambda>code_c. Inr (node_a, code_a, code_c))))"

text \<open>\<^verbatim>\<open>torch.from_numpy(a).to(torch.float32)\<close>: every element type converts.\<close>

fun as_float :: "ndarray \<Rightarrow> real list list" where
  "as_float (BoolArr rows) = map (map of_bool) rows"
| "as_float (IntArr rows) = map (map of_int) rows"
| "as_float (FloatArr rows) = rows"

text \<open>
  \<^verbatim>\<open>F.one_hot(t, n)\<close> for an index \<open>c\<close>: a row of \<open>n\<close> entries, 1 at
  position \<open>c\<close>; PyTorch raises for a negative index and for one that is
  not below \<open>n\<close>, and for a tensor that is not of an integer type.
\<close>

definition one_hot_row :: "nat \<Rightarrow> int \<Rightarrow> real list result" where
  "one_hot_row n c =
     (if c < 0 then Inl (RuntimeError ''Class values must be non-negative.'')
      else if int n \<le> c then Inl (RuntimeError ''Class values must be smaller than num_classes.'')
      else Inr (map (\<lambda>j. if int j = c then 1 else 0) [0..<n]))"

fun one_hot :: "nat \<Rightarrow> ndarray \<Rightarrow> real list list list result" where
  "one_hot n (IntArr rows) = map_result (map_result (one_hot_row n)) rows"
| "one_hot n (BoolArr rows) = Inl (RuntimeError ''one_hot is only applicable to index tensor.'')"
| "one_hot n (FloatArr rows) = Inl (RuntimeError ''one_hot is only applicable to index tensor.'')"

definition cell_ops :: nat where
  "cell_ops = 5"

text \<open>
  The tensors the drivers hold after line 320 (search) and 301 (train):
  \<^verbatim>\<open>node_a\<close> as read, \<^verbatim>\<open>code_a\<close> as floats, \<^verbatim>\<open>code_c\<close> one-hot.
\<close>

definition arch_tensors :: "arch_ckpt \<Rightarrow> (ndarray \<times> real list list \<times> real list list list) result" where
  "arch_tensors ck =
     bind_result (load_arch ck) (\<lambda>(node_a, code_a, code_c).
       bind_result (one_hot cell_ops code_c) (\<lambda>code_c'. Inr (node_a, as_float code_a, code_c')))"

section \<open>One-hot rows\<close>

definition in_range :: "nat \<Rightarrow> int \<Rightarrow> bool" where
  "in_range n c = (0 \<le> c \<and> c < int n)"

text \<open>A row that encodes index \<open>c\<close> among \<open>n\<close>.\<close>

definition one_hot_ok :: "nat \<Rightarrow> int \<Rightarrow> real list \<Rightarrow> bool" where
  "one_hot_ok n c r = (length r = n \<and> sum_list r = 1 \<and> list_all (\<lambda>x. x = 0 \<or> x = 1) r \<and> r ! nat c = 1)"

lemma map_result_list_all2:
  assumes "\<And>x. x \<in> set xs \<Longrightarrow> \<exists>y. f x = Inr y \<and> Q x y"
  shows "\<exists>ys. map_result f xs = Inr ys \<and> list_all2 Q xs ys"
  using assms by (induction xs) fastforce+

lemma sum_list_one_hot:
  assumes "in_range n c"
  shows "sum_list (map (\<lambda>j. if int j = c then 1 else 0 :: real) [0..<n]) = 1"
proof -
  obtain k where k: "c = int k"
    using assms nonneg_int_cases unfolding in_range_def by blast
  then have "k < n"
    using assms by (simp add: in_range_def)
  have "sum_list (map (\<lambda>j. if int j = c then 1 else 0 :: real) [0..<n])
          = (\<Sum>j \<in> {0..<n}. if j = k then 1 else 0)"
    by (simp add: k sum_list_distinct_conv_sum_set)
  also have "\<dots> = 1"
    using \<open>k < n\<close> by simp
  finally show ?thesis .
qed

lemma one_hot_row_Inr:
  assumes "in_range n c"
  shows "\<exists>r. one_hot_row n c = Inr r \<and> one_hot_ok n c r"
proof -
  have "\<not> c < 0" and "\<not> int n \<le> c" and "nat c < n"
    using assms by (simp_all add: in_range_def nat_less_iff)
  then show ?thesis
    using sum_list_one_hot [OF assms] by (auto simp: one_hot_row_def one_hot_ok_def list_all_iff)
qed

lemma one_hot_row_Inl:
  "\<not> in_range n c \<Longrightarrow> \<exists>msg. one_hot_row n c = Inl (RuntimeError msg)"
  by (auto simp: one_hot_row_def in_range_def)

lemma one_hot_Inr:
  assumes "list_all (list_all (in_range n)) rows"
  shows "\<exists>t. one_hot n (IntArr rows) = Inr t \<and> list_all2 (list_all2 (one_hot_ok n)) rows t"
  using assms by (auto simp: list_all_iff intro!: map_result_list_all2 one_hot_row_Inr)

lemma one_hot_Inl:
  assumes "c \<in> set (concat rows)" and "\<not> in_range n c"
  shows "\<exists>msg. one_hot n (IntArr rows) = Inl (RuntimeError msg)"
proof -
  obtain row where "row \<in> set rows" and "c \<in> set row"
    using assms(1) by auto
  then obtain e where "map_result (map_result (one_hot_row n)) rows = Inl e"
    using map_result_Inl one_hot_row_Inl [OF assms(2)] by metis
  moreover have "\<exists>msg. e' = RuntimeError msg" if "map_result (one_hot_row n) row' = Inl e'" for row' e'
    by (rule map_result_Inl_from [OF that]) (auto simp: one_hot_row_def split: if_splits)
  ultimately show ?thesis
    by (auto intro: map_result_Inl_from)
qed

section \<open>The loaded architecture\<close>

lemma load_arch_Inr:
  assumes "map_of ck ''node_a'' = Some na" and "map_of ck ''code_a'' = Some ca" and "map_of ck ''code_c'' = Some cc"
  shows "load_arch ck = Inr (na, ca, cc)"
  using assms by (simp add: load_arch_def py_simps)

text \<open>A checkpoint that lacks one of the keys stops the driver with \<^verbatim>\<open>KeyError\<close> for the first one missing, in the order the code reads them.\<close>

lemma arch_tensors_missing_key:
  assumes "filter (\<lambda>k. map_of ck k = None) [''node_a'', ''code_a'', ''code_c''] = k # ks"
  shows "arch_tensors ck = Inl (KeyError k)"
  using assms
  by (auto simp: arch_tensors_def load_arch_def py_getitem_def domIff bind_result_def split: option.splits if_splits)

text \<open>An operation index outside \<open>0..4\<close> stops it with PyTorch's \<^verbatim>\<open>RuntimeError\<close>.\<close>

lemma arch_tensors_bad_code:
  assumes "map_of ck ''node_a'' = Some na" and "map_of ck ''code_a'' = Some ca"
    and "map_of ck ''code_c'' = Some (IntArr rows)"
    and "c \<in> set (concat rows)" and "\<not> in_range cell_ops c"
  shows "\<exists>msg. arch_tensors ck = Inl (RuntimeError msg)"
  using one_hot_Inl [OF assms(4,5)] load_arch_Inr [OF assms(1-3)]
  by (auto simp: arch_tensors_def bind_result_def)

text \<open>
  C31. A checkpoint with the three arrays and operation indices in
  \<open>0..4\<close> loads: \<^verbatim>\<open>node_a\<close> is kept, \<^verbatim>\<open>code_a\<close> converted to floats,
  and each index of \<^verbatim>\<open>code_c\<close> becomes a row of \<^verbatim>\<open>cell_ops = 5\<close>
  entries, each 0 or 1, summing to 1, with the 1 at the index.
\<close>

theorem arch_tensors_one_hot:
  assumes "map_of ck ''node_a'' = Some na" and "map_of ck ''code_a'' = Some ca"
    and "map_of ck ''code_c'' = Some (IntArr rows)"
    and "list_all (list_all (in_range cell_ops)) rows"
  shows "\<exists>t. arch_tensors ck = Inr (na, as_float ca, t) \<and> list_all2 (list_all2 (one_hot_ok cell_ops)) rows t"
  using one_hot_Inr [OF assms(4)] load_arch_Inr [OF assms(1-3)]
  by (auto simp: arch_tensors_def)

theorem arch_tensors_one_hot_witness:
  "\<exists>t. arch_tensors [(''node_a'', BoolArr [[True]]), (''code_a'', IntArr [[1, 0]]), (''code_c'', IntArr [[4, 0]])]
       = Inr (BoolArr [[True]], as_float (IntArr [[1, 0]]), t)
     \<and> list_all2 (list_all2 (one_hot_ok cell_ops)) [[4, 0]] t"
  by (rule arch_tensors_one_hot) (simp_all add: in_range_def cell_ops_def)

end
