(* ===== verification/Config.thy ===== *)
theory Config
  imports PySemantics "HOL-Library.While_Combinator"
begin

text \<open>
  The start of both drivers: the command line parsed by \<^verbatim>\<open>argparse\<close>
  (search lines 96--150, train lines 95--149), the conversions
  \<^verbatim>\<open>int(args.fold)\<close> and \<^verbatim>\<open>int(args.num_folds)\<close> and the
  hyper-parameters set in the code (search lines 162--179, train lines
  156--173). Python's \<^verbatim>\<open>int()\<close> and \<^verbatim>\<open>str()\<close> on integers and the
  parts of \<^verbatim>\<open>argparse\<close> the drivers use are library code, modelled from
  their documentation: long options taking one value, \<^verbatim>\<open>--opt=value\<close>,
  unambiguous abbreviations, the last occurrence winning, and exit status 2
  on any error.
\<close>

section \<open>Python's int() and str() on integers\<close>

definition is_space :: "char \<Rightarrow> bool" where
  "is_space c \<longleftrightarrow> (of_char c :: nat) \<in> {32, 9, 10, 11, 12, 13}"

definition is_digit :: "char \<Rightarrow> bool" where
  "is_digit c \<longleftrightarrow> 48 \<le> (of_char c :: nat) \<and> (of_char c :: nat) \<le> 57"

definition digit_val :: "char \<Rightarrow> nat" where
  "digit_val c = of_char c - 48"

text \<open>\<^verbatim>\<open>s.strip()\<close> for the ASCII white space \<^verbatim>\<open>int()\<close> ignores.\<close>

definition py_strip :: "string \<Rightarrow> string" where
  "py_strip s = rev (dropWhile is_space (rev (dropWhile is_space s)))"

text \<open>Decimal digits, with single underscores allowed between two digits.\<close>

fun dec_digits :: "nat \<Rightarrow> string \<Rightarrow> nat option" where
  "dec_digits acc [] = Some acc"
| "dec_digits acc (c # cs) =
     (if is_digit c then dec_digits (10 * acc + digit_val c) cs
      else if c = CHR ''_'' then
        (case cs of d # ds \<Rightarrow> if is_digit d then dec_digits (10 * acc + digit_val d) ds else None
                  | [] \<Rightarrow> None)
      else None)"

definition unsigned_int :: "string \<Rightarrow> nat option" where
  "unsigned_int s = (case s of c # _ \<Rightarrow> if is_digit c then dec_digits 0 s else None | [] \<Rightarrow> None)"

text \<open>\<^verbatim>\<open>int(s)\<close> for a string \<open>s\<close> (base 10): \<^verbatim>\<open>ValueError\<close> unless the
  stripped string is an optional sign followed by digits.\<close>

definition py_int :: "string \<Rightarrow> int result" where
  "py_int s =
     (let t = py_strip s;
          err = Inl (ValueError (''invalid literal for int() with base 10: '' @ [CHR 0x27] @ s @ [CHR 0x27]))
      in case t of
           c # r \<Rightarrow>
             (if c = CHR ''-'' then (case unsigned_int r of Some n \<Rightarrow> Inr (- int n) | None \<Rightarrow> err)
              else if c = CHR ''+'' then (case unsigned_int r of Some n \<Rightarrow> Inr (int n) | None \<Rightarrow> err)
              else (case unsigned_int t of Some n \<Rightarrow> Inr (int n) | None \<Rightarrow> err))
         | [] \<Rightarrow> err)"

text \<open>\<^verbatim>\<open>str(n)\<close>: the decimal digits, with a minus sign for negatives.\<close>

fun show_nat :: "nat \<Rightarrow> string" where
  "show_nat n = (if n < 10 then [char_of (48 + n)] else show_nat (n div 10) @ [char_of (48 + n mod 10)])"

declare show_nat.simps [simp del]

definition py_str_int :: "int \<Rightarrow> string" where
  "py_str_int i = (if i < 0 then CHR ''-'' # show_nat (nat (- i)) else show_nat (nat i))"


section \<open>The drivers' command line\<close>

text \<open>
  One \<^verbatim>\<open>parser.add_argument\<close>: the destination, whether it is required and
  its default. Every option of the drivers stores one string value.
\<close>

record opt_spec =
  opt_dest :: string
  opt_required :: bool
  opt_default :: "string option"

text \<open>
  The nine options of both drivers. \<^verbatim>\<open>--local_rank\<close> is declared with
  \<^verbatim>\<open>required=int\<close>: the class \<^verbatim>\<open>int\<close> is truthy, so the option is
  required, and it has no \<^verbatim>\<open>type\<close>, so its value stays a string.
\<close>

definition arg_specs :: "opt_spec list" where
  "arg_specs =
     [\<lparr>opt_dest = ''arch_ckpt'', opt_required = True, opt_default = None\<rparr>,
      \<lparr>opt_dest = ''checkpoint'', opt_required = False, opt_default = None\<rparr>,
      \<lparr>opt_dest = ''fold'', opt_required = True, opt_default = None\<rparr>,
      \<lparr>opt_dest = ''json'', opt_required = True, opt_default = None\<rparr>,
      \<lparr>opt_dest = ''json_key'', opt_required = True, opt_default = None\<rparr>,
      \<lparr>opt_dest = ''local_rank'', opt_required = True, opt_default = None\<rparr>,
      \<lparr>opt_dest = ''num_folds'', opt_required = True, opt_default = None\<rparr>,
      \<lparr>opt_dest = ''output_root'', opt_required = True, opt_default = None\<rparr>,
      \<lparr>opt_dest = ''root'', opt_required = True, opt_default = None\<rparr>]"

text \<open>\<^verbatim>\<open>args\<close>: every destination, with its string value or \<^verbatim>\<open>None\<close>.\<close>

type_synonym namespace = "(string \<times> string option) list"

text \<open>
  The option a token names: an exact option string, or else the only one
  it abbreviates; none or several is an error (exit status 2).
\<close>

definition match_option :: "opt_spec list \<Rightarrow> string \<Rightarrow> opt_spec result" where
  "match_option specs name =
     (let exact = filter (\<lambda>sp. ''--'' @ opt_dest sp = name) specs;
          abbrev = filter (\<lambda>sp. take (length name) (''--'' @ opt_dest sp) = name) specs
      in if exact \<noteq> [] then Inr (hd exact)
         else if take 2 name = ''--'' \<and> length abbrev = 1 then Inr (hd abbrev)
         else Inl (SystemExit 2))"

text \<open>
  \<^verbatim>\<open>argparse\<close>'s classification of a token: it starts an option unless it
  is \<^verbatim>\<open>-\<close>, looks like a negative number (the drivers have no option that
  does) or contains a space.
\<close>

definition neg_number_like :: "string \<Rightarrow> bool" where
  "neg_number_like t =
     (case t of
        c # r \<Rightarrow> c = CHR ''-'' \<and>
          (let a = takeWhile is_digit r; b = dropWhile is_digit r in
           (a \<noteq> [] \<and> b = []) \<or>
           (case b of d # e \<Rightarrow> d = CHR ''.'' \<and> e \<noteq> [] \<and> list_all is_digit e | [] \<Rightarrow> False))
      | [] \<Rightarrow> False)"

definition option_like :: "string \<Rightarrow> bool" where
  "option_like t \<longleftrightarrow> t \<noteq> [] \<and> hd t = CHR ''-'' \<and> t \<noteq> ''-'' \<and> \<not> neg_number_like t \<and> CHR '' '' \<notin> set t"

text \<open>
  One pass of the loop over the tokens: \<^verbatim>\<open>--\<close> ends the options, an
  option takes its value after \<^verbatim>\<open>=\<close> or from the next token, anything else
  is an unrecognized argument. The state is the tokens left, the values
  seen (the last occurrence wins) and the error, if any.
\<close>

type_synonym parse_state = "string list \<times> (string \<rightharpoonup> string) \<times> py_error option"

fun parse_step :: "opt_spec list \<Rightarrow> parse_state \<Rightarrow> parse_state" where
  "parse_step specs ([], seen, err) = ([], seen, err)"
| "parse_step specs (t # ts, seen, err) =
     (if t = ''--'' then (if ts = [] then ([], seen, None) else ([], seen, Some (SystemExit 2)))
      else if option_like t then
        (let name = takeWhile (\<lambda>c. c \<noteq> CHR ''='') t;
             explicit = (if CHR ''='' \<in> set t then Some (tl (dropWhile (\<lambda>c. c \<noteq> CHR ''='') t)) else None)
         in case match_option specs name of
              Inl e \<Rightarrow> ([], seen, Some e)
            | Inr sp \<Rightarrow>
                (case explicit of
                   Some v \<Rightarrow> (ts, seen(opt_dest sp \<mapsto> v), None)
                 | None \<Rightarrow>
                     (case ts of
                        v # ts' \<Rightarrow> if option_like v \<or> v = ''--'' then ([], seen, Some (SystemExit 2))
                                  else (ts', seen(opt_dest sp \<mapsto> v), None)
                      | [] \<Rightarrow> ([], seen, Some (SystemExit 2)))))
      else ([], seen, Some (SystemExit 2)))"

definition parse_loop :: "opt_spec list \<Rightarrow> string list \<Rightarrow> parse_state option" where
  "parse_loop specs argv =
     while_option (\<lambda>(toks, seen, err). toks \<noteq> [] \<and> err = None) (parse_step specs) (argv, Map.empty, None)"

text \<open>
  \<^verbatim>\<open>parser.parse_args()\<close>: after the loop, a missing required option is
  an error; otherwise every destination gets its value or its default.
  \<open>None\<close> would be a loop that does not stop.
\<close>

definition namespace_of :: "opt_spec list \<Rightarrow> (string \<rightharpoonup> string) \<Rightarrow> namespace" where
  "namespace_of specs seen =
     map (\<lambda>sp. (opt_dest sp, case seen (opt_dest sp) of Some v \<Rightarrow> Some v | None \<Rightarrow> opt_default sp)) specs"

definition parse_args :: "opt_spec list \<Rightarrow> string list \<Rightarrow> namespace result option" where
  "parse_args specs argv =
     map_option (\<lambda>(toks, seen, err).
         case err of
           Some e \<Rightarrow> Inl e
         | None \<Rightarrow> if list_ex (\<lambda>sp. opt_required sp \<and> seen (opt_dest sp) = None) specs
                   then Inl (SystemExit 2) else Inr (namespace_of specs seen))
       (parse_loop specs argv)"

section \<open>The configuration\<close>

text \<open>
  \<^verbatim>\<open>int(args.d)\<close>: \<^verbatim>\<open>int(None)\<close> is a \<^verbatim>\<open>TypeError\<close>, a
  missing attribute an \<^verbatim>\<open>AttributeError\<close>.
\<close>

definition ns_int :: "namespace \<Rightarrow> string \<Rightarrow> int result" where
  "ns_int ns d =
     (case map_of ns d of
        Some (Some s) \<Rightarrow> py_int s
      | Some None \<Rightarrow> Inl (TypeError ''int() argument must be a string, a bytes-like object or a real number'')
      | None \<Rightarrow> Inl (AttributeError d))"

record driver_config =
  cfg_amp :: bool
  cfg_determ :: bool
  cfg_fold :: int
  cfg_num_images_per_batch :: nat
  cfg_num_epochs :: nat
  cfg_num_epochs_per_validation :: nat
  cfg_num_folds :: int
  cfg_output_classes :: nat

text \<open>The hyper-parameter block of the search driver (search lines 162--179).\<close>

definition search_config :: "namespace \<Rightarrow> driver_config result" where
  "search_config ns =
     bind_result (ns_int ns ''fold'') (\<lambda>fold.
     bind_result (ns_int ns ''num_folds'') (\<lambda>num_folds.
       Inr \<lparr>cfg_amp = True, cfg_determ = False, cfg_fold = fold, cfg_num_images_per_batch = 2,
            cfg_num_epochs = 1000, cfg_num_epochs_per_validation = 20, cfg_num_folds = num_folds,
            cfg_output_classes = 3\<rparr>))"

text \<open>The training driver's block (train lines 156--173) sets the same values.\<close>

definition train_config :: "namespace \<Rightarrow> driver_config result" where
  "train_config ns = search_config ns"

text \<open>
  \<^verbatim>\<open>if args.checkpoint != None and os.path.isfile(args.checkpoint)\<close>
  (search lines 352--357): fine-tune from the given weights, or train from
  scratch; \<^verbatim>\<open>and\<close> short-circuits, so \<^verbatim>\<open>isfile\<close> is only asked of a
  string. The file system is a predicate on paths.
\<close>

datatype weights_origin = FineTune string | FromScratch

definition choose_weights :: "namespace \<Rightarrow> (string \<Rightarrow> bool) \<Rightarrow> weights_origin result" where
  "choose_weights ns isfile =
     (case map_of ns ''checkpoint'' of
        None \<Rightarrow> Inl (AttributeError ''checkpoint'')
      | Some None \<Rightarrow> Inr FromScratch
      | Some (Some p) \<Rightarrow> Inr (if isfile p then FineTune p else FromScratch))"

text \<open>The training driver's test (train lines 334--339), written as in the search driver.\<close>

definition train_choose_weights :: "namespace \<Rightarrow> (string \<Rightarrow> bool) \<Rightarrow> weights_origin result" where
  "train_choose_weights ns isfile =
     (case map_of ns ''checkpoint'' of
        None \<Rightarrow> Inl (AttributeError ''checkpoint'')
      | Some None \<Rightarrow> Inr FromScratch
      | Some (Some p) \<Rightarrow> Inr (if isfile p then FineTune p else FromScratch))"

text \<open>
  The first block of each driver: \<^verbatim>\<open>parser.parse_args()\<close> on the
  command line, then the hyper-parameters (search lines 96--175, train
  lines 95--169). \<open>None\<close> would be a parser that does not return.
\<close>

definition search_args :: "string list \<Rightarrow> driver_config result option" where
  "search_args argv = map_option (\<lambda>r. bind_result r search_config) (parse_args arg_specs argv)"

definition train_args :: "string list \<Rightarrow> driver_config result option" where
  "train_args argv = map_option (\<lambda>r. bind_result r train_config) (parse_args arg_specs argv)"

section \<open>Reading back a printed integer\<close>

lemma digit_char [simp]:
  assumes "d < 10"
  shows "is_digit (char_of (48 + d))" and "\<not> is_space (char_of (48 + d))"
    and "digit_val (char_of (48 + d)) = d"
  using assms by (auto simp: is_digit_def is_space_def digit_val_def)

lemma show_nat_digits: "\<forall>c \<in> set (show_nat n). is_digit c \<and> \<not> is_space c"
proof (induction n rule: show_nat.induct)
  case (1 n)
  then show ?case
    by (subst show_nat.simps) simp
qed

lemma show_nat_Cons: "\<exists>c cs. show_nat n = c # cs"
proof (induction n rule: show_nat.induct)
  case (1 n)
  then show ?case
    by (cases "n < 10") (auto simp: show_nat.simps [of n])
qed

lemma dec_digits_all:
  "\<forall>c \<in> set xs. is_digit c \<Longrightarrow> dec_digits acc xs = Some (foldl (\<lambda>a c. 10 * a + digit_val c) acc xs)"
  by (induction xs arbitrary: acc) auto

lemma foldl_show_nat: "foldl (\<lambda>a c. 10 * a + digit_val c) 0 (show_nat n) = n"
proof (induction n rule: show_nat.induct)
  case (1 n)
  then show ?case
    by (cases "n < 10") (simp_all add: show_nat.simps [of n])
qed

lemma py_strip_id:
  assumes "\<forall>c \<in> set s. \<not> is_space c"
  shows "py_strip s = s"
proof -
  have "dropWhile is_space s = s"
    using assms by (simp add: dropWhile_eq_self_iff hd_in_set)
  moreover have "dropWhile is_space (rev s) = rev s"
    using assms by (cases "s = []") (simp_all add: dropWhile_eq_self_iff hd_rev)
  ultimately show ?thesis
    by (simp add: py_strip_def)
qed

lemma unsigned_int_show_nat: "unsigned_int (show_nat n) = Some n"
proof -
  obtain c cs where c: "show_nat n = c # cs"
    using show_nat_Cons by blast
  then have "is_digit c"
    using show_nat_digits [of n] by simp
  then show ?thesis
    using c dec_digits_all [of "show_nat n" 0] show_nat_digits [of n] foldl_show_nat [of n]
    by (simp add: unsigned_int_def)
qed


text \<open>Reading back what \<^verbatim>\<open>str()\<close> prints: \<^verbatim>\<open>int(str(i)) == i\<close> for every integer.\<close>

lemma py_int_roundtrip: "py_int (py_str_int i) = Inr i"
proof (cases "i < 0")
  case True
  have "\<forall>c \<in> set (CHR ''-'' # show_nat (nat (- i))). \<not> is_space c"
    using show_nat_digits [of "nat (- i)"] by (simp add: is_space_def)
  then have "py_strip (py_str_int i) = CHR ''-'' # show_nat (nat (- i))"
    using True by (simp add: py_str_int_def py_strip_id)
  then show ?thesis
    using True by (simp add: py_int_def py_str_int_def unsigned_int_show_nat)
next
  case False
  obtain c cs where c: "show_nat (nat i) = c # cs"
    using show_nat_Cons by blast
  then have "is_digit c"
    using show_nat_digits [of "nat i"] by simp
  then have "c \<noteq> CHR ''-''" and "c \<noteq> CHR ''+''"
    by (auto simp: is_digit_def)
  moreover have "py_strip (py_str_int i) = show_nat (nat i)"
    using False show_nat_digits [of "nat i"] by (simp add: py_str_int_def py_strip_id)
  ultimately show ?thesis
    using False c unsigned_int_show_nat [of "nat i"] by (simp add: py_int_def py_str_int_def)
qed


section \<open>The parser stops, and its namespace is well typed\<close>

definition parse_measure :: "parse_state \<Rightarrow> nat" where
  "parse_measure st = (case st of (toks, seen, err) \<Rightarrow> length toks + (if err = None then 1 else 0))"

lemma parse_step_decreases:
  "parse_measure (parse_step specs (t # ts, seen, None)) < parse_measure (t # ts, seen, None)"
  by (auto simp: parse_measure_def Let_def split: sum.splits option.splits list.splits)

lemma parse_loop_terminates: "\<exists>t. parse_loop specs argv = Some t"
  unfolding parse_loop_def
proof (rule measure_while_option_Some [where P = "\<lambda>_. True" and f = parse_measure])
  fix st :: parse_state
  assume "(\<lambda>(toks, seen, err). toks \<noteq> [] \<and> err = None) st"
  then obtain t ts seen where st: "st = (t # ts, seen, None)"
    by (cases st) (auto simp: neq_Nil_conv)
  show "True \<and> parse_measure (parse_step specs st) < parse_measure st"
    using parse_step_decreases [of specs t ts seen] by (simp only: st simp_thms)
qed simp

text \<open>The token loop of \<^verbatim>\<open>parse_args\<close> stops: each pass consumes a token or records an error.\<close>

lemma parse_args_terminates: "\<exists>r. parse_args specs argv = Some r"
  using parse_loop_terminates [of specs argv] by (auto simp: parse_args_def)

text \<open>Every destination is an attribute, and a required one holds a string.\<close>

definition ns_typed :: "opt_spec list \<Rightarrow> namespace \<Rightarrow> bool" where
  "ns_typed specs ns =
     list_all (\<lambda>sp. case map_of ns (opt_dest sp) of
                        None \<Rightarrow> False
                      | Some None \<Rightarrow> \<not> opt_required sp
                      | Some (Some v) \<Rightarrow> True) specs"

lemma map_of_namespace_of:
  assumes "sp \<in> set specs"
  shows "\<exists>sp' :: opt_spec. map_of (namespace_of specs seen) (opt_dest sp)
                = Some (case seen (opt_dest sp) of Some v \<Rightarrow> Some v | None \<Rightarrow> opt_default sp')"
  using assms
proof (induction specs)
  case Nil
  then show ?case by simp
next
  case (Cons a specs)
  show ?case
  proof (cases "opt_dest a = opt_dest sp")
    case True
    then have "map_of (namespace_of (a # specs) seen) (opt_dest sp)
               = Some (case seen (opt_dest sp) of Some v \<Rightarrow> Some v | None \<Rightarrow> opt_default a)"
      by (simp add: namespace_of_def)
    then show ?thesis
      by blast
  next
    case False
    then have "sp \<in> set specs"
      using Cons.prems by auto
    then show ?thesis
      using Cons.IH False by (simp add: namespace_of_def)
  qed
qed

text \<open>
  When \<^verbatim>\<open>parse_args\<close> returns, the namespace is well typed: every
  option is an attribute, and every required option holds a string.
\<close>

lemma parse_args_typed:
  assumes "parse_args specs argv = Some (Inr ns)"
  shows "ns_typed specs ns"
proof -
  obtain toks seen where loop: "parse_loop specs argv = Some (toks, seen, None)"
    and req: "\<not> list_ex (\<lambda>sp. opt_required sp \<and> seen (opt_dest sp) = None) specs"
    and ns: "ns = namespace_of specs seen"
    using assms by (auto simp: parse_args_def split: option.splits if_splits)
  have "case map_of ns (opt_dest sp) of None \<Rightarrow> False | Some None \<Rightarrow> \<not> opt_required sp | Some (Some v) \<Rightarrow> True"
    if mem: "sp \<in> set specs" for sp
  proof -
    obtain sp' :: opt_spec where m: "map_of ns (opt_dest sp)
        = Some (case seen (opt_dest sp) of Some v \<Rightarrow> Some v | None \<Rightarrow> opt_default sp')"
      using map_of_namespace_of [OF mem] ns by blast
    have "opt_required sp \<Longrightarrow> seen (opt_dest sp) \<noteq> None"
      using req mem by (auto simp: list_ex_iff)
    then show ?thesis
      using m by (auto split: option.splits)
  qed
  then show ?thesis
    by (simp add: ns_typed_def list_all_iff)
qed


text \<open>
  After a successful parse the \<^verbatim>\<open>--checkpoint\<close> test never raises, and
  a path that names no file is ignored without an error: the driver trains
  from scratch.
\<close>

lemma choose_weights_parsed:
  assumes "parse_args arg_specs argv = Some (Inr ns)"
  shows "choose_weights ns isfile =
           Inr (case map_of ns ''checkpoint'' of Some (Some p) \<Rightarrow> if isfile p then FineTune p else FromScratch
                 | _ \<Rightarrow> FromScratch)"
proof -
  have "ns_typed arg_specs ns"
    using parse_args_typed [OF assms] .
  then have "map_of ns ''checkpoint'' \<noteq> None"
    by (auto simp: ns_typed_def arg_specs_def split: option.splits)
  then show ?thesis
    by (auto simp: choose_weights_def split: option.splits)
qed

lemma train_choose_weights_same: "train_choose_weights = choose_weights"
  by (simp add: fun_eq_iff train_choose_weights_def choose_weights_def)

lemma py_int_cases: "(\<exists>i. py_int s = Inr i) \<or> (\<exists>msg. py_int s = Inl (ValueError msg))"
  by (auto simp: py_int_def Let_def split: list.splits option.splits)

lemma ns_int_typed:
  assumes "map_of ns d = Some (Some v)"
  shows "(\<exists>i. ns_int ns d = Inr i) \<or> (\<exists>msg. ns_int ns d = Inl (ValueError msg))"
  using assms py_int_cases [of v] by (simp add: ns_int_def)

text \<open>
  C29. A parsed command line is well typed for the configuration block:
  \<^verbatim>\<open>args.fold\<close> and \<^verbatim>\<open>args.num_folds\<close> exist and hold strings, so the
  block can only fail by \<^verbatim>\<open>int()\<close> raising \<^verbatim>\<open>ValueError\<close> on a string that
  is not an integer, never with \<^verbatim>\<open>AttributeError\<close> or \<^verbatim>\<open>TypeError\<close>.
\<close>

theorem search_config_typed:
  assumes "parse_args arg_specs argv = Some (Inr ns)"
  shows "(\<exists>cfg. search_config ns = Inr cfg) \<or> (\<exists>msg. search_config ns = Inl (ValueError msg))"
proof -
  have "ns_typed arg_specs ns"
    using parse_args_typed [OF assms] .
  then obtain v w where f: "map_of ns ''fold'' = Some (Some v)" and k: "map_of ns ''num_folds'' = Some (Some w)"
    by (auto simp: ns_typed_def arg_specs_def split: option.splits)
  show ?thesis
    using ns_int_typed [OF f] ns_int_typed [OF k] by (auto simp: search_config_def)
qed

theorem search_config_typed_witness:
  "parse_args arg_specs
     [''--arch_ckpt'', ''a.pth'', ''--fold'', ''-1'', ''--json'', ''d.json'', ''--json_key'', ''training'', ''--local_rank'', ''0'', ''--num_f=5'', ''--output_root'', ''out'', ''--root'', ''/d'']
   = Some (Inr [(''arch_ckpt'', Some ''a.pth''), (''checkpoint'', None), (''fold'', Some ''-1''), (''json'', Some ''d.json''), (''json_key'', Some ''training''), (''local_rank'', Some ''0''), (''num_folds'', Some ''5''), (''output_root'', Some ''out''), (''root'', Some ''/d'')])
   \<and> ((\<exists>cfg. search_config [(''arch_ckpt'', Some ''a.pth''), (''checkpoint'', None), (''fold'', Some ''-1''), (''json'', Some ''d.json''), (''json_key'', Some ''training''), (''local_rank'', Some ''0''), (''num_folds'', Some ''5''), (''output_root'', Some ''out''), (''root'', Some ''/d'')] = Inr cfg)
        \<or> (\<exists>msg. search_config [(''arch_ckpt'', Some ''a.pth''), (''checkpoint'', None), (''fold'', Some ''-1''), (''json'', Some ''d.json''), (''json_key'', Some ''training''), (''local_rank'', Some ''0''), (''num_folds'', Some ''5''), (''output_root'', Some ''out''), (''root'', Some ''/d'')] = Inl (ValueError msg)))"
proof -
  have h: "parse_args arg_specs
     [''--arch_ckpt'', ''a.pth'', ''--fold'', ''-1'', ''--json'', ''d.json'', ''--json_key'', ''training'', ''--local_rank'', ''0'', ''--num_f=5'', ''--output_root'', ''out'', ''--root'', ''/d'']
   = Some (Inr [(''arch_ckpt'', Some ''a.pth''), (''checkpoint'', None), (''fold'', Some ''-1''), (''json'', Some ''d.json''), (''json_key'', Some ''training''), (''local_rank'', Some ''0''), (''num_folds'', Some ''5''), (''output_root'', Some ''out''), (''root'', Some ''/d'')])"
    by code_simp
  show ?thesis
    using search_config_typed [OF h] h by simp
qed

end
