(* ===== verification/Folds.thy ===== *)
theory Folds
  imports PySemantics
begin

text \<open>
  The data-selection step shared by \<^verbatim>\<open>search_dints.py\<close> (lines 189--229)
  and \<^verbatim>\<open>train_dints.py\<close> (lines 183--215): the dataset manifest's list
  under \<^verbatim>\<open>--json_key\<close> is cut into a training and a validation part for
  fold \<^verbatim>\<open>--fold\<close> of \<^verbatim>\<open>--num_folds\<close>, and each part's entries are turned
  into image/label path pairs under \<^verbatim>\<open>--root\<close>, skipping entries whose
  files do not exist. The file system is a predicate on paths.
\<close>

section \<open>Data\<close>

text \<open>
  A manifest entry is a JSON object with string values; the manifest is an
  object whose values are lists of entries. A selected file pair is the
  dictionary \<^verbatim>\<open>{"image": str_img, "label": str_seg}\<close>.
\<close>

type_synonym json_entry = "string \<rightharpoonup> string"
type_synonym json_manifest = "string \<rightharpoonup> json_entry list"

record file_pair =
  image :: string
  label :: string

section \<open>Fold split\<close>

text \<open>
  \<^verbatim>\<open>split = len(data) // num_folds\<close>; the validation fold is
  \<^verbatim>\<open>data[split*fold : split*(fold+1)]\<close>, the training part is everything
  before and after it.
\<close>

definition fold_split :: "'a list \<Rightarrow> int \<Rightarrow> int \<Rightarrow> ('a list \<times> 'a list) result" where
  "fold_split data num_folds fold_no =
     bind_result (py_floordiv (int (length data)) num_folds) (\<lambda>split.
       Inr (py_slice data None (Some (split * fold_no)) @ py_slice data (Some (split * (fold_no + 1))) None,
            py_slice data (Some (split * fold_no)) (Some (split * (fold_no + 1)))))"

text \<open>The manifest lookup \<^verbatim>\<open>json_data[args.json_key]\<close> followed by the split.\<close>

definition select_fold ::
  "json_manifest \<Rightarrow> string \<Rightarrow> int \<Rightarrow> int \<Rightarrow> (json_entry list \<times> json_entry list) result" where
  "select_fold json_data json_key num_folds fold_no =
     bind_result (py_getitem json_data json_key) (\<lambda>data. fold_split data num_folds fold_no)"

section \<open>Collecting existing files\<close>

text \<open>
  The loop \<^verbatim>\<open>for _i in range(len(lst))\<close>: both keys are read (a missing
  one raises \<^verbatim>\<open>KeyError\<close>), joined to the root, and the pair is appended
  to \<^verbatim>\<open>files\<close> unless one of the two paths does not exist (\<^verbatim>\<open>continue\<close>).
\<close>

fun collect_files_loop ::
  "(string \<Rightarrow> bool) \<Rightarrow> string \<Rightarrow> file_pair list \<Rightarrow> json_entry list \<Rightarrow> file_pair list result" where
  "collect_files_loop path_exists data_root files [] = Inr files"
| "collect_files_loop path_exists data_root files (e # es) =
     bind_result (py_getitem e ''image'') (\<lambda>img.
     bind_result (py_getitem e ''label'') (\<lambda>seg.
       (let str_img = path_join data_root img; str_seg = path_join data_root seg in
        if \<not> path_exists str_img \<or> \<not> path_exists str_seg then collect_files_loop path_exists data_root files es
        else collect_files_loop path_exists data_root (files @ [\<lparr>image = str_img, label = str_seg\<rparr>]) es)))"

definition collect_files :: "(string \<Rightarrow> bool) \<Rightarrow> string \<Rightarrow> json_entry list \<Rightarrow> file_pair list result" where
  "collect_files path_exists data_root entries = collect_files_loop path_exists data_root [] entries"

text \<open>The pair an entry with both keys stands for, and whether its files exist.\<close>

definition entry_pair :: "string \<Rightarrow> json_entry \<Rightarrow> file_pair option" where
  "entry_pair data_root e =
     (case (e ''image'', e ''label'') of
        (Some img, Some seg) \<Rightarrow> Some \<lparr>image = path_join data_root img, label = path_join data_root seg\<rparr>
      | _ \<Rightarrow> None)"

definition pair_exists :: "(string \<Rightarrow> bool) \<Rightarrow> file_pair \<Rightarrow> bool" where
  "pair_exists path_exists p \<longleftrightarrow> path_exists (image p) \<and> path_exists (label p)"

section \<open>The fold split\<close>

lemma fold_split_nat:
  assumes "0 < k"
  shows "fold_split data (int k) (int f) =
    Inr (take (length data div k * f) data @ drop (length data div k * (f + 1)) data,
         take (length data div k) (drop (length data div k * f) data))"
proof -
  define s where "s = length data div k"
  have "int (length data) div int k = int s"
    by (simp add: s_def zdiv_int)
  moreover have "int s * int f = int (s * f)" and "int s * (int f + 1) = int (s * (f + 1))"
    by (simp_all add: algebra_simps)
  moreover have "nat (int s + int (s * f)) = s + s * f"
    by (simp only: of_nat_add [symmetric] nat_int)
  ultimately show ?thesis
    using assms by (simp add: fold_split_def py_simps s_def [symmetric] del: of_nat_mult)
qed

text \<open>
  C1. For a positive number of folds and a non-negative fold index the split
  never raises, and the training and validation parts together hold exactly
  the manifest's entries (as a multiset); the validation part is the block of
  \<open>len(data) // num_folds\<close> entries at the fold's offset, cut at the end.
\<close>

theorem fold_split_partition:
  assumes "0 < k"
  shows "\<exists>tr va. fold_split data (int k) (int f) = Inr (tr, va)
           \<and> mset tr + mset va = mset data
           \<and> va = take (length data div k) (drop (length data div k * f) data)"
proof -
  define s where "s = length data div k"
  have "mset (take (s * f) data) + mset (take s (drop (s * f) data)) + mset (drop (s * f + s) data)
        = mset data"
    by (rule mset_take_drop_three)
  then have "mset (take (s * f) data @ drop (s * (f + 1)) data) + mset (take s (drop (s * f) data))
             = mset data"
    by (simp add: algebra_simps)
  then show ?thesis
    using fold_split_nat [OF assms, of data f] by (simp add: s_def)
qed

theorem fold_split_partition_witness:
  "\<exists>tr va. fold_split [0..<7::nat] (int 3) (int 1) = Inr (tr, va)
     \<and> mset tr + mset va = mset [0..<7::nat]
     \<and> va = take (length [0..<7::nat] div 3) (drop (length [0..<7::nat] div 3 * 1) [0..<7::nat])"
  using fold_split_partition [of 3 "[0..<7::nat]" 1] by simp

text \<open>
  The validation folds \<open>0, \<dots>, num_folds - 1\<close> are consecutive blocks:
  read one after the other they give back the first
  \<open>num_folds * (len(data) // num_folds)\<close> entries of the manifest, each once.
\<close>

theorem validation_folds_cover:
  assumes "0 < k"
  shows "concat (map (\<lambda>f. snd (projr (fold_split data (int k) (int f)))) [0..<k])
         = take (k * (length data div k)) data"
proof -
  have "concat (map (\<lambda>f. snd (projr (fold_split data (int k) (int f)))) [0..<k])
        = concat (map (\<lambda>f. take (length data div k) (drop (length data div k * f) data)) [0..<k])"
    by (intro arg_cong [where f = concat] map_cong refl) (simp add: fold_split_nat [OF assms])
  also have "\<dots> = take (k * (length data div k)) data"
    by (rule concat_take_blocks)
  finally show ?thesis .
qed

theorem validation_folds_cover_witness:
  "0 < (3::nat) \<and> concat (map (\<lambda>f. snd (projr (fold_split [0..<7::nat] (int 3) (int f)))) [0..<3])
     = take (3 * (length [0..<7::nat] div 3)) [0..<7::nat]"
  using validation_folds_cover [of 3 "[0..<7::nat]"] by simp

text \<open>
  C3. The last \<open>len(data) mod num_folds\<close> entries are never validated: for
  every fold in range they end the training part.
\<close>

theorem fold_remainder_always_trained:
  assumes "0 < k" and "f < k"
    and "fold_split data (int k) (int f) = Inr (tr, va)"
  shows "\<exists>p. tr = p @ drop (k * (length data div k)) data"
proof -
  define s where "s = length data div k"
  have "s * (f + 1) \<le> s * k"
    using assms(2) by (intro mult_le_mono2) simp
  then have "s * (f + 1) \<le> k * s"
    by (simp add: mult.commute)
  then have "drop (s * (f + 1)) data = take (k * s - s * (f + 1)) (drop (s * (f + 1)) data) @ drop (k * s) data"
    by (metis append_take_drop_id drop_drop le_add_diff_inverse2)
  moreover have "tr = take (s * f) data @ drop (s * (f + 1)) data"
    using assms(3) fold_split_nat [OF assms(1), of data f] by (simp add: s_def)
  ultimately show ?thesis
    by (metis append_assoc s_def)
qed

theorem fold_remainder_always_trained_witness:
  "\<exists>p. [0::nat, 3, 4, 5, 6] = p @ drop (3 * (length [0..<7::nat] div 3)) [0..<7::nat]"
proof -
  have "fold_split [0..<7::nat] (int 3) (int 0) = Inr ([2, 3, 4, 5, 6], [0, 1])"
    using fold_split_nat [of 3 "[0..<7::nat]" 0] by (simp add: upt_rec)
  from fold_remainder_always_trained [OF _ _ this] show ?thesis
    by simp
qed

text \<open>The split for fold \<open>-1\<close>: \<^verbatim>\<open>data[:-split] + data[0:]\<close> and \<^verbatim>\<open>data[-split:0]\<close>.\<close>

lemma fold_split_minus_one:
  assumes "0 < k" and "k \<le> length data"
  shows "fold_split data (int k) (-1) = Inr (take (length data - length data div k) data @ data, [])"
proof -
  have "int (length data) div int k = int (length data div k)"
    by (simp add: zdiv_int)
  moreover have "0 < length data div k"
    using assms by (simp add: div_greater_zero_iff)
  moreover have "nat (int (length data) - int (length data div k)) = length data - length data div k"
    by simp
  ultimately show ?thesis
    using assms by (simp add: fold_split_def py_simps py_slice_def slice_index_def Let_def)
qed

text \<open>The split for a fold \<open>f \<le> -2\<close>: Python's negative slice bounds count from the end.\<close>

lemma fold_split_negative_block:
  assumes "0 < k" and "k \<le> length data" and "- int k \<le> f" and "f \<le> -2"
  defines "s \<equiv> length data div k"
  defines "a \<equiv> nat (int (length data) + int s * f)"
  shows "fold_split data (int k) f = Inr (take a data @ drop (a + s) data, take s (drop a data))"
proof -
  let ?n = "length data"
  have sk: "s * k \<le> ?n"
    using div_mult_mod_eq [of "length data" k] unfolding s_def by linarith
  have s0: "0 < s"
    using assms(1,2) unfolding s_def by (simp add: div_greater_zero_iff)
  have "int s * (- int k) \<le> int s * f"
    using assms(3) by (intro mult_left_mono) simp_all
  then have lo: "0 \<le> int ?n + int s * f"
    using sk by (simp add: of_nat_mult [symmetric] del: of_nat_mult)
  have hi: "int s * (f + 1) < 0"
    using s0 assms(4) by (simp add: mult_pos_neg)
  have hi2: "0 \<le> int ?n + int s * (f + 1)"
    using lo s0 by (simp add: distrib_left)
  have d: "int (length data) div int k = int s"
    unfolding s_def by (simp add: zdiv_int)
  have b: "nat (int ?n + int s * (f + 1)) = a + s"
    using lo unfolding a_def by (simp add: distrib_left nat_add_distrib)
  have sf: "int s * f < 0"
    using s0 assms(4) by (simp add: mult_pos_neg)
  have "a + s \<le> ?n"
    using hi b by linarith
  then show ?thesis
    using lo hi hi2 sf b assms(1)
    by (simp add: fold_split_def py_floordiv_def d py_slice_def slice_index_def Let_def a_def max_def min_def
                  algebra_simps)
qed

text \<open>
  C4. The script never checks that the fold index lies in
  \<open>[0, num_folds)\<close>. A negative fold \<open>f \<ge> -num_folds\<close> is read by Python's
  negative slicing: fold \<open>-1\<close> validates on nothing and trains on the whole
  data plus its head a second time, and a fold \<open>f \<le> -2\<close> is a valid split
  whose validation block is the one \<open>|f|\<close> block lengths from the end, not
  from the start as \<open>f\<close> would be.
\<close>

theorem fold_split_negative_fold:
  assumes "0 < k" and "k \<le> length data" and "- int k \<le> f" and "f < 0"
  shows "\<exists>tr va. fold_split data (int k) f = Inr (tr, va)
           \<and> (f = -1 \<longrightarrow> va = [] \<and> tr = take (length data - length data div k) data @ data)
           \<and> (f \<le> -2 \<longrightarrow> mset tr + mset va = mset data
                        \<and> va = take (length data div k) (drop (nat (int (length data) + int (length data div k) * f)) data))"
proof (cases "f = -1")
  case True
  then show ?thesis
    using fold_split_minus_one [OF assms(1,2)] by simp
next
  case False
  then have f2: "f \<le> -2"
    using assms(4) by simp
  let ?s = "length data div k"
  let ?a = "nat (int (length data) + int ?s * f)"
  have "mset (take ?a data @ drop (?a + ?s) data) + mset (take ?s (drop ?a data)) = mset data"
    using mset_take_drop_three [of ?a data ?s] by (simp add: ac_simps)
  then show ?thesis
    using fold_split_negative_block [OF assms(1-3) f2] f2 by simp
qed

theorem fold_split_negative_fold_witness:
  "\<exists>tr va. fold_split [0..<12::nat] (int 5) (-2) = Inr (tr, va)
     \<and> ((-2::int) = -1 \<longrightarrow> va = [] \<and> tr = take (length [0..<12::nat] - length [0..<12::nat] div 5) [0..<12] @ [0..<12])
     \<and> ((-2::int) \<le> -2 \<longrightarrow> mset tr + mset va = mset [0..<12::nat]
          \<and> va = take (length [0..<12::nat] div 5) (drop (nat (int (length [0..<12::nat]) + int (length [0..<12::nat] div 5) * (-2))) [0..<12]))"
  by (rule fold_split_negative_fold) simp_all

text \<open>
  C5. When every entry has both keys, collecting the files never raises and
  yields, in manifest order, the root-joined pairs of the entries whose two
  files exist.
\<close>

lemma collect_files_loop_ok:
  "list_all (\<lambda>e. entry_pair data_root e \<noteq> None) es \<Longrightarrow>
   collect_files_loop path_exists data_root files es
   = Inr (files @ filter (pair_exists path_exists) (List.map_filter (entry_pair data_root) es))"
proof (induction es arbitrary: files)
  case Nil
  then show ?case by simp
next
  case (Cons e es)
  then obtain img seg where "e ''image'' = Some img" and "e ''label'' = Some seg"
    by (auto simp: entry_pair_def split: option.splits)
  with Cons show ?case
    by (simp add: entry_pair_def pair_exists_def py_simps Let_def)
qed

theorem collect_files_ok:
  assumes "list_all (\<lambda>e. entry_pair data_root e \<noteq> None) es"
  shows "collect_files path_exists data_root es
         = Inr (filter (pair_exists path_exists) (List.map_filter (entry_pair data_root) es))"
  using collect_files_loop_ok [OF assms] by (simp add: collect_files_def)

theorem collect_files_ok_witness:
  "collect_files (\<lambda>p. p \<noteq> ''/d/b.nii'') ''/d''
      [[''image'' \<mapsto> ''a.nii'', ''label'' \<mapsto> ''a_seg.nii''], [''image'' \<mapsto> ''b.nii'', ''label'' \<mapsto> ''b_seg.nii'']]
   = Inr [\<lparr>image = ''/d/a.nii'', label = ''/d/a_seg.nii''\<rparr>]"
proof -
  have "list_all (\<lambda>e. entry_pair ''/d'' e \<noteq> None)
      [[''image'' \<mapsto> ''a.nii'', ''label'' \<mapsto> ''a_seg.nii''], [''image'' \<mapsto> ''b.nii'', ''label'' \<mapsto> ''b_seg.nii'']]"
    by (simp add: entry_pair_def)
  from collect_files_ok [OF this, of "\<lambda>p. p \<noteq> ''/d/b.nii''"] show ?thesis
    by (simp add: entry_pair_def pair_exists_def path_join_def)
qed

text \<open>
  An entry without an \<^verbatim>\<open>image\<close> or \<^verbatim>\<open>label\<close> key makes the whole
  collection raise \<^verbatim>\<open>KeyError\<close>, whether or not its files exist.
\<close>

lemma collect_files_loop_key_error:
  "\<not> list_all (\<lambda>e. entry_pair data_root e \<noteq> None) es \<Longrightarrow>
   \<exists>k \<in> {''image'', ''label''}. collect_files_loop path_exists data_root files es = Inl (KeyError k)"
proof (induction es arbitrary: files)
  case Nil
  then show ?case by simp
next
  case (Cons e es)
  show ?case
  proof (cases "e ''image''")
    case None
    then show ?thesis by (simp add: py_simps)
  next
    case (Some img)
    show ?thesis
    proof (cases "e ''label''")
      case None
      with Some show ?thesis by (simp add: py_simps)
    next
      case (Some seg)
      with \<open>e ''image'' = Some img\<close> Cons.prems have "\<not> list_all (\<lambda>e. entry_pair data_root e \<noteq> None) es"
        by (simp add: entry_pair_def)
      with Some \<open>e ''image'' = Some img\<close> Cons.IH show ?thesis
        by (simp add: py_simps Let_def)
    qed
  qed
qed

theorem collect_files_key_error:
  assumes "\<not> list_all (\<lambda>e. entry_pair data_root e \<noteq> None) es"
  shows "\<exists>k \<in> {''image'', ''label''}. collect_files path_exists data_root es = Inl (KeyError k)"
  using collect_files_loop_key_error [OF assms] by (simp add: collect_files_def)

theorem collect_files_key_error_witness:
  "\<exists>k \<in> {''image'', ''label''}.
     collect_files (\<lambda>p. True) ''/d'' [[''image'' \<mapsto> ''a.nii'']] = Inl (KeyError k)"
proof -
  have "\<not> list_all (\<lambda>e. entry_pair ''/d'' e \<noteq> None) [[''image'' \<mapsto> ''a.nii'']]"
    by (simp add: entry_pair_def)
  from collect_files_key_error [OF this] show ?thesis .
qed

end
