(* ===== verification/Partition.thy ===== *)
theory Partition
  imports PySemantics
begin

text \<open>
  MONAI's \<^verbatim>\<open>monai.data.partition_dataset\<close> as the drivers call it: without
  \<^verbatim>\<open>ratios\<close>, with \<^verbatim>\<open>num_partitions = dist.get_world_size()\<close>, and each
  rank keeping partition \<^verbatim>\<open>dist.get_rank()\<close>. The library is not part of the
  repository; its behaviour is modelled from its documentation and source:
  the index list (shuffled by a seeded \<^verbatim>\<open>RandomState\<close> that every rank
  shares, here a given permutation) is padded by its own head, or cut, to
  \<^verbatim>\<open>total_size\<close>, and partition \<open>i\<close> takes every \<open>num_partitions\<close>-th index
  from \<open>i\<close> on. Calls: training data with \<^verbatim>\<open>shuffle=True, even_divisible=True\<close>
  (search lines 212 and 215, train line 202), validation data with
  \<^verbatim>\<open>shuffle=False, even_divisible=False\<close> (search line 229, train line 216).
\<close>

text \<open>\<^verbatim>\<open>math.ceil(a / b)\<close> for naturals.\<close>

definition ceil_div :: "nat \<Rightarrow> nat \<Rightarrow> nat" where
  "ceil_div a b = (a + b - 1) div b"

definition partition_dataset ::
  "'a list \<Rightarrow> nat list \<Rightarrow> bool \<Rightarrow> nat \<Rightarrow> bool \<Rightarrow> bool \<Rightarrow> 'a list list result" where
  "partition_dataset data perm shuffle num_partitions drop_last even_divisible =
     (let data_len = length data;
          indices = (if shuffle then perm else [0..<data_len]) in
      if num_partitions = 0 then Inl (ValueError ''must specify number of partitions or ratios.'')
      else if \<not> even_divisible \<and> drop_last
      then Inl (RuntimeError ''drop_last only works when even_divisible is True.'')
      else if data_len < num_partitions
      then Inl (RuntimeError ''there is no enough data to be split into partitions.'')
      else
        (let num_samples = (if drop_last \<and> data_len mod num_partitions \<noteq> 0
                            then ceil_div (data_len - num_partitions) num_partitions
                            else ceil_div data_len num_partitions);
             total_size = (if even_divisible then num_samples * num_partitions else data_len);
             indices = (if \<not> drop_last \<and> total_size > data_len
                        then indices @ take (total_size - data_len) indices
                        else take total_size indices)
         in Inr (map (\<lambda>i. map (\<lambda>j. data ! j) (py_stride indices i total_size num_partitions))
                     [0..<num_partitions])))"

text \<open>The shard a rank keeps: \<^verbatim>\<open>partition_dataset(...)[dist.get_rank()]\<close>.\<close>

definition rank_shard ::
  "'a list \<Rightarrow> nat list \<Rightarrow> bool \<Rightarrow> nat \<Rightarrow> bool \<Rightarrow> nat \<Rightarrow> 'a list result" where
  "rank_shard data perm shuffle world even_divisible rank =
     bind_result (partition_dataset data perm shuffle world False even_divisible)
       (\<lambda>parts. if rank < length parts then Inr (parts ! rank) else Inl IndexError)"

section \<open>Strided slices of an index list\<close>

lemma image_mset_nth_upt:
  "image_mset (\<lambda>j. xs ! j) (mset [0..<length xs]) = mset xs"
proof -
  have "image_mset (\<lambda>j. xs ! j) (mset [0..<length xs]) = mset (map (\<lambda>j. xs ! j) [0..<length xs])"
    by (simp only: mset_map)
  also have "\<dots> = mset xs"
    by (simp only: map_nth)
  finally show ?thesis .
qed

lemma py_stride_residue:
  assumes "i < k" and "length ys = L"
  shows "py_stride ys i L k = map (\<lambda>j. ys ! j) (filter (\<lambda>j. j mod k = i) [0..<L])"
proof -
  have "py_range i L k = filter (\<lambda>j. j mod k = i) [i..<L]"
    using py_range_filter [of k i L] assms(1) by simp
  also have "\<dots> = filter (\<lambda>j. j mod k = i) [0..<L]"
    by (rule filter_upt_skip [symmetric]) (use assms(1) in auto)
  finally show ?thesis
    using assms(2) by (simp add: py_stride_def)
qed

lemma stride_cover:
  assumes "0 < k"
  shows "mset (concat (map (\<lambda>i. py_stride ys i (length ys) k) [0..<k])) = mset ys"
proof -
  have "map (\<lambda>i. py_stride ys i (length ys) k) [0..<k]
        = map (\<lambda>i. map (\<lambda>j. ys ! j) (filter (\<lambda>j. j mod k = i) [0..<length ys])) [0..<k]"
    by (intro map_cong refl) (simp add: py_stride_residue)
  then have "mset (concat (map (\<lambda>i. py_stride ys i (length ys) k) [0..<k]))
             = image_mset (\<lambda>j. ys ! j) (mset [0..<length ys])"
    by (simp only: mset_concat_map_nth residue_classes_mset [OF assms])
  also have "\<dots> = mset ys"
    by (rule image_mset_nth_upt)
  finally show ?thesis .
qed

lemma py_range_length:
  "0 < k \<Longrightarrow> length (py_range a b k) = (b - a + k - 1) div k"
proof (induction a b k rule: py_range.induct)
  case (1 a b k)
  show ?case
  proof (cases "a < b")
    case True
    then have "length (py_range a b k) = Suc ((b - (a + k) + k - 1) div k)"
      using "1.IH" "1.prems" by (simp add: py_range.simps [of a b k])
    also have "\<dots> = (b - a + k - 1) div k"
    proof (cases "a + k \<le> b")
      case True
      then have "b - a + k - 1 = (b - (a + k) + k - 1) + k"
        using "1.prems" by simp
      then have "(b - a + k - 1) div k = ((b - (a + k) + k - 1) + k) div k"
        by (simp only:)
      also have "\<dots> = Suc ((b - (a + k) + k - 1) div k)"
        using "1.prems" by (simp only: div_add_self2 [of k] neq0_conv Suc_eq_plus1)
      finally show ?thesis by (rule sym)
    next
      case False
      then have "k \<le> b - a + k - 1" and "b - a + k - 1 < 2 * k"
        using \<open>a < b\<close> by auto
      then have "(b - a + k - 1) div k = 1"
        using "1.prems" by (simp add: le_div_geq)
      moreover have "(b - (a + k) + k - 1) div k = 0"
        using False "1.prems" by simp
      ultimately show ?thesis by simp
    qed
    finally show ?thesis .
  next
    case False
    then show ?thesis
      using "1.prems" by (simp add: py_range.simps [of a b k])
  qed
qed

lemma stride_length:
  assumes "i < k" and "length ys = s * k"
  shows "length (py_stride ys i (s * k) k) = s"
proof (cases s)
  case 0
  then show ?thesis
    using assms by (simp add: py_stride_def py_range_length)
next
  case (Suc s')
  then have "s * k - i + k - 1 = (k - 1 - i) + s * k"
    using assms(1) by (simp add: algebra_simps)
  then have "(s * k - i + k - 1) div k = ((k - 1 - i) + s * k) div k"
    by (simp only:)
  also have "\<dots> = s + (k - 1 - i) div k"
    using assms(1) by (intro div_mult_self1) simp
  also have "\<dots> = s"
    using assms(1) by simp
  finally have "(s * k - i + k - 1) div k = s" .
  then show ?thesis
    using assms by (simp add: py_stride_def py_range_length)
qed

text \<open>The partitions of a list of indices, read through \<open>g\<close>, as one multiset.\<close>

lemma partitions_mset:
  assumes "0 < k" and "length ys = L"
  shows "mset (concat (map (\<lambda>i. map g (py_stride ys i L k)) [0..<k])) = image_mset g (mset ys)"
proof -
  have "concat (map (\<lambda>i. map g (py_stride ys i L k)) [0..<k])
        = map g (concat (map (\<lambda>i. py_stride ys i L k) [0..<k]))"
    by (simp add: map_concat comp_def)
  then show ?thesis
    using stride_cover [OF assms(1), of ys] assms(2) by simp
qed

section \<open>Rounding up\<close>

lemma ceil_div_bounds:
  assumes "0 < k"
  shows "n \<le> ceil_div n k * k" and "ceil_div n k * k < n + k"
proof -
  have "(n + k - 1) div k * k + (n + k - 1) mod k = n + k - 1"
    by (rule div_mult_mod_eq)
  moreover have "(n + k - 1) mod k < k"
    using assms by simp
  ultimately show "n \<le> ceil_div n k * k" and "ceil_div n k * k < n + k"
    unfolding ceil_div_def using assms by linarith+
qed

section \<open>The partitions the drivers ask for\<close>

text \<open>
  Validation data, \<^verbatim>\<open>shuffle=False, even_divisible=False\<close>: the index list
  is \<open>[0..<n]\<close> unchanged and the partitions split it.
\<close>

lemma partition_validation_parts:
  assumes "0 < k" and "k \<le> length data"
  shows "\<exists>parts. partition_dataset data perm False k False False = Inr parts
                \<and> length parts = k \<and> mset (concat parts) = mset data"
proof -
  let ?parts = "map (\<lambda>i. map (\<lambda>j. data ! j) (py_stride [0..<length data] i (length data) k)) [0..<k]"
  have "partition_dataset data perm False k False False = Inr ?parts"
    using assms by (simp add: partition_dataset_def Let_def)
  moreover have "mset (concat ?parts) = mset data"
    using partitions_mset [OF assms(1), of "[0..<length data]" "length data" "\<lambda>j. data ! j"]
    by (simp del: mset_upt add: image_mset_nth_upt)
  ultimately show ?thesis
    by auto
qed

text \<open>
  Training data, \<^verbatim>\<open>even_divisible=True\<close>: the (shuffled) index list is
  padded by its own head to \<open>ceil_div n k * k\<close> entries, so each partition
  has \<open>ceil_div n k\<close> of them and all of the data is among them.
\<close>

lemma partition_training_parts:
  assumes "0 < k" and "k \<le> length data"
    and "shuffle \<longrightarrow> mset perm = mset [0..<length data]"
  shows "\<exists>parts. partition_dataset data perm shuffle k False True = Inr parts
                \<and> length parts = k \<and> (\<forall>p \<in> set parts. length p = ceil_div (length data) k)
                \<and> mset data \<subseteq># mset (concat parts) \<and> set (concat parts) = set data"
proof -
  define n where "n = length data"
  define idx where "idx = (if shuffle then perm else [0..<n])"
  define T where "T = ceil_div n k * k"
  define idx' where "idx' = (if \<not> False \<and> T > n then idx @ take (T - n) idx else take T idx)"
  have mi: "mset idx = mset [0..<n]"
    using assms(3) by (simp del: mset_upt add: idx_def n_def)
  then have li: "length idx = n"
    using mset_eq_length by fastforce
  have T: "n \<le> T" "T < n + k"
    using ceil_div_bounds [OF assms(1), of n] by (simp_all add: T_def)
  have idx': "idx' = idx @ take (T - n) idx"
    using T li by (cases "n < T") (simp_all add: idx'_def)
  have "length idx' = T"
    using T li assms(2) by (simp add: idx' n_def)
  then have li': "length idx' = ceil_div n k * k"
    by (simp only: T_def)
  let ?parts = "map (\<lambda>i. map (\<lambda>j. data ! j) (py_stride idx' i T k)) [0..<k]"
  have part: "partition_dataset data perm shuffle k False True = Inr ?parts"
    using assms(1,2) by (simp add: partition_dataset_def Let_def idx'_def idx_def T_def n_def)
  have len: "\<forall>p \<in> set ?parts. length p = ceil_div n k"
  proof
    fix p assume "p \<in> set ?parts"
    then obtain i where "i < k" and p: "p = map (\<lambda>j. data ! j) (py_stride idx' i T k)"
      by auto
    then show "length p = ceil_div n k"
      using stride_length [OF \<open>i < k\<close> li'] by (simp add: T_def)
  qed
  have "mset (concat ?parts) = image_mset (\<lambda>j. data ! j) (mset idx')"
    by (rule partitions_mset [OF assms(1) \<open>length idx' = T\<close>])
  also have "\<dots> = image_mset (\<lambda>j. data ! j) (mset idx) + image_mset (\<lambda>j. data ! j) (mset (take (T - n) idx))"
    by (simp only: idx' mset_append image_mset_union)
  also have g: "image_mset (\<lambda>j. data ! j) (mset idx) = mset data"
    using mi image_mset_nth_upt [of data] by (simp del: mset_upt add: n_def)
  finally have cm: "mset (concat ?parts) = mset data + image_mset (\<lambda>j. data ! j) (mset (take (T - n) idx))" .
  then have "mset data \<subseteq># mset (concat ?parts)"
    by simp
  moreover have "set (concat ?parts) = set data"
  proof -
    have "(\<lambda>j. data ! j) ` set (take (T - n) idx) \<subseteq> (\<lambda>j. data ! j) ` set idx"
      by (intro image_mono set_take_subset)
    also have "\<dots> = set data"
      using arg_cong [OF g, of set_mset] by simp
    finally show ?thesis
      using arg_cong [OF cm, of set_mset] by auto
  qed
  moreover have "length ?parts = k"
    by simp
  ultimately show ?thesis
    using part len by (auto simp only: n_def)
qed

text \<open>Rank \<open>r\<close> reads partition \<open>r\<close>: the shards of ranks \<open>0, ..., k - 1\<close> are the partitions.\<close>

lemma rank_shard_map:
  assumes "partition_dataset data perm shuffle k False ed = Inr parts"
  shows "map (rank_shard data perm shuffle k ed) [0..<length parts] = map Inr parts"
  by (rule nth_equalityI) (simp_all add: rank_shard_def assms)

text \<open>A training shard is never empty: \<^verbatim>\<open>even_divisible\<close> pads every partition to the ceiling of \<open>n / k\<close>.\<close>

lemma partition_Inr_bounds:
  assumes "partition_dataset data perm shuffle k dl ed = Inr parts"
  shows "0 < k \<and> k \<le> length data"
  using assms by (auto simp: partition_dataset_def Let_def split: if_splits)

lemma rank_shard_training_nonempty:
  assumes "rank_shard data perm shuffle k True r = Inr s"
    and "shuffle \<longrightarrow> mset perm = mset [0..<length data]"
  shows "s \<noteq> []"
proof -
  obtain parts where p: "partition_dataset data perm shuffle k False True = Inr parts"
    and r: "r < length parts" and s: "s = parts ! r"
    using assms(1) by (auto simp: rank_shard_def bind_result_def split: sum.splits if_splits)
  have k: "0 < k" "k \<le> length data"
    using partition_Inr_bounds [OF p] by simp_all
  obtain parts' where p': "partition_dataset data perm shuffle k False True = Inr parts'"
    and len: "\<forall>q \<in> set parts'. length q = ceil_div (length data) k"
    using partition_training_parts [OF k assms(2)] by blast
  have "s \<in> set parts'"
    using p p' r s by simp
  moreover have "0 < ceil_div (length data) k"
    using k by (simp add: ceil_div_def div_greater_zero_iff)
  ultimately show ?thesis
    using len by fastforce
qed

section \<open>Properties of the sharding\<close>

text \<open>
  C17. Validation sharding (\<^verbatim>\<open>shuffle=False, even_divisible=False\<close>,
  search line 229, train line 216): with at least as many images as ranks,
  ranks \<open>0, ..., k - 1\<close> all get a shard, and the shards together hold every
  validation image exactly once.
\<close>

theorem validation_shards_cover:
  assumes "0 < k" and "k \<le> length data"
  shows "\<exists>shards. map (rank_shard data perm False k False) [0..<k] = map Inr shards
                 \<and> mset (concat shards) = mset data"
proof -
  obtain parts where p: "partition_dataset data perm False k False False = Inr parts"
    and "length parts = k" and "mset (concat parts) = mset data"
    using partition_validation_parts [OF assms] by blast
  then show ?thesis
    using rank_shard_map [OF p] by auto
qed

theorem validation_shards_cover_witness:
  "\<exists>shards. map (rank_shard [10, 11, 12, 13, 14::nat] [] False 2 False) [0..<2] = map Inr shards
     \<and> mset (concat shards) = mset [10, 11, 12, 13, 14::nat]"
  by (rule validation_shards_cover) simp_all

text \<open>
  C18. Training sharding (\<^verbatim>\<open>shuffle=True, even_divisible=True\<close>, search
  lines 212 and 215, train line 202): when the shuffled order is a
  permutation of the indices, ranks \<open>0, ..., k - 1\<close> all get a shard of the
  same length \<open>ceil(n / k)\<close>, so the ranks run the same number of
  iterations per epoch in lock step, and no training item is left out.
\<close>

theorem training_shards_equal:
  assumes "0 < k" and "k \<le> length data"
    and "shuffle \<longrightarrow> mset perm = mset [0..<length data]"
  shows "\<exists>shards. map (rank_shard data perm shuffle k True) [0..<k] = map Inr shards
                 \<and> map length shards = replicate k (ceil_div (length data) k)
                 \<and> mset data \<subseteq># mset (concat shards)"
proof -
  obtain parts where p: "partition_dataset data perm shuffle k False True = Inr parts"
    and "length parts = k" and "\<forall>p \<in> set parts. length p = ceil_div (length data) k"
    and "mset data \<subseteq># mset (concat parts)"
    using partition_training_parts [OF assms] by blast
  moreover have "map length parts = replicate k (ceil_div (length data) k)"
    using map_const_replicate [of parts length] calculation(2,3) by simp
  ultimately show ?thesis
    using rank_shard_map [OF p] by auto
qed

theorem training_shards_equal_witness:
  "\<exists>shards. map (rank_shard [10, 11, 12::nat] [2, 0, 1] True 2 True) [0..<2] = map Inr shards
     \<and> map length shards = replicate 2 (ceil_div 3 2)
     \<and> mset [10, 11, 12::nat] \<subseteq># mset (concat shards)"
proof -
  have h: "True \<longrightarrow> mset [2, 0, 1::nat] = mset [0..<length [10, 11, 12::nat]]"
    by (simp del: mset_upt add: upt_rec add_mset_commute)
  have "\<exists>shards. map (rank_shard [10, 11, 12::nat] [2, 0, 1] True 2 True) [0..<2] = map Inr shards
     \<and> map length shards = replicate 2 (ceil_div (length [10, 11, 12::nat]) 2)
     \<and> mset [10, 11, 12::nat] \<subseteq># mset (concat shards)"
    by (rule training_shards_equal [OF _ _ h]) simp_all
  moreover have "length [10, 11, 12::nat] = 3"
    by simp
  ultimately show ?thesis
    by (simp only:)
qed

text \<open>
  C19. With fewer items than ranks (for instance fewer validation images
  than GPUs), every rank's call of \<^verbatim>\<open>partition_dataset\<close> raises
  \<^verbatim>\<open>RuntimeError\<close>: the drivers do not check this beforehand.
\<close>

theorem partition_too_few:
  assumes "length data < k"
  shows "rank_shard data perm shuffle k ed r
         = Inl (RuntimeError ''there is no enough data to be split into partitions.'')"
  using assms by (simp add: rank_shard_def partition_dataset_def Let_def)

theorem partition_too_few_witness:
  "rank_shard [10::nat] [] False 2 False 0
   = Inl (RuntimeError ''there is no enough data to be split into partitions.'')"
  using partition_too_few [of "[10::nat]" 2] by simp

end
