(* ===== verification/DataPipeline.thy ===== *)
theory DataPipeline
  imports Folds Partition
begin

text \<open>
  The data each rank trains and validates on, from the manifest to its
  shards (search lines 187--230, train lines 181--217): the fold split and
  the file collection of \<open>Folds\<close>, and the sharding of \<open>Partition\<close>. The
  search driver shuffles its training list with Python's
  \<^verbatim>\<open>random.shuffle\<close> and cuts it into a weight half and an architecture
  half before sharding each. Every rank runs this code in its own process;
  \<^verbatim>\<open>random\<close> is not seeded (\<^verbatim>\<open>determ = False\<close>), so the shuffle is a
  permutation of the rank's own, given as the list of positions it reads.
  \<^verbatim>\<open>partition_dataset\<close> shuffles with its own fixed seed, the same on
  every rank (\<open>perm_w\<close>, \<open>perm_a\<close>).
\<close>

section \<open>Weight and architecture halves (search lines 209--215)\<close>

definition search_halves ::
  "'a list \<Rightarrow> nat list \<Rightarrow> nat list \<Rightarrow> nat list \<Rightarrow> nat \<Rightarrow> nat \<Rightarrow> ('a list \<times> 'a list) result" where
  "search_halves train_files shuf perm_w perm_a world rank =
     (let tf = map (\<lambda>j. train_files ! j) shuf;
          half = int (length tf) div 2;
          train_files_w = py_slice tf None (Some half);
          train_files_a = py_slice tf (Some half) None
      in bind_result (rank_shard train_files_w perm_w True world True rank) (\<lambda>w.
           bind_result (rank_shard train_files_a perm_a True world True rank) (\<lambda>a. Inr (w, a))))"

section \<open>A rank's data\<close>

text \<open>
  Search driver: the fold split, the training files, their halves and
  shards, the validation files and their shard, in the order the script
  computes them.
\<close>

definition search_data ::
  "json_manifest \<Rightarrow> string \<Rightarrow> int \<Rightarrow> int \<Rightarrow> (string \<Rightarrow> bool) \<Rightarrow> string \<Rightarrow> nat list \<Rightarrow> nat list \<Rightarrow> nat list
   \<Rightarrow> nat \<Rightarrow> nat \<Rightarrow> (file_pair list \<times> file_pair list \<times> file_pair list) result" where
  "search_data json_data json_key num_folds fold_no path_exists data_root shuf perm_w perm_a world rank =
     bind_result (select_fold json_data json_key num_folds fold_no) (\<lambda>(list_train, list_valid).
     bind_result (collect_files path_exists data_root list_train) (\<lambda>train_files.
     bind_result (search_halves train_files shuf perm_w perm_a world rank) (\<lambda>(w, a).
     bind_result (collect_files path_exists data_root list_valid) (\<lambda>val_files.
     bind_result (rank_shard val_files [] False world False rank) (\<lambda>v. Inr (w, a, v))))))"

text \<open>Training driver: the training files are sharded whole.\<close>

definition train_data ::
  "json_manifest \<Rightarrow> string \<Rightarrow> int \<Rightarrow> int \<Rightarrow> (string \<Rightarrow> bool) \<Rightarrow> string \<Rightarrow> nat list
   \<Rightarrow> nat \<Rightarrow> nat \<Rightarrow> (file_pair list \<times> file_pair list) result" where
  "train_data json_data json_key num_folds fold_no path_exists data_root perm world rank =
     bind_result (select_fold json_data json_key num_folds fold_no) (\<lambda>(list_train, list_valid).
     bind_result (collect_files path_exists data_root list_train) (\<lambda>train_files.
     bind_result (rank_shard train_files perm True world True rank) (\<lambda>t.
     bind_result (collect_files path_exists data_root list_valid) (\<lambda>val_files.
     bind_result (rank_shard val_files [] False world False rank) (\<lambda>v. Inr (t, v))))))"


section \<open>Batches\<close>

text \<open>
  \<^verbatim>\<open>DataLoader(ds, batch_size=bs)\<close> with the default
  \<^verbatim>\<open>drop_last=False\<close> (PyTorch, modelled from its documentation): the
  items in consecutive batches of \<open>bs\<close>, the last one possibly shorter.
  The drivers use \<^verbatim>\<open>num_images_per_batch = 2\<close>; PyTorch rejects
  \<open>bs = 0\<close>, which is modelled as no batches.
\<close>

function batches :: "nat \<Rightarrow> 'a list \<Rightarrow> 'a list list" where
  "batches bs xs = (if xs = [] \<or> bs = 0 then [] else take bs xs # batches bs (drop bs xs))"
  by pat_completeness auto
termination
  by (relation "measure (\<lambda>(bs, xs). length xs)") auto

declare batches.simps [simp del]

section \<open>The halves\<close>

lemma nat_half [simp]: "nat (int n div 2) = n div 2"
  by (simp add: zdiv_int [symmetric])

lemma search_halves_slices:
  "search_halves train_files shuf perm_w perm_a world rank =
     bind_result (rank_shard (take (length shuf div 2) (map (\<lambda>j. train_files ! j) shuf)) perm_w True world True rank) (\<lambda>w.
       bind_result (rank_shard (drop (length shuf div 2) (map (\<lambda>j. train_files ! j) shuf)) perm_a True world True rank)
         (\<lambda>a. Inr (w, a)))"
  by (simp add: search_halves_def Let_def py_simps)

text \<open>
  C25. When every rank shuffles the training list the same way (a seeded
  \<^verbatim>\<open>random\<close>), ranks \<open>0, ..., k - 1\<close> get weight shards of equal length, and
  the images used for the weights and those used for the architecture
  are disjoint and together all the training images.
\<close>

theorem search_halves_disjoint:
  assumes "0 < k" and "k \<le> length train_files div 2" and "distinct train_files"
    and "mset s = mset [0..<length train_files]"
    and "mset perm_w = mset [0..<length train_files div 2]"
    and "mset perm_a = mset [0..<length train_files - length train_files div 2]"
  shows "\<exists>ws as. map (search_halves train_files s perm_w perm_a k) [0..<k] = map Inr (zip ws as)
           \<and> map length ws = replicate k (ceil_div (length train_files div 2) k)
           \<and> set (concat ws) \<inter> set (concat as) = {}
           \<and> set (concat ws) \<union> set (concat as) = set train_files"
proof -
  define n where "n = length train_files"
  define tf where "tf = map (\<lambda>j. train_files ! j) s"
  have ls: "length s = n"
    using mset_eq_length [OF assms(4)] by (simp add: n_def)
  have mtf: "mset tf = mset train_files"
  proof -
    have "mset tf = image_mset (\<lambda>j. train_files ! j) (mset s)"
      by (simp add: tf_def)
    also have "\<dots> = mset train_files"
      using assms(4) image_mset_nth_upt [of train_files] by (simp del: mset_upt)
    finally show ?thesis .
  qed
  then have dtf: "distinct tf" and stf: "set tf = set train_files"
    using assms(3) mset_eq_imp_distinct_iff [OF mtf] by (auto dest: mset_eq_setD)
  define w where "w = take (n div 2) tf"
  define a where "a = drop (n div 2) tf"
  have lw: "length w = n div 2" and la: "length a = n - n div 2"
    using ls by (simp_all add: w_def a_def tf_def)
  obtain pws where pw: "partition_dataset w perm_w True k False True = Inr pws"
    and "length pws = k" and lpw: "\<forall>p \<in> set pws. length p = ceil_div (n div 2) k"
    and spw: "set (concat pws) = set w"
    using partition_training_parts [of k w True perm_w] assms(1,2,5) lw by (auto simp: n_def)
  have "k \<le> length a"
    using assms(2) la by (simp add: n_def)
  then obtain pas where pa: "partition_dataset a perm_a True k False True = Inr pas"
    and "length pas = k" and spa: "set (concat pas) = set a"
    using partition_training_parts [of k a True perm_a] assms(1,6) la by (auto simp: n_def)
  have "map (search_halves train_files s perm_w perm_a k) [0..<k] = map Inr (zip pws pas)"
    by (rule nth_equalityI)
       (simp_all add: search_halves_slices rank_shard_def pw pa ls \<open>length pws = k\<close> \<open>length pas = k\<close>
                      w_def [symmetric] a_def [symmetric] tf_def [symmetric])
  moreover have "map length pws = replicate k (ceil_div (n div 2) k)"
    using map_const_replicate [OF lpw] \<open>length pws = k\<close> by simp
  moreover have "set w \<inter> set a = {}"
    using dtf by (simp add: w_def a_def set_take_disj_set_drop_if_distinct)
  moreover have "set w \<union> set a = set train_files"
    using stf by (metis w_def a_def append_take_drop_id set_append)
  ultimately show ?thesis
    using spw spa unfolding n_def by (intro exI [of _ pws] exI [of _ pas]) simp
qed


theorem search_halves_disjoint_witness:
  "\<exists>ws as. map (search_halves [0, 1, 2, 3::nat] [0, 1, 2, 3] [0, 1] [0, 1] 2) [0..<2] = map Inr (zip ws as)
     \<and> map length ws = replicate 2 (ceil_div (length [0, 1, 2, 3::nat] div 2) 2)
     \<and> set (concat ws) \<inter> set (concat as) = {}
     \<and> set (concat ws) \<union> set (concat as) = set [0, 1, 2, 3::nat]"
  by (rule search_halves_disjoint; code_simp)

text \<open>
  As written, the ranks shuffle independently, so their halves differ:
  with four training images on two ranks, rank 0 trains the weights on
  image 0 and the architecture on image 2 while rank 1 does the opposite,
  and images 1 and 3 are used by neither.
\<close>

theorem search_halves_rank_overlap:
  "search_halves [0, 1, 2, 3::nat] [0, 1, 2, 3] [0, 1] [0, 1] 2 0 = Inr ([0], [2])
   \<and> search_halves [0, 1, 2, 3::nat] [3, 2, 1, 0] [0, 1] [0, 1] 2 1 = Inr ([2], [0])"
  by code_simp


section \<open>Batches of a shard\<close>

lemma batches_concat:
  "concat (batches bs xs) = (if bs = 0 then [] else xs)"
proof (induction bs xs rule: batches.induct)
  case (1 bs xs)
  then show ?case
    by (cases "xs = [] \<or> bs = 0") (auto simp: batches.simps [of bs xs])
qed

lemma ceil_div_step:
  assumes "0 < bs" and "0 < n"
  shows "ceil_div n bs = Suc (ceil_div (n - bs) bs)"
proof (cases "bs \<le> n")
  case True
  then have "n + bs - 1 = (n - bs + bs - 1) + bs"
    using assms by simp
  then have "(n + bs - 1) div bs = ((n - bs + bs - 1) + bs) div bs"
    by (simp only:)
  also have "\<dots> = Suc ((n - bs + bs - 1) div bs)"
    using assms(1) by (simp only: div_add_self2 [of bs] neq0_conv Suc_eq_plus1)
  finally show ?thesis
    by (simp only: ceil_div_def)
next
  case False
  then have "bs \<le> n + bs - 1" and "n + bs - 1 < 2 * bs"
    using assms by auto
  then have "(n + bs - 1) div bs = 1"
    using assms(1) by (simp add: le_div_geq)
  moreover have "(n - bs + bs - 1) div bs = 0"
    using False by simp
  ultimately show ?thesis
    by (simp add: ceil_div_def)
qed

lemma batches_length:
  "0 < bs \<Longrightarrow> length (batches bs xs) = ceil_div (length xs) bs"
proof (induction bs xs rule: batches.induct)
  case (1 bs xs)
  show ?case
  proof (cases "xs = []")
    case True
    then show ?thesis
      using "1.prems" by (simp add: batches.simps [of bs "[]"] ceil_div_def)
  next
    case False
    then have "batches bs xs = take bs xs # batches bs (drop bs xs)"
      using "1.prems" by (subst batches.simps) simp
    then have "length (batches bs xs) = Suc (ceil_div (length xs - bs) bs)"
      using "1.IH" "1.prems" False by simp
    also have "\<dots> = ceil_div (length xs) bs"
      using ceil_div_step [OF "1.prems", of "length xs"] False by simp
    finally show ?thesis .
  qed
qed

text \<open>Every rank gets at least one batch of architecture data.\<close>

lemma search_halves_arch_nonempty:
  assumes "search_halves tf shuf pw pa world rank = Inr (w, a)"
    and "mset pa = mset [0..<length shuf - length shuf div 2]"
  shows "a \<noteq> []"
proof -
  let ?xs = "py_slice (map (\<lambda>j. tf ! j) shuf) (Some (int (length shuf) div 2)) None"
  have len: "length ?xs = length shuf - length shuf div 2"
    by (simp add: py_simps nat_div_distrib)
  have "rank_shard ?xs pa True world True rank = Inr a"
    using assms(1) by (auto simp: search_halves_def Let_def bind_result_def split: sum.splits)
  then show ?thesis
    by (rule rank_shard_training_nonempty) (simp add: len assms(2))
qed

lemma batches_nonempty:
  "0 < bs \<Longrightarrow> xs \<noteq> [] \<Longrightarrow> 0 < length (batches bs xs)"
  by (cases xs) (simp_all add: batches_length ceil_div_def div_greater_zero_iff)

end
