(* ===== verification/Metrics.thy ===== *)
theory Metrics
  imports PySemantics
begin

text \<open>
  The validation bookkeeping of both drivers (search lines 539--608, train
  lines 443--513) and the epoch-loss average (search lines 410--449 and
  526--531, train lines 389--435). Each rank accumulates, per image, the
  Dice score of every foreground class into a vector
  \<^verbatim>\<open>metric\<close> of length \<^verbatim>\<open>2 * (output_classes - 1)\<close> (sum at even,
  count at odd positions); the vectors are summed across ranks by
  \<^verbatim>\<open>dist.all_reduce\<close>, and rank 0 prints each class mean and their
  average. A Dice score is a float that may be NaN: \<open>None\<close> here.
\<close>

section \<open>Scores\<close>

type_synonym dice = "real option"

text \<open>\<^verbatim>\<open>torch.nan_to_num(x, nan=0.0)\<close> and \<^verbatim>\<open>1.0 - torch.isnan(x).float()\<close>.\<close>

definition nan_to_num :: "dice \<Rightarrow> real" where
  "nan_to_num x = (case x of None \<Rightarrow> 0 | Some r \<Rightarrow> r)"

definition not_nan :: "dice \<Rightarrow> real" where
  "not_nan x = 1 - (case x of None \<Rightarrow> 1 | Some _ \<Rightarrow> 0)"

section \<open>Per-rank accumulation\<close>

text \<open>
  One validation image, \<^verbatim>\<open>for _c in range(output_classes - 1)\<close>: the
  score of class \<open>c\<close> is counted with the validity flag of class 0
  (\<^verbatim>\<open>value[0, 0]\<close>), as the source writes it. \<open>nc\<close> is
  \<^verbatim>\<open>output_classes - 1\<close> and \<open>value\<close> is row 0 of
  \<^verbatim>\<open>compute_meandice\<close>'s result.
\<close>

definition metric_class_update :: "dice list \<Rightarrow> nat \<Rightarrow> real list \<Rightarrow> real list" where
  "metric_class_update value c m =
     (let val0 = nan_to_num (value ! c); val1 = not_nan (value ! 0) in
      m[2 * c := m ! (2 * c) + val0 * val1, 2 * c + 1 := m ! (2 * c + 1) + val1])"

definition metric_update :: "nat \<Rightarrow> real list \<Rightarrow> dice list \<Rightarrow> real list" where
  "metric_update nc metric value = fold (metric_class_update value) [0..<nc] metric"

text \<open>\<^verbatim>\<open>metric = torch.zeros(...)\<close> followed by the loop over \<^verbatim>\<open>val_loader\<close>.\<close>

definition metric_accumulate :: "nat \<Rightarrow> dice list list \<Rightarrow> real list" where
  "metric_accumulate nc vals = fold (\<lambda>v m. metric_update nc m v) vals (replicate (2 * nc) 0)"

text \<open>
  The whole state of the training driver's loop over \<^verbatim>\<open>val_loader\<close>
  (train lines 443--501): besides \<^verbatim>\<open>metric\<close>, the loop counts the rows
  of each \<^verbatim>\<open>value\<close> (one, the loader's batch size), adds
  \<^verbatim>\<open>value.sum().item()\<close> to \<^verbatim>\<open>metric_sum\<close> (NaN as soon as one score is
  NaN, \<open>None\<close> here), stacks the rows into \<^verbatim>\<open>metric_mat\<close> and counts
  \<^verbatim>\<open>_index\<close>. Theory \<open>Dice\<close> computes \<^verbatim>\<open>value\<close> from the prediction and the label.
\<close>

record val_loop =
  vl_metric :: "real list"
  vl_sum :: "real option"
  vl_count :: nat
  vl_mat :: "dice list list"
  vl_index :: nat

definition dice_sum :: "dice list \<Rightarrow> real option" where
  "dice_sum v = (if list_all (\<lambda>x. x \<noteq> None) v then Some (sum_list (map nan_to_num v)) else None)"

definition val_step :: "nat \<Rightarrow> val_loop \<Rightarrow> dice list \<Rightarrow> val_loop" where
  "val_step nc st value =
     \<lparr>vl_metric = metric_update nc (vl_metric st) value,
      vl_sum = (case (vl_sum st, dice_sum value) of (Some a, Some b) \<Rightarrow> Some (a + b) | _ \<Rightarrow> None),
      vl_count = vl_count st + 1,
      vl_mat = (if vl_mat st = [] then [value] else vl_mat st @ [value]),
      vl_index = vl_index st + 1\<rparr>"

definition val_loop_run :: "nat \<Rightarrow> dice list list \<Rightarrow> val_loop" where
  "val_loop_run nc vals =
     fold (\<lambda>v st. val_step nc st v) vals
       \<lparr>vl_metric = replicate (2 * nc) 0, vl_sum = Some 0, vl_count = 0, vl_mat = [], vl_index = 0\<rparr>"

section \<open>Reduction across ranks\<close>

text \<open>\<^verbatim>\<open>dist.all_reduce(t, op=SUM)\<close>: every rank ends with the elementwise sum.\<close>

definition all_reduce_sum :: "nat \<Rightarrow> real list list \<Rightarrow> real list" where
  "all_reduce_sum n ts = foldr (\<lambda>t acc. map2 (+) t acc) ts (replicate n 0)"

section \<open>Rank 0's report\<close>

text \<open>
  \<^verbatim>\<open>metric[2 * _c] / metric[2 * _c + 1]\<close> for each class (the print loop,
  which raises first), then their sum divided by
  \<^verbatim>\<open>float(output_classes - 1)\<close>.
\<close>

definition class_means :: "nat \<Rightarrow> real list \<Rightarrow> real list result" where
  "class_means nc metric = map_result (\<lambda>c. py_truediv (metric ! (2 * c)) (metric ! (2 * c + 1))) [0..<nc]"

definition avg_metric :: "nat \<Rightarrow> real list \<Rightarrow> real result" where
  "avg_metric nc metric =
     bind_result (class_means nc metric) (\<lambda>means. py_truediv (sum_list means) (real nc))"

text \<open>The whole validation pass: accumulate on every rank, reduce, report.\<close>

definition validation_metric :: "nat \<Rightarrow> dice list list list \<Rightarrow> real result" where
  "validation_metric nc per_rank =
     avg_metric nc (all_reduce_sum (2 * nc) (map (metric_accumulate nc) per_rank))"

section \<open>Epoch loss\<close>

text \<open>
  \<^verbatim>\<open>loss_torch[0] += loss.item(); loss_torch[1] += 1.0\<close> per batch, the
  all-reduce, and \<^verbatim>\<open>loss_torch[0] / loss_torch[1]\<close> on rank 0.
\<close>

definition loss_accumulate :: "real list \<Rightarrow> real list" where
  "loss_accumulate losses = fold (\<lambda>l t. t[0 := t ! 0 + l, 1 := t ! 1 + 1]) losses [0, 0]"

definition epoch_loss :: "real list list \<Rightarrow> real result" where
  "epoch_loss per_rank =
     (let t = all_reduce_sum 2 (map loss_accumulate per_rank) in py_truediv (t ! 0) (t ! 1))"

section \<open>The intended metric\<close>

text \<open>
  What the accumulation is meant to compute: for class \<open>c\<close>, the mean of
  the scores of \<open>c\<close> that are not NaN, over all validation images.
\<close>

definition intended_class_mean :: "dice list list \<Rightarrow> nat \<Rightarrow> real" where
  "intended_class_mean vals c =
     sum_list (map (\<lambda>v. nan_to_num (v ! c)) vals) / sum_list (map (\<lambda>v. not_nan (v ! c)) vals)"

text \<open>What one image adds at position \<open>i\<close> of the metric vector.\<close>

definition metric_contrib :: "dice list \<Rightarrow> nat \<Rightarrow> real" where
  "metric_contrib v i =
     (if even i then nan_to_num (v ! (i div 2)) * not_nan (v ! 0) else not_nan (v ! 0))"

section \<open>Closed forms\<close>

lemma metric_class_update_nth:
  assumes "length m = 2 * nc" and "c < nc"
  shows "length (metric_class_update v c m) = 2 * nc"
    and "i < 2 * nc \<Longrightarrow> metric_class_update v c m ! i
           = m ! i + (if i div 2 = c then metric_contrib v i else 0)"
proof -
  show "length (metric_class_update v c m) = 2 * nc"
    using assms by (simp add: metric_class_update_def Let_def)
  assume i: "i < 2 * nc"
  consider "i = 2 * c" | "i = 2 * c + 1" | "i \<noteq> 2 * c" "i \<noteq> 2 * c + 1"
    by blast
  then show "metric_class_update v c m ! i = m ! i + (if i div 2 = c then metric_contrib v i else 0)"
  proof cases
    case 1
    with assms show ?thesis
      by (simp add: metric_class_update_def metric_contrib_def Let_def nth_list_update)
  next
    case 2
    with assms show ?thesis
      by (simp add: metric_class_update_def metric_contrib_def Let_def nth_list_update)
  next
    case 3
    then have "i div 2 \<noteq> c" by auto
    with 3 show ?thesis
      by (simp add: metric_class_update_def Let_def nth_list_update)
  qed
qed

lemma metric_update_prefix:
  assumes "n \<le> nc" and "length m = 2 * nc"
  shows "length (fold (metric_class_update v) [0..<n] m) = 2 * nc
         \<and> (\<forall>i < 2 * nc. fold (metric_class_update v) [0..<n] m ! i
                = m ! i + (if i div 2 < n then metric_contrib v i else 0))"
  using assms(1)
proof (induction n)
  case 0
  then show ?case using assms(2) by simp
next
  case (Suc n)
  then have IH: "length (fold (metric_class_update v) [0..<n] m) = 2 * nc"
    "\<And>i. i < 2 * nc \<Longrightarrow> fold (metric_class_update v) [0..<n] m ! i
           = m ! i + (if i div 2 < n then metric_contrib v i else 0)"
    by auto
  have "n < nc" using Suc.prems by simp
  show ?case
    using metric_class_update_nth [OF IH(1) \<open>n < nc\<close>] IH(2) by (auto simp: less_Suc_eq)
qed

lemma metric_update_nth:
  assumes "length m = 2 * nc"
  shows "length (metric_update nc m v) = 2 * nc"
    and "i < 2 * nc \<Longrightarrow> metric_update nc m v ! i = m ! i + metric_contrib v i"
  using metric_update_prefix [OF order_refl assms, of v] by (auto simp: metric_update_def)

lemma metric_fold_nth:
  assumes "length m = 2 * nc"
  shows "length (fold (\<lambda>v m. metric_update nc m v) vals m) = 2 * nc
         \<and> (\<forall>i < 2 * nc. fold (\<lambda>v m. metric_update nc m v) vals m ! i
                = m ! i + sum_list (map (\<lambda>v. metric_contrib v i) vals))"
  using assms
proof (induction vals arbitrary: m)
  case Nil
  then show ?case by simp
next
  case (Cons v vals)
  from Cons.IH [OF metric_update_nth(1) [OF Cons.prems]] show ?case
    using metric_update_nth [OF Cons.prems] by (simp add: algebra_simps)
qed

lemma metric_accumulate_nth:
  shows "length (metric_accumulate nc vals) = 2 * nc"
    and "i < 2 * nc \<Longrightarrow> metric_accumulate nc vals ! i = sum_list (map (\<lambda>v. metric_contrib v i) vals)"
  using metric_fold_nth [of "replicate (2 * nc) 0" nc vals] by (auto simp: metric_accumulate_def)

lemma all_reduce_sum_nth:
  assumes "\<forall>t \<in> set ts. length t = n"
  shows "length (all_reduce_sum n ts) = n"
    and "i < n \<Longrightarrow> all_reduce_sum n ts ! i = sum_list (map (\<lambda>t. t ! i) ts)"
proof -
  have "length (all_reduce_sum n ts) = n \<and> (\<forall>i < n. all_reduce_sum n ts ! i = sum_list (map (\<lambda>t. t ! i) ts))"
    using assms by (induction ts) (auto simp: all_reduce_sum_def)
  then show "length (all_reduce_sum n ts) = n"
    and "i < n \<Longrightarrow> all_reduce_sum n ts ! i = sum_list (map (\<lambda>t. t ! i) ts)"
    by auto
qed

text \<open>The two entries of class \<open>c\<close> after accumulation.\<close>

lemma metric_accumulate_class:
  assumes "c < nc"
  shows "metric_accumulate nc vals ! (2 * c) = sum_list (map (\<lambda>v. nan_to_num (v ! c) * not_nan (v ! 0)) vals)"
    and "metric_accumulate nc vals ! Suc (2 * c) = sum_list (map (\<lambda>v. not_nan (v ! 0)) vals)"
  using assms by (simp_all add: metric_accumulate_nth metric_contrib_def)

text \<open>Summing the per-rank vectors is accumulating over all images at once.\<close>

lemma all_reduce_metric_accumulate:
  "all_reduce_sum (2 * nc) (map (metric_accumulate nc) per_rank) = metric_accumulate nc (concat per_rank)"
proof (rule nth_equalityI)
  have len: "\<forall>t \<in> set (map (metric_accumulate nc) per_rank). length t = 2 * nc"
    by (simp add: metric_accumulate_nth)
  then show "length (all_reduce_sum (2 * nc) (map (metric_accumulate nc) per_rank))
             = length (metric_accumulate nc (concat per_rank))"
    by (simp add: all_reduce_sum_nth metric_accumulate_nth)
  fix i assume "i < length (all_reduce_sum (2 * nc) (map (metric_accumulate nc) per_rank))"
  then have i: "i < 2 * nc"
    using len by (simp add: all_reduce_sum_nth)
  show "all_reduce_sum (2 * nc) (map (metric_accumulate nc) per_rank) ! i = metric_accumulate nc (concat per_rank) ! i"
    using len i by (simp add: all_reduce_sum_nth metric_accumulate_nth sum_list_map_concat comp_def)
qed

text \<open>The accumulated vector does not depend on the order of the images.\<close>

lemma metric_accumulate_mset:
  assumes "mset xs = mset ys"
  shows "metric_accumulate nc xs = metric_accumulate nc ys"
proof (rule nth_equalityI)
  show "length (metric_accumulate nc xs) = length (metric_accumulate nc ys)"
    by (simp add: metric_accumulate_nth)
  fix i assume "i < length (metric_accumulate nc xs)"
  then show "metric_accumulate nc xs ! i = metric_accumulate nc ys ! i"
    using sum_list_map_mset_eq [OF assms] by (simp add: metric_accumulate_nth)
qed

lemma not_nan_cases: "not_nan x = 0 \<and> x = None \<or> not_nan x = 1 \<and> x \<noteq> None"
  by (cases x) (simp_all add: not_nan_def)

lemma not_nan_nonneg: "0 \<le> not_nan x"
  using not_nan_cases [of x] by auto

lemma class_count_zero_iff:
  "sum_list (map (\<lambda>v. not_nan (v ! 0)) vals) = 0 \<longleftrightarrow> (\<forall>v \<in> set vals. v ! 0 = None)"
proof -
  have "sum_list (map (\<lambda>v. not_nan (v ! 0)) vals) = 0 \<longleftrightarrow> (\<forall>x \<in> set (map (\<lambda>v. not_nan (v ! 0)) vals). x = 0)"
    by (rule sum_list_nonneg_eq_0_iff) (auto simp: not_nan_nonneg)
  also have "\<dots> \<longleftrightarrow> (\<forall>v \<in> set vals. v ! 0 = None)"
    using not_nan_cases by fastforce
  finally show ?thesis .
qed

text \<open>The report when some image has a valid class-0 score.\<close>

lemma class_means_accumulate:
  assumes "sum_list (map (\<lambda>v. not_nan (v ! 0)) vals) \<noteq> 0"
  shows "class_means nc (metric_accumulate nc vals)
         = Inr (map (\<lambda>c. sum_list (map (\<lambda>v. nan_to_num (v ! c) * not_nan (v ! 0)) vals)
                        / sum_list (map (\<lambda>v. not_nan (v ! 0)) vals)) [0..<nc])"
  unfolding class_means_def
  by (rule map_result_Inr) (simp add: metric_accumulate_class assms py_simps)

text \<open>
  C7. The distributed validation (accumulate on each rank, sum by
  \<^verbatim>\<open>all_reduce\<close>, report on rank 0) reports exactly what one process
  accumulating over all ranks' images in turn would report.
\<close>

theorem validation_metric_single_process:
  "validation_metric nc per_rank = avg_metric nc (metric_accumulate nc (concat per_rank))"
  by (simp add: validation_metric_def all_reduce_metric_accumulate)

text \<open>
  C9. As written, the class-\<open>c\<close> entry of the report averages the scores of
  class \<open>c\<close> over the images whose class-0 score is not NaN, with a NaN
  score of class \<open>c\<close> counted as 0; the final value is the mean over the
  \<open>nc\<close> classes.
\<close>

theorem avg_metric_closed_form:
  assumes "0 < nc" and "\<exists>v \<in> set vals. v ! 0 \<noteq> None"
  shows "avg_metric nc (metric_accumulate nc vals)
         = Inr ((\<Sum>c\<leftarrow>[0..<nc]. sum_list (map (\<lambda>v. nan_to_num (v ! c) * not_nan (v ! 0)) vals)
                                 / sum_list (map (\<lambda>v. not_nan (v ! 0)) vals)) / real nc)"
proof -
  have "sum_list (map (\<lambda>v. not_nan (v ! 0)) vals) \<noteq> 0"
    using assms(2) by (auto simp: class_count_zero_iff)
  then show ?thesis
    using assms(1) by (simp add: avg_metric_def class_means_accumulate py_simps)
qed

theorem avg_metric_closed_form_witness:
  "avg_metric 2 (metric_accumulate 2 [[Some (4/5), None], [None, Some (3/5)]]) = Inr (2/5)"
proof -
  have "0 < (2::nat)"
    by simp
  moreover have "\<exists>v \<in> set [[Some (4/5::real), None], [None, Some (3/5)]]. v ! 0 \<noteq> None"
    by (rule bexI [where x = "[Some (4/5), None]"]) simp_all
  ultimately
  have "avg_metric 2 (metric_accumulate 2 [[Some (4/5), None], [None, Some (3/5)]])
        = Inr ((\<Sum>c\<leftarrow>[0..<2]. sum_list (map (\<lambda>v. nan_to_num (v ! c) * not_nan (v ! 0)) [[Some (4/5), None], [None, Some (3/5)]])
               / sum_list (map (\<lambda>v. not_nan (v ! 0)) [[Some (4/5::real), None], [None, Some (3/5)]])) / real 2)"
    by (rule avg_metric_closed_form)
  then show ?thesis
    by (simp add: nan_to_num_def not_nan_def upt_rec)
qed

text \<open>The report raises when no image has a valid class-0 score.\<close>

lemma class_means_all_nan:
  assumes "0 < nc" and "\<forall>v \<in> set vals. v ! 0 = None"
  shows "class_means nc (metric_accumulate nc vals) = Inl ZeroDivisionError"
proof -
  have "metric_accumulate nc vals ! Suc (2 * 0) = 0"
    using assms metric_accumulate_class(2) [of 0 nc vals] class_count_zero_iff [of vals] by simp
  moreover have "[0..<nc] = 0 # [1..<nc]"
    using assms(1) by (simp add: upt_conv_Cons)
  ultimately show ?thesis
    by (simp add: class_means_def py_simps)
qed

text \<open>
  The class-\<open>c\<close> count uses the NaN flag of class 0
  (\<^verbatim>\<open>value[0, 0]\<close>, not \<^verbatim>\<open>value[0, _c]\<close>): with one image whose
  class-1 score is NaN and one whose class-0 score is NaN, spread over two
  ranks, the drivers report \<open>0.4\<close> where the mean of the valid scores of
  each class, averaged, is \<open>0.7\<close>.
\<close>

theorem nan_mask_divergence:
  "validation_metric 2 [[[Some (4/5), None]], [[None, Some (3/5)]]] = Inr (2/5)
   \<and> (intended_class_mean [[Some (4/5), None], [None, Some (3/5)]] 0
      + intended_class_mean [[Some (4/5), None], [None, Some (3/5)]] 1) / 2 = 7/10"
proof
  have "validation_metric 2 [[[Some (4/5), None]], [[None, Some (3/5)]]]
        = avg_metric 2 (metric_accumulate 2 [[Some (4/5), None], [None, Some (3/5)]])"
    unfolding validation_metric_def all_reduce_metric_accumulate by simp
  also have "\<dots> = Inr (2/5)"
    by (simp add: avg_metric_def class_means_accumulate py_simps nan_to_num_def not_nan_def upt_rec)
  finally show "validation_metric 2 [[[Some (4/5), None]], [[None, Some (3/5)]]] = Inr (2/5)" .
  show "(intended_class_mean [[Some (4/5), None], [None, Some (3/5)]] 0
      + intended_class_mean [[Some (4/5), None], [None, Some (3/5)]] 1) / 2 = (7/10::real)"
    by (simp add: nan_to_num_def not_nan_def intended_class_mean_def)
qed

text \<open>
  C10. Where every image's scores are NaN for the same classes as its
  class-0 score (and some image has a valid class-0 score), the reported
  class means are the intended ones: the mean of the valid scores of each
  class.
\<close>

theorem class_means_intended:
  assumes "\<forall>v \<in> set vals. \<forall>c < nc. (v ! c = None) = (v ! 0 = None)"
    and "\<exists>v \<in> set vals. v ! 0 \<noteq> None"
  shows "class_means nc (metric_accumulate nc vals) = Inr (map (intended_class_mean vals) [0..<nc])"
proof -
  have cnt: "sum_list (map (\<lambda>v. not_nan (v ! 0)) vals) \<noteq> 0"
    using assms(2) by (auto simp: class_count_zero_iff)
  have pointwise: "nan_to_num (v ! c) * not_nan (v ! 0) = nan_to_num (v ! c) \<and> not_nan (v ! 0) = not_nan (v ! c)"
    if "c < nc" and "v \<in> set vals" for c v
  proof -
    have same: "(v ! c = None) = (v ! 0 = None)"
      using assms(1) that by blast
    show ?thesis
    proof (cases "v ! 0")
      case None
      with same show ?thesis by (simp add: nan_to_num_def not_nan_def)
    next
      case (Some r)
      with same show ?thesis by (auto simp: nan_to_num_def not_nan_def)
    qed
  qed
  have "sum_list (map (\<lambda>v. nan_to_num (v ! c) * not_nan (v ! 0)) vals) / sum_list (map (\<lambda>v. not_nan (v ! 0)) vals)
        = intended_class_mean vals c" if "c < nc" for c
  proof -
    have m1: "map (\<lambda>v. nan_to_num (v ! c) * not_nan (v ! 0)) vals = map (\<lambda>v. nan_to_num (v ! c)) vals"
      using pointwise [OF that] by (intro map_cong refl) blast
    have m2: "map (\<lambda>v. not_nan (v ! 0)) vals = map (\<lambda>v. not_nan (v ! c)) vals"
      using pointwise [OF that] by (intro map_cong refl) blast
    show ?thesis
      unfolding intended_class_mean_def m1 m2 by (rule refl)
  qed
  then show ?thesis
    by (simp add: class_means_accumulate [OF cnt])
qed

theorem class_means_intended_witness:
  "class_means 2 (metric_accumulate 2 [[Some 1, Some (1/2)], [None, None]])
   = Inr (map (intended_class_mean [[Some 1, Some (1/2)], [None, None]]) [0..<2])"
proof (rule class_means_intended)
  show "\<forall>v \<in> set [[Some (1::real), Some (1/2)], [None, None]]. \<forall>c < 2. (v ! c = None) = (v ! 0 = None)"
    by (simp add: less_Suc_eq numeral_2_eq_2)
  show "\<exists>v \<in> set [[Some (1::real), Some (1/2)], [None, None]]. v ! 0 \<noteq> None"
    by (rule bexI [where x = "[Some 1, Some (1/2)]"]) simp_all
qed

text \<open>
  When no validation image has a valid class-0 score (in particular
  when the validation set is empty on every rank) rank 0 raises
  \<^verbatim>\<open>ZeroDivisionError\<close> while printing the class means.
\<close>

theorem avg_metric_all_nan:
  assumes "0 < nc" and "\<forall>v \<in> set vals. v ! 0 = None"
  shows "avg_metric nc (metric_accumulate nc vals) = Inl ZeroDivisionError"
  by (simp add: avg_metric_def class_means_all_nan [OF assms])

theorem avg_metric_all_nan_witness:
  "avg_metric 2 (metric_accumulate 2 []) = Inl ZeroDivisionError"
  by (rule avg_metric_all_nan) simp_all

text \<open>
  With Dice scores in \<open>[0, 1]\<close>, whatever the NaN pattern, a reported
  average lies in \<open>[0, 1]\<close>.
\<close>

lemma avg_metric_bounds:
  assumes "\<forall>v \<in> set vals. \<forall>c < nc. \<forall>r. v ! c = Some r \<longrightarrow> 0 \<le> r \<and> r \<le> 1"
    and "avg_metric nc (metric_accumulate nc vals) = Inr a"
  shows "0 \<le> a \<and> a \<le> 1"
proof -
  let ?N = "sum_list (map (\<lambda>v. not_nan (v ! 0)) vals)"
  let ?S = "\<lambda>c. sum_list (map (\<lambda>v. nan_to_num (v ! c) * not_nan (v ! 0)) vals)"
  have nc: "0 < nc"
    using assms(2) by (cases nc) (auto simp: avg_metric_def class_means_def py_simps)
  have cnt: "?N \<noteq> 0"
  proof
    assume "?N = 0"
    then have "\<forall>v \<in> set vals. v ! 0 = None"
      by (simp add: class_count_zero_iff)
    then have "class_means nc (metric_accumulate nc vals) = Inl ZeroDivisionError"
      by (rule class_means_all_nan [OF nc])
    with assms(2) show False
      by (simp add: avg_metric_def)
  qed
  have a: "a = sum_list (map (\<lambda>c. ?S c / ?N) [0..<nc]) / real (length (map (\<lambda>c. ?S c / ?N) [0..<nc]))"
    using assms(2) nc by (simp add: avg_metric_def class_means_accumulate [OF cnt] py_simps)
  have "\<And>c. c < nc \<Longrightarrow> 0 \<le> ?S c / ?N \<and> ?S c / ?N \<le> 1"
  proof -
    fix c assume "c < nc"
    then have "\<And>v. v \<in> set vals \<Longrightarrow> 0 \<le> nan_to_num (v ! c) \<and> nan_to_num (v ! c) \<le> 1"
      using assms(1) by (auto simp: nan_to_num_def split: option.splits)
    then have "\<And>v. v \<in> set vals \<Longrightarrow> 0 \<le> nan_to_num (v ! c) * not_nan (v ! 0)
                 \<and> nan_to_num (v ! c) * not_nan (v ! 0) \<le> not_nan (v ! 0)"
    proof -
      fix v assume "v \<in> set vals"
      then have "0 \<le> nan_to_num (v ! c) \<and> nan_to_num (v ! c) \<le> 1"
        using \<open>\<And>v. v \<in> set vals \<Longrightarrow> 0 \<le> nan_to_num (v ! c) \<and> nan_to_num (v ! c) \<le> 1\<close> by blast
      then show "0 \<le> nan_to_num (v ! c) * not_nan (v ! 0)
                 \<and> nan_to_num (v ! c) * not_nan (v ! 0) \<le> not_nan (v ! 0)"
        using not_nan_cases [of "v ! 0"] by auto
    qed
    note H = this
    have "0 \<le> ?S c"
    proof (rule sum_list_nonneg)
      fix x assume "x \<in> set (map (\<lambda>v. nan_to_num (v ! c) * not_nan (v ! 0)) vals)"
      then obtain v where "v \<in> set vals" and "x = nan_to_num (v ! c) * not_nan (v ! 0)"
        by auto
      then show "0 \<le> x" using H by blast
    qed
    moreover have "?S c \<le> ?N"
      using H by (intro sum_list_mono) blast
    moreover have "0 \<le> ?N"
      by (rule sum_list_nonneg) (auto simp: not_nan_nonneg)
    ultimately show "0 \<le> ?S c / ?N \<and> ?S c / ?N \<le> 1"
      using cnt by (simp add: divide_le_eq_1)
  qed
  note per = this
  show ?thesis
    unfolding a by (rule mean_unit_interval) (use per in auto)
qed

text \<open>The per-rank \<^verbatim>\<open>loss_torch\<close> is the sum and the number of batch losses.\<close>

lemma loss_fold:
  "fold (\<lambda>l t. t[0 := t ! 0 + l, 1 := t ! 1 + 1]) ls [a, b] = [a + sum_list ls, b + real (length ls)]"
  by (induction ls arbitrary: a b) (simp_all add: algebra_simps)

lemma loss_accumulate_eq:
  "loss_accumulate ls = [sum_list ls, real (length ls)]"
  using loss_fold [of ls 0 0] by (simp add: loss_accumulate_def)

lemma all_reduce_loss:
  "all_reduce_sum 2 (map loss_accumulate per_rank) = [sum_list (concat per_rank), real (length (concat per_rank))]"
  by (induction per_rank) (simp_all add: all_reduce_sum_def loss_accumulate_eq numeral_2_eq_2)

text \<open>
  The epoch loss printed by rank 0 is the mean of all batch losses of
  all ranks; if no rank ran a batch it raises \<^verbatim>\<open>ZeroDivisionError\<close>.
\<close>

theorem epoch_loss_mean:
  "epoch_loss per_rank =
     (if concat per_rank = [] then Inl ZeroDivisionError
      else Inr (sum_list (concat per_rank) / real (length (concat per_rank))))"
proof -
  have e: "epoch_loss per_rank = py_truediv (sum_list (concat per_rank)) (real (length (concat per_rank)))"
    by (simp add: epoch_loss_def all_reduce_loss)
  show ?thesis
  proof (cases "concat per_rank = []")
    case True
    then show ?thesis
      by (simp only: e True list.size(3) of_nat_0 if_True py_truediv_simps(2))
  next
    case False
    then have nz: "real (length (concat per_rank)) \<noteq> 0"
      by simp
    show ?thesis
      by (simp only: e False if_False py_truediv_simps(1) [OF nz])
  qed
qed


section \<open>The whole validation loop\<close>

lemma val_step_fold:
  "fold (\<lambda>v st. val_step nc st v) vals st =
     \<lparr>vl_metric = fold (\<lambda>v m. metric_update nc m v) vals (vl_metric st),
      vl_sum = (case vl_sum st of None \<Rightarrow> None
                | Some a \<Rightarrow> if list_all (list_all (\<lambda>x. x \<noteq> None)) vals
                            then Some (a + sum_list (map (\<lambda>v. sum_list (map nan_to_num v)) vals)) else None),
      vl_count = vl_count st + length vals,
      vl_mat = vl_mat st @ vals,
      vl_index = vl_index st + length vals\<rparr>"
proof (induction vals arbitrary: st)
  case Nil
  then show ?case by (cases st) (simp split: option.splits)
next
  case (Cons v vals)
  then show ?case
    by (auto simp: val_step_def dice_sum_def algebra_simps split: option.splits)
qed

text \<open>
  The loop's \<^verbatim>\<open>metric\<close> is \<open>metric_accumulate\<close>; \<^verbatim>\<open>metric_count\<close> and
  \<^verbatim>\<open>_index\<close> count the images, \<^verbatim>\<open>metric_mat\<close> holds their score rows, and
  \<^verbatim>\<open>metric_sum\<close> is NaN as soon as one image has a NaN score. Only
  \<^verbatim>\<open>metric\<close> is read after the loop.
\<close>

lemma val_loop_run_fields:
  "vl_metric (val_loop_run nc vals) = metric_accumulate nc vals
   \<and> vl_count (val_loop_run nc vals) = length vals \<and> vl_index (val_loop_run nc vals) = length vals
   \<and> vl_mat (val_loop_run nc vals) = vals
   \<and> vl_sum (val_loop_run nc vals) =
       (if list_all (list_all (\<lambda>x. x \<noteq> None)) vals
        then Some (sum_list (map (\<lambda>v. sum_list (map nan_to_num v)) vals)) else None)"
  by (simp add: val_loop_run_def val_step_fold metric_accumulate_def)


text \<open>The only exception of the validation report is \<^verbatim>\<open>ZeroDivisionError\<close>.\<close>

lemma validation_metric_Inl: "validation_metric nc vals = Inl e \<Longrightarrow> e = ZeroDivisionError"
  unfolding validation_metric_def avg_metric_def class_means_def
  by (auto simp: bind_result_def py_truediv_def split: sum.splits if_splits elim!: map_result_Inl_from)

end
