(* ===== verification/Namespace.thy ===== *)
theory Namespace
  imports PySemantics
begin

text \<open>
  The module namespace of the two drivers and Python's lookup of a global
  name. The import block (search lines 12--92, train lines 12--91) is a
  list of import statements; \<open>import a.b\<close> binds \<open>a\<close>,
  \<open>import a.b as x\<close> binds \<open>x\<close>, \<open>from m import n\<^sub>1, n\<^sub>2\<close> binds the
  \<open>n\<^sub>i\<close> (the language reference, section 7.11). The \<^verbatim>\<open>def main()\<close>
  (search line 95, train line 94) adds \<open>main\<close>. Every import is taken to succeed: module
  resolution is not modelled. A name that \<^verbatim>\<open>main\<close> never assigns is
  looked up in the module globals and then in the builtins; when it is in
  neither, Python raises \<^verbatim>\<open>NameError\<close> as the expression is evaluated.
\<close>

datatype import_stmt =
    Import string "string option"
  | FromImport string "string list"

definition dotted_head :: "string \<Rightarrow> string" where
  "dotted_head m = takeWhile (\<lambda>c. c \<noteq> CHR ''.'') m"

fun bound_names :: "import_stmt \<Rightarrow> string list" where
  "bound_names (Import m None) = [dotted_head m]"
| "bound_names (Import m (Some a)) = [a]"
| "bound_names (FromImport m ns) = ns"

definition module_globals :: "import_stmt list \<Rightarrow> string list" where
  "module_globals imps = concat (map bound_names imps) @ [''main'']"

text \<open>The import block of \<^verbatim>\<open>search_dints.py\<close> (lines 12--92), statement by statement.\<close>

definition search_imports :: "import_stmt list" where
  "search_imports =
     [Import ''argparse'' None, Import ''copy'' None, Import ''json'' None, Import ''logging'' None,
      Import ''monai'' None, Import ''nibabel'' (Some ''nib''), Import ''numpy'' (Some ''np''),
      Import ''os'' None, Import ''pandas'' (Some ''pd''), Import ''pathlib'' None, Import ''random'' None,
      Import ''shutil'' None, Import ''sys'' None, Import ''tempfile'' None, Import ''time'' None,
      Import ''torch'' None, Import ''torch.distributed'' (Some ''dist''), Import ''torch.nn'' (Some ''nn''),
      Import ''torch.nn.functional'' (Some ''F''), Import ''yaml'' None,
      FromImport ''dints'' [''DiNTS''], FromImport ''datetime'' [''datetime''], FromImport ''glob'' [''glob''],
      FromImport ''torch'' [''nn''], FromImport ''torch.nn.parallel'' [''DistributedDataParallel''],
      FromImport ''monai.data'' [''DataLoader'', ''ThreadDataLoader'', ''decollate_batch''],
      FromImport ''torch.utils.tensorboard'' [''SummaryWriter''],
      FromImport ''monai.transforms''
        [''apply_transform'', ''Randomizable'', ''Transform'', ''AsDiscrete'', ''AsDiscreted'', ''AddChannel'',
         ''AddChanneld'', ''AsChannelFirstd'', ''CastToTyped'', ''Compose'', ''ConcatItemsd'', ''CopyItemsd'',
         ''CropForegroundd'', ''DivisiblePadd'', ''EnsureChannelFirstd'', ''EnsureTyped'',
         ''KeepLargestConnectedComponent'', ''Lambdad'', ''LoadImaged'', ''NormalizeIntensityd'', ''Orientationd'',
         ''ScaleIntensityRanged'', ''ThresholdIntensityd'', ''RandCropByLabelClassesd'', ''RandCropByPosNegLabeld'',
         ''RandGaussianNoised'', ''RandGaussianSmoothd'', ''RandShiftIntensityd'', ''RandScaleIntensityd'',
         ''RandSpatialCropd'', ''RandSpatialCropSamplesd'', ''RandFlipd'', ''RandRotated'', ''RandRotate90d'',
         ''RandZoomd'', ''Spacingd'', ''SpatialPadd'', ''SqueezeDimd'', ''ToDeviced'', ''ToNumpyd'', ''ToTensord''],
      FromImport ''monai.data'' [''Dataset'', ''create_test_image_3d'', ''DistributedSampler'', ''list_data_collate'',
                                 ''partition_dataset''],
      FromImport ''monai.inferers'' [''sliding_window_inference''],
      FromImport ''monai.metrics'' [''compute_meandice''],
      FromImport ''monai.utils'' [''set_determinism'']]"

text \<open>\<^verbatim>\<open>train_dints.py\<close> (lines 12--91) has the same block without \<^verbatim>\<open>import random\<close>.\<close>

definition train_imports :: "import_stmt list" where
  "train_imports = removeAll (Import ''random'' None) search_imports"

definition search_globals :: "string list" where
  "search_globals = module_globals search_imports"

definition train_globals :: "string list" where
  "train_globals = module_globals train_imports"

text \<open>The builtins the drivers' expressions name (a part of \<^verbatim>\<open>builtins\<close>).\<close>

definition py_builtins :: "string list" where
  "py_builtins = [''print'', ''len'', ''range'', ''int'', ''float'', ''str'', ''tuple'', ''list'', ''dict'',
                  ''open'', ''max'', ''min'', ''sum'', ''format'', ''iter'', ''next'', ''StopIteration'',
                  ''isinstance'', ''enumerate'', ''zip'', ''super'', ''type'']"

definition py_global :: "string list \<Rightarrow> string \<Rightarrow> unit result" where
  "py_global g x = (if x \<in> set g \<or> x \<in> set py_builtins then Inr () else Inl (NameError x))"

section \<open>Lookups\<close>

lemma py_global_Inr: "x \<in> set g \<Longrightarrow> py_global g x = Inr ()"
  by (simp add: py_global_def)

lemma py_global_Inl: "x \<notin> set g \<Longrightarrow> x \<notin> set py_builtins \<Longrightarrow> py_global g x = Inl (NameError x)"
  by (simp add: py_global_def)

text \<open>
  The names the drivers use without defining them: \<^verbatim>\<open>ndimage\<close> (the
  dilation of the training pipeline), \<^verbatim>\<open>EnsureType\<close> (only
  \<^verbatim>\<open>EnsureTyped\<close> is imported), \<^verbatim>\<open>num_tta\<close> and \<^verbatim>\<open>flip_tta\<close>.
\<close>

lemma globals_unbound:
  "x \<in> {''ndimage'', ''EnsureType'', ''num_tta'', ''flip_tta''} \<Longrightarrow>
     py_global search_globals x = Inl (NameError x) \<and> py_global train_globals x = Inl (NameError x)"
  by (auto simp: py_global_def search_globals_def train_globals_def module_globals_def search_imports_def
                 train_imports_def py_builtins_def dotted_head_def)

lemma globals_bound:
  "x \<in> {''np'', ''AsDiscrete'', ''Compose'', ''torch''} \<Longrightarrow>
     py_global search_globals x = Inr () \<and> py_global train_globals x = Inr ()"
  by (auto simp: py_global_def search_globals_def train_globals_def module_globals_def search_imports_def
                 train_imports_def dotted_head_def)

end
