(* ===== verification/Dice.thy ===== *)
theory Dice
  imports Metrics Namespace
begin

text \<open>
  The post-processing and scoring of the validation loops (train lines
  306--307 and 471--501, search lines 323--324 and 567--578), modelled to
  say what the code does with it. The drivers build
  \<^verbatim>\<open>post_pred = Compose([EnsureType(), AsDiscrete(argmax=True,
  to_onehot=True, num_classes=output_classes)])\<close> and \<^verbatim>\<open>post_label =
  Compose([EnsureType(), AsDiscrete(to_onehot=True,
  num_classes=output_classes)])\<close> before training, but neither script binds
  \<^verbatim>\<open>EnsureType\<close> (only \<^verbatim>\<open>EnsureTyped\<close> is imported): building them
  raises \<^verbatim>\<open>NameError\<close> (\<open>search_post_setup\<close>, \<open>train_post_setup\<close>), so
  the scoring below is never reached. It is modelled as written, taking
  the two lists as arguments: the prediction divided by \<^verbatim>\<open>ct = 1.0\<close>,
  both tensors post-processed, and \<^verbatim>\<open>compute_meandice(...,
  include_background=False)\<close> giving one score per foreground class, NaN
  (\<open>None\<close>) where the label has no voxel of the class. A tensor of one
  image is its spatial shape and its channels, each channel the voxels in
  memory order; the batch axis, of length 1, is left out.
  \<^verbatim>\<open>torch.argmax\<close>, MONAI's \<^verbatim>\<open>one_hot\<close>, \<^verbatim>\<open>AsDiscrete\<close> and
  \<^verbatim>\<open>compute_meandice\<close> (MONAI 0.8) are modelled from their documentation
  and sources; the network and \<^verbatim>\<open>sliding_window_inference\<close> that produce
  the prediction are not.
\<close>

record tensor =
  t_spatial :: "nat list"
  t_data :: "real list list"

section \<open>Post-processing transforms\<close>

text \<open>
  \<^verbatim>\<open>torch.argmax(img, dim=0, keepdim=True)\<close>: for every voxel the index of
  the first greatest channel (a strict comparison keeps the first); over
  an empty channel axis PyTorch raises.
\<close>

definition argmax_list :: "real list \<Rightarrow> nat" where
  "argmax_list xs =
     fst (fold (\<lambda>(i, x) (b, v). if v < x then (i, x) else (b, v)) (enumerate 1 (tl xs)) (0, hd xs))"

definition columns :: "tensor \<Rightarrow> real list list" where
  "columns t = map (\<lambda>v. map (\<lambda>ch. ch ! v) (t_data t)) [0..<prod_list (t_spatial t)]"

definition torch_argmax0 :: "tensor \<Rightarrow> tensor result" where
  "torch_argmax0 t =
     (if t_data t = [] then Inl (RuntimeError ''argmax(): Expected reduction dim 0 to have non-zero size.'')
      else Inr (t\<lparr>t_data := [map (real \<circ> argmax_list) (columns t)]\<rparr>))"

text \<open>\<^verbatim>\<open>labels.long()\<close> truncates towards zero.\<close>

definition py_long :: "real \<Rightarrow> int" where
  "py_long x = (if x < 0 then - \<lfloor>- x\<rfloor> else \<lfloor>x\<rfloor>)"

definition onehot_chan :: "int list \<Rightarrow> nat \<Rightarrow> real list" where
  "onehot_chan idx c = map (\<lambda>i. if i = int c then 1 else 0) idx"

text \<open>
  MONAI's \<^verbatim>\<open>one_hot(labels, num_classes, dim=0)\<close>: the channel axis must
  have length 1 (\<^verbatim>\<open>AssertionError\<close>), and \<^verbatim>\<open>o.scatter_(dim, labels.long(),
  1)\<close> raises for an index outside \<open>0..num_classes-1\<close>.
\<close>

definition monai_one_hot :: "nat \<Rightarrow> tensor \<Rightarrow> tensor result" where
  "monai_one_hot n t =
     (if length (t_data t) \<noteq> 1 then Inl (AssertionError ''labels should have a channel with length equal to one.'')
      else let idx = map py_long (hd (t_data t)) in
        if list_all (\<lambda>i. 0 \<le> i \<and> i < int n) idx then Inr (t\<lparr>t_data := map (onehot_chan idx) [0..<n]\<rparr>)
        else Inl (RuntimeError ''index out of bounds''))"

text \<open>
  The two transforms of the Compose lists: \<^verbatim>\<open>EnsureType()\<close> leaves a
  tensor as it is; \<^verbatim>\<open>AsDiscrete(argmax, to_onehot, num_classes)\<close> takes
  the argmax if asked, then the one-hot encoding with \<open>num_classes\<close>
  channels (\<open>Some n\<close>) if asked.
\<close>

datatype post_xform = EnsureType | AsDiscrete bool "nat option"

fun post_apply :: "post_xform \<Rightarrow> tensor \<Rightarrow> tensor result" where
  "post_apply EnsureType t = Inr t"
| "post_apply (AsDiscrete argmax to_onehot) t =
     bind_result (if argmax then torch_argmax0 t else Inr t) (\<lambda>t'.
       case to_onehot of None \<Rightarrow> Inr t' | Some n \<Rightarrow> monai_one_hot n t')"

definition post_compose :: "post_xform list \<Rightarrow> tensor \<Rightarrow> tensor result" where
  "post_compose ts = fold_result post_apply ts"

text \<open>
  Building the two lists evaluates, in order, the callee \<^verbatim>\<open>Compose\<close>,
  then \<^verbatim>\<open>EnsureType\<close> and \<^verbatim>\<open>AsDiscrete\<close>, in the module globals \<open>g\<close>.
\<close>

definition post_pred :: "string list \<Rightarrow> nat \<Rightarrow> post_xform list result" where
  "post_pred g output_classes =
     bind_result (py_global g ''Compose'') (\<lambda>_.
     bind_result (py_global g ''EnsureType'') (\<lambda>_.
     bind_result (py_global g ''AsDiscrete'') (\<lambda>_. Inr [EnsureType, AsDiscrete True (Some output_classes)])))"

definition post_label :: "string list \<Rightarrow> nat \<Rightarrow> post_xform list result" where
  "post_label g output_classes =
     bind_result (py_global g ''Compose'') (\<lambda>_.
     bind_result (py_global g ''EnsureType'') (\<lambda>_.
     bind_result (py_global g ''AsDiscrete'') (\<lambda>_. Inr [EnsureType, AsDiscrete False (Some output_classes)])))"

text \<open>Lines 306--307 of the training driver and 323--324 of the search driver.\<close>

definition train_post_setup :: "nat \<Rightarrow> (post_xform list \<times> post_xform list) result" where
  "train_post_setup output_classes =
     bind_result (post_pred train_globals output_classes) (\<lambda>pp.
     bind_result (post_label train_globals output_classes) (\<lambda>pl. Inr (pp, pl)))"

definition search_post_setup :: "nat \<Rightarrow> (post_xform list \<times> post_xform list) result" where
  "search_post_setup output_classes =
     bind_result (post_pred search_globals output_classes) (\<lambda>pp.
     bind_result (post_label search_globals output_classes) (\<lambda>pl. Inr (pp, pl)))"

section \<open>Dice scores\<close>

text \<open>
  \<^verbatim>\<open>compute_meandice(y_pred, y, include_background)\<close>: without the
  background, \<^verbatim>\<open>ignore_background\<close> drops channel 0 of a tensor with more
  than one channel; the shapes must then agree (\<^verbatim>\<open>ValueError\<close>); per
  channel, \<^verbatim>\<open>2 * intersection / (y_o + y_pred_o)\<close> where the label channel
  has a positive sum \<^verbatim>\<open>y_o\<close>, NaN elsewhere.
\<close>

definition ignore_background :: "real list list \<Rightarrow> real list list" where
  "ignore_background chans = (if 1 < length chans then drop 1 chans else chans)"

definition dice_channel :: "real list \<Rightarrow> real list \<Rightarrow> dice" where
  "dice_channel p g =
     (let intersection = sum_list (map2 (*) g p); y_o = sum_list g; y_pred_o = sum_list p in
      if 0 < y_o then Some (2 * intersection / (y_o + y_pred_o)) else None)"

definition compute_meandice :: "tensor \<Rightarrow> tensor \<Rightarrow> bool \<Rightarrow> dice list result" where
  "compute_meandice y_pred y include_background =
     (let pd = if include_background then t_data y_pred else ignore_background (t_data y_pred);
          yd = if include_background then t_data y else ignore_background (t_data y) in
      if length pd \<noteq> length yd \<or> t_spatial y_pred \<noteq> t_spatial y
      then Inl (ValueError ''y_pred and y should have same shapes.'')
      else Inr (map2 dice_channel pd yd))"

text \<open>
  One validation image, train lines 471--483 (search 567--578): the
  prediction \<^verbatim>\<open>pred\<close> of \<^verbatim>\<open>sliding_window_inference\<close> is divided by
  \<^verbatim>\<open>ct = 1.0\<close>, post-processed by the lists \<open>pp\<close> (\<^verbatim>\<open>post_pred\<close>) and
  \<open>pl\<close> (\<^verbatim>\<open>post_label\<close>) with the label, and scored.
\<close>

definition ct :: real where
  "ct = 1"

definition val_value :: "post_xform list \<Rightarrow> post_xform list \<Rightarrow> tensor \<Rightarrow> tensor \<Rightarrow> dice list result" where
  "val_value pp pl pred val_labels =
     (let val_outputs = pred\<lparr>t_data := map (map (\<lambda>x. x / ct)) (t_data pred)\<rparr> in
      bind_result (post_compose pp val_outputs) (\<lambda>val_outputs.
      bind_result (post_compose pl val_labels) (\<lambda>val_labels.
      compute_meandice val_outputs val_labels False)))"

text \<open>
  The loop over \<^verbatim>\<open>val_loader\<close> (train lines 452--501): each image's
  \<^verbatim>\<open>value\<close> feeds the bookkeeping \<open>val_step\<close> of \<open>Metrics\<close> over the
  \<^verbatim>\<open>output_classes - 1\<close> foreground classes. No handler surrounds the
  loop, so the first image that raises ends the validation with its
  exception, and the bookkeeping of the images before it is lost with
  the driver: computing all values first gives the same outcome.
\<close>

definition val_pass :: "post_xform list \<Rightarrow> post_xform list \<Rightarrow> nat \<Rightarrow> (tensor \<times> tensor) list \<Rightarrow> val_loop result" where
  "val_pass pp pl output_classes val_loader =
     bind_result (map_result (\<lambda>(pred, val_labels). val_value pp pl pred val_labels) val_loader)
       (\<lambda>values. Inr (val_loop_run (output_classes - 1) values))"

section \<open>Reference: the Dice coefficient of two segmentations\<close>

text \<open>
  For the class labels \<open>P\<close> (prediction) and \<open>G\<close> (ground truth) of the
  voxels, the Dice coefficient of class \<open>c\<close>:
  \<open>2 |P\<^sub>c \<inter> G\<^sub>c| / (|P\<^sub>c| + |G\<^sub>c|)\<close>, undefined when \<open>G\<^sub>c\<close> is empty.
\<close>

definition class_count :: "int list \<Rightarrow> nat \<Rightarrow> nat" where
  "class_count xs c = length (filter (\<lambda>i. i = int c) xs)"

definition dice_ref :: "int list \<Rightarrow> int list \<Rightarrow> nat \<Rightarrow> dice" where
  "dice_ref P G c =
     (let g = class_count G c; p = class_count P c;
          both = length (filter (\<lambda>(a, b). a = int c \<and> b = int c) (zip P G)) in
      if g = 0 then None else Some (2 * real both / real (p + g)))"

definition pred_classes :: "tensor \<Rightarrow> int list" where
  "pred_classes t = map (int \<circ> argmax_list) (columns t)"

definition label_classes :: "tensor \<Rightarrow> int list" where
  "label_classes t = map py_long (hd (t_data t))"

definition dice_ok :: "dice \<Rightarrow> bool" where
  "dice_ok d = (case d of None \<Rightarrow> True | Some r \<Rightarrow> 0 \<le> r \<and> r \<le> 1)"

text \<open>A channel of a one-hot tensor holds only zeros and ones.\<close>

definition binary :: "real list \<Rightarrow> bool" where
  "binary xs = list_all (\<lambda>x. x = 0 \<or> x = 1) xs"

section \<open>Post-processing\<close>

text \<open>The index kept by the fold stays below the positions seen so far.\<close>

lemma argmax_fold_less:
  "b < i \<Longrightarrow> fst (fold (\<lambda>(i, x) (b, v). if v < x then (i, x) else (b, v)) (enumerate i ys) (b, v)) < i + length ys"
proof (induction ys arbitrary: i b v)
  case (Cons y ys)
  show ?case
  proof (cases "v < y")
    case True
    with Cons.IH [of i "Suc i" y] show ?thesis by simp
  next
    case False
    with Cons.IH [of b "Suc i" v] Cons.prems show ?thesis by simp
  qed
qed simp

lemma argmax_list_less: "xs \<noteq> [] \<Longrightarrow> argmax_list xs < length xs"
  using argmax_fold_less [of 0 1 "tl xs" "hd xs"] by (cases xs) (simp_all add: argmax_list_def)

lemma py_long_of_nat [simp]: "py_long (real k) = int k"
  by (simp add: py_long_def)

lemma length_columns [simp]: "length (columns t) = prod_list (t_spatial t)"
  by (simp add: columns_def)

lemma set_columns_length: "col \<in> set (columns t) \<Longrightarrow> length col = length (t_data t)"
  by (auto simp: columns_def)

text \<open>What the two lists would do, were they built.\<close>

lemma argmax_onehot_eq:
  "post_compose [EnsureType, AsDiscrete True (Some n)] t =
     (if t_data t = [] then Inl (RuntimeError ''argmax(): Expected reduction dim 0 to have non-zero size.'')
      else if list_all (\<lambda>i. 0 \<le> i \<and> i < int n) (pred_classes t)
      then Inr (t\<lparr>t_data := map (onehot_chan (pred_classes t)) [0..<n]\<rparr>)
      else Inl (RuntimeError ''index out of bounds''))"
  by (simp add: post_compose_def torch_argmax0_def monai_one_hot_def pred_classes_def comp_def)

lemma onehot_eq: "post_compose [EnsureType, AsDiscrete False (Some n)] t = monai_one_hot n t"
  by (simp add: post_compose_def fold_result_Nil_fun)

lemma monai_one_hot_Inr:
  "monai_one_hot n t = Inr t' \<longleftrightarrow>
     (\<exists>l. t_data t = [l] \<and> list_all (\<lambda>i. 0 \<le> i \<and> i < int n) (label_classes t)
          \<and> t' = t\<lparr>t_data := map (onehot_chan (label_classes t)) [0..<n]\<rparr>)"
proof (cases "length (t_data t) = 1")
  case True
  then obtain l where "t_data t = [l]"
    by (auto simp: length_Suc_conv)
  then show ?thesis
    by (auto simp: monai_one_hot_def label_classes_def Let_def)
qed (auto simp: monai_one_hot_def)

lemma binary_onehot_chan [simp]: "binary (onehot_chan idx c)"
  by (induction idx) (simp_all add: binary_def onehot_chan_def)

lemma pred_classes_in_range:
  assumes "length (t_data t) = n" and "0 < n"
  shows "list_all (\<lambda>i. 0 \<le> i \<and> i < int n) (pred_classes t)"
  unfolding pred_classes_def list_all_iff
proof
  fix i assume "i \<in> set (map (int \<circ> argmax_list) (columns t))"
  then obtain col where col: "col \<in> set (columns t)" and i: "i = int (argmax_list col)"
    by auto
  have "length col = n"
    using set_columns_length [OF col] assms(1) by simp
  with assms(2) have "argmax_list col < n"
    using argmax_list_less [of col] by auto
  with i show "0 \<le> i \<and> i < int n"
    by simp
qed

section \<open>Bounds of a score\<close>

lemma binary_Cons: "binary (x # xs) \<longleftrightarrow> (x = 0 \<or> x = 1) \<and> binary xs"
  by (simp add: binary_def)

lemma binary_sum_nonneg: "binary xs \<Longrightarrow> 0 \<le> sum_list xs"
  by (induction xs) (auto simp: binary_Cons)

lemma intersection_bounds:
  assumes "binary g" and "binary p"
  shows "0 \<le> sum_list (map2 (*) g p) \<and> sum_list (map2 (*) g p) \<le> sum_list g
         \<and> sum_list (map2 (*) g p) \<le> sum_list p"
  using assms
proof (induction g p rule: list_induct2')
  case (2 x g)
  then show ?case using binary_sum_nonneg [of g] by (auto simp: binary_Cons)
next
  case (3 y p)
  then show ?case using binary_sum_nonneg [of p] by (auto simp: binary_Cons)
next
  case (4 x g y p)
  then have "0 \<le> x * y" "x * y \<le> x" "x * y \<le> y"
    by (auto simp: binary_Cons)
  with 4 show ?case
    by (simp add: binary_Cons)
qed simp

lemma unit_fraction:
  fixes i g p :: real
  assumes "0 \<le> i" and "2 * i \<le> g + p" and "0 < g" and "0 \<le> p"
  shows "0 \<le> 2 * i / (g + p) \<and> 2 * i / (g + p) \<le> 1"
  using assms by (simp add: divide_le_eq_1)

lemma dice_channel_ok:
  assumes "binary p" and "binary g"
  shows "dice_ok (dice_channel p g)"
proof (cases "0 < sum_list g")
  case True
  have "0 \<le> sum_list (map2 (*) g p)" and "2 * sum_list (map2 (*) g p) \<le> sum_list g + sum_list p"
    using intersection_bounds [OF assms(2,1)] by linarith+
  with True binary_sum_nonneg [OF assms(1)] show ?thesis
    unfolding dice_ok_def dice_channel_def Let_def by (simp add: unit_fraction)
qed (simp add: dice_ok_def dice_channel_def)

lemma ignore_background_set: "set (ignore_background xs) \<subseteq> set xs"
  by (auto simp: ignore_background_def dest: in_set_dropD)

lemma map2_dice_channel_ok:
  "list_all binary ps \<Longrightarrow> list_all binary gs \<Longrightarrow> list_all dice_ok (map2 dice_channel ps gs)"
proof (induction ps arbitrary: gs)
  case (Cons p ps)
  then show ?case by (cases gs) (simp_all add: dice_channel_ok)
qed simp

lemma ignore_background_binary: "list_all binary xs \<Longrightarrow> list_all binary (ignore_background xs)"
  using ignore_background_set by (fastforce simp: list_all_iff)

lemma compute_meandice_Inr:
  assumes "compute_meandice p y ib = Inr value"
  shows "value = map2 dice_channel (if ib then t_data p else ignore_background (t_data p))
                                   (if ib then t_data y else ignore_background (t_data y))"
  using assms by (simp add: compute_meandice_def Let_def split: if_splits)

lemma compute_meandice_ok:
  assumes "list_all binary (t_data p)" and "list_all binary (t_data y)"
    and "compute_meandice p y ib = Inr value"
  shows "list_all dice_ok value"
  unfolding compute_meandice_Inr [OF assms(3)]
  using assms(1,2) by (simp add: map2_dice_channel_ok ignore_background_binary)

section \<open>Scores of one-hot channels\<close>

lemma sum_onehot_chan: "sum_list (onehot_chan G c) = real (class_count G c)"
  by (induction G) (simp_all add: onehot_chan_def class_count_def)

lemma inter_onehot_chan:
  "length P = length G \<Longrightarrow>
   sum_list (map2 (*) (onehot_chan G c) (onehot_chan P c))
     = real (length (filter (\<lambda>(a, b). a = int c \<and> b = int c) (zip P G)))"
  by (induction P G rule: list_induct2) (simp_all add: onehot_chan_def)

lemma dice_channel_onehot:
  "length P = length G \<Longrightarrow> dice_channel (onehot_chan P c) (onehot_chan G c) = dice_ref P G c"
  by (simp add: dice_channel_def dice_ref_def Let_def sum_onehot_chan inter_onehot_chan)

lemma dice_channel_onehot_None:
  "dice_channel p (onehot_chan G c) = None \<longleftrightarrow> class_count G c = 0"
  by (simp add: dice_channel_def Let_def sum_onehot_chan)

lemma map2_map_upt:
  "map2 f (map g xs) (map h xs) = map (\<lambda>x. f (g x) (h x)) xs"
  by (induction xs) simp_all

lemma meandice_onehot:
  assumes "1 < n"
  shows "compute_meandice (p\<lparr>t_data := map (onehot_chan P) [0..<n]\<rparr>) (y\<lparr>t_data := map (onehot_chan G) [0..<n]\<rparr>) False
         = (if t_spatial p = t_spatial y
            then Inr (map (\<lambda>c. dice_channel (onehot_chan P c) (onehot_chan G c)) [1..<n])
            else Inl (ValueError ''y_pred and y should have same shapes.''))"
  using assms by (simp add: compute_meandice_def ignore_background_def drop_map map2_map_upt)

section \<open>Building the post-processing\<close>

text \<open>
  Both drivers stop at the first line that builds the post-processing,
  with \<^verbatim>\<open>NameError: name 'EnsureType' is not defined\<close>; the scoring of
  the validation loop is unreachable as written.
\<close>

lemma post_setup_name_error:
  "train_post_setup n = Inl (NameError ''EnsureType'') \<and> search_post_setup n = Inl (NameError ''EnsureType'')"
  using globals_unbound [of "''EnsureType''"] globals_bound [of "''Compose''"]
  by (simp add: train_post_setup_def search_post_setup_def post_pred_def)

end
