(* ===== verification/Transforms.thy ===== *)
theory Transforms
  imports Folds Namespace
begin

text \<open>
  MONAI's dictionary transforms and \<^verbatim>\<open>Compose\<close>, the library the drivers
  build their pre-processing from (search lines 236--294, train lines
  223--279), modelled from the MONAI documentation as an interpreter over
  a list of transforms, in the manner of a stack machine over its
  instructions. A sample is a dictionary from keys to values; an image
  array is represented by what the drivers' correctness depends on: its
  spatial shape, its affine, the history of spatial operations applied to
  it, its dtype (\<open>None\<close> where the library chooses a float type), and
  whether its voxel values are still values of the loaded file or zero
  (\<open>a_exact\<close>: only moved, never interpolated or rescaled). Voxel values
  themselves are not modelled. Resampling (\<^verbatim>\<open>Orientationd\<close>,
  \<^verbatim>\<open>Spacingd\<close>) gives a shape and an affine that depend only on the input's
  shape and affine, through the parameter \<open>geo\<close>; the files give each path
  a shape and an affine, or nothing when the file cannot be read. A random
  transform draws once per call, and the draw is shared by all its keys
  (\<open>draw\<close>: whether it fires, its parameters, the crop centres).
  \<^verbatim>\<open>Compose\<close> maps a transform over the samples of a list, and wraps every
  error in \<^verbatim>\<open>RuntimeError("applying transform ...")\<close>. The function of a
  \<^verbatim>\<open>Lambdad\<close> is a value of \<open>lam\<close>; the drivers' dilation carries the
  globals of its script (\<open>Namespace\<close>), in which it looks up
  \<^verbatim>\<open>np\<close> and \<^verbatim>\<open>ndimage\<close>.
\<close>

section \<open>Values\<close>

datatype dtype = Float16 | Float32 | UInt8

datatype geom_op =
    Orient string
  | Respace "real list"
  | Pad "nat list"
  | Crop "nat list" "nat list"
  | Rotate "real list"
  | Zoom "real list"
  | Flip nat

record arr =
  a_shape :: "nat list"
  a_affine :: "real list"
  a_hist :: "geom_op list"
  a_dtype :: "dtype option"
  a_exact :: bool

datatype item = Path string | Arr arr | Scalar int

type_synonym sample = "string \<rightharpoonup> item"
type_synonym geo = "geom_op \<Rightarrow> nat list \<Rightarrow> real list \<Rightarrow> nat list \<times> real list"
type_synonym files = "string \<Rightarrow> (nat list \<times> real list) option"

text \<open>An argument given as one value or as a sequence (\<^verbatim>\<open>ensure_tuple_rep\<close>).\<close>

datatype 'a arg = One 'a | Many "'a list"

definition pair_rep :: "'a arg \<Rightarrow> nat \<Rightarrow> 'a list result" where
  "pair_rep x n = (case x of One v \<Rightarrow> Inr (replicate n v)
                   | Many vs \<Rightarrow> if length vs = n then Inr vs else Inl (ValueError ''Sequence must have length''))"

text \<open>
  The two functions the drivers pass to \<^verbatim>\<open>Lambdad\<close>: the dilation
  \<^verbatim>\<open>lambda x: np.concatenate(tuple([ndimage.binary_dilation(...) for _k
  in range(output_classes)]), axis=0)\<close>, which carries the module globals
  its body is evaluated in, the number of classes and the iterations, and
  \<^verbatim>\<open>lambda x: 0\<close>.
\<close>

datatype lam = Dilate "string list" nat nat | Const0

section \<open>The transforms the drivers use\<close>

datatype xform =
    LoadImaged "string list"
  | EnsureChannelFirstd "string list"
  | Orientationd "string list" string
  | Spacingd "string list" "real list" "string arg"
  | CastToTyped "string list" "dtype arg"
  | ScaleIntensityRanged "string list" real real real real bool
  | CopyItemsd "string list" nat "string list"
  | Lambdad "string list" lam
  | EnsureTyped "string list"
  | SpatialPadd "string list" "nat list" "string arg"
  | RandCropByLabelClassesd "string list" string nat "nat list" "nat list" nat
  | RandRotated "string list" "real list" "string arg" real
  | RandZoomd "string list" real real "string arg" real
  | RandGaussianSmoothd "string list" "real list" real
  | RandScaleIntensityd "string list" real real
  | RandShiftIntensityd "string list" real real
  | RandGaussianNoised "string list" real real
  | RandFlipd "string list" nat real
  | ToTensord "string list"

fun is_random :: "xform \<Rightarrow> bool" where
  "is_random (RandCropByLabelClassesd _ _ _ _ _ _) = True"
| "is_random (RandRotated _ _ _ _) = True"
| "is_random (RandZoomd _ _ _ _ _) = True"
| "is_random (RandGaussianSmoothd _ _ _) = True"
| "is_random (RandScaleIntensityd _ _ _) = True"
| "is_random (RandShiftIntensityd _ _ _) = True"
| "is_random (RandGaussianNoised _ _ _) = True"
| "is_random (RandFlipd _ _ _) = True"
| "is_random _ = False"

record draw =
  d_fire :: bool
  d_params :: "real list"
  d_centre :: "nat \<Rightarrow> nat list"

section \<open>One transform\<close>

text \<open>
  \<^verbatim>\<open>key_iterator\<close>: each key with its argument, in order; a missing key
  raises \<^verbatim>\<open>KeyError\<close> (\<^verbatim>\<open>allow_missing_keys=False\<close>).
\<close>

definition upd_keys :: "('m \<Rightarrow> item \<Rightarrow> item result) \<Rightarrow> (string \<times> 'm) list \<Rightarrow> sample \<Rightarrow> sample result" where
  "upd_keys f kms s0 =
     fold_result (\<lambda>(k, m) s. case s k of None \<Rightarrow> Inl (KeyError k)
                                  | Some v \<Rightarrow> bind_result (f m v) (\<lambda>v'. Inr (s(k \<mapsto> v')))) kms s0"

definition keyed :: "string list \<Rightarrow> (string \<times> unit) list" where
  "keyed ks = map (\<lambda>k. (k, ())) ks"

definition on_arr :: "(arr \<Rightarrow> arr) \<Rightarrow> item \<Rightarrow> item result" where
  "on_arr f v = (case v of Arr a \<Rightarrow> Inr (Arr (f a)) | _ \<Rightarrow> Inl (TypeError ''expected an array''))"

definition arr_keys :: "(arr \<Rightarrow> arr) \<Rightarrow> string list \<Rightarrow> sample \<Rightarrow> sample result" where
  "arr_keys f ks s = upd_keys (\<lambda>_. on_arr f) (keyed ks) s"

definition arr_keys_m :: "('m \<Rightarrow> arr \<Rightarrow> arr) \<Rightarrow> string list \<Rightarrow> 'm arg \<Rightarrow> sample \<Rightarrow> sample result" where
  "arr_keys_m f ks ms s = bind_result (pair_rep ms (length ks)) (\<lambda>ms'. upd_keys (\<lambda>m. on_arr (f m)) (zip ks ms') s)"

definition present_keys :: "string list \<Rightarrow> sample \<Rightarrow> sample result" where
  "present_keys ks s = upd_keys (\<lambda>_ v. Inr v) (keyed ks) s"

definition load_value :: "files \<Rightarrow> item \<Rightarrow> item result" where
  "load_value fs v =
     (case v of Path p \<Rightarrow> (case fs p of None \<Rightarrow> Inl (RuntimeError (''cannot read '' @ p))
                                     | Some (sh, af) \<Rightarrow> Inr (Arr \<lparr>a_shape = sh, a_affine = af, a_hist = [],
                                                               a_dtype = Some Float32, a_exact = True\<rparr>))
              | _ \<Rightarrow> Inl (TypeError ''expected a file name''))"

definition resample :: "geo \<Rightarrow> geom_op \<Rightarrow> arr \<Rightarrow> arr" where
  "resample g op a = (case g op (a_shape a) (a_affine a) of (sh, af) \<Rightarrow>
                        a\<lparr>a_shape := sh, a_affine := af, a_hist := a_hist a @ [op]\<rparr>)"

definition pad_arr :: "nat list \<Rightarrow> arr \<Rightarrow> arr" where
  "pad_arr sz a = a\<lparr>a_shape := map (\<lambda>(n, w). max n w) (zip (a_shape a) sz), a_hist := a_hist a @ [Pad sz]\<rparr>"

text \<open>
  The crop box of \<^verbatim>\<open>RandCropByLabelClassesd\<close>: the centre is moved so
  that the box lies inside the label's grid (\<^verbatim>\<open>correct_crop_centers\<close>),
  and every key is cropped with that box. A centre has a coordinate per
  spatial dimension; missing coordinates of a draw count as 0.
\<close>

definition crop_start :: "nat list \<Rightarrow> nat list \<Rightarrow> nat list \<Rightarrow> nat list" where
  "crop_start sh sz c = map (\<lambda>((n, w), x). min (x - w div 2) (n - w)) (zip (zip sh sz) (c @ replicate (length sh) 0))"

definition crop_arr :: "nat list \<Rightarrow> nat list \<Rightarrow> arr \<Rightarrow> arr" where
  "crop_arr st sz a =
     a\<lparr>a_shape := map (\<lambda>((n, s0), w). min (s0 + w) n - s0) (zip (zip (a_shape a) st) sz),
       a_hist := a_hist a @ [Crop st sz]\<rparr>"

definition interp :: "string \<Rightarrow> arr \<Rightarrow> arr" where
  "interp m a = a\<lparr>a_exact := a_exact a \<and> m = ''nearest'', a_dtype := None\<rparr>"

definition rescale :: "arr \<Rightarrow> arr" where
  "rescale a = a\<lparr>a_exact := False, a_dtype := None\<rparr>"

definition copy_items :: "string list \<Rightarrow> nat \<Rightarrow> string list \<Rightarrow> sample \<Rightarrow> sample result" where
  "copy_items ks tms names s0 =
     (if length names \<noteq> tms * length ks then Inl (ValueError ''names must have times * len(keys) entries'')
      else fold_result (\<lambda>(k, nk) s. case s k of None \<Rightarrow> Inl (KeyError k)
                                     | Some v \<Rightarrow> if nk \<in> dom s then Inl (KeyError nk) else Inr (s(nk \<mapsto> v)))
             (zip (concat (replicate tms ks)) names) s0)"

text \<open>
  Calling a \<^verbatim>\<open>lam\<close>. The dilation evaluates the callee
  \<^verbatim>\<open>np.concatenate\<close> first, then the comprehension over
  \<^verbatim>\<open>range(output_classes)\<close>, whose first element names \<^verbatim>\<open>ndimage\<close>;
  with no class the comprehension is empty and \<^verbatim>\<open>np.concatenate(())\<close>
  raises \<^verbatim>\<open>ValueError\<close>. Were \<^verbatim>\<open>ndimage\<close> bound, the result would be
  the dilated masks: an array on the same grid whose values are no longer
  the file's.
\<close>

definition lambda_value :: "lam \<Rightarrow> item \<Rightarrow> item result" where
  "lambda_value f v =
     (case f of
        Const0 \<Rightarrow> Inr (Scalar 0)
      | Dilate g nc _ \<Rightarrow>
          bind_result (py_global g ''np'') (\<lambda>_.
            if nc = 0 then Inl (ValueError ''need at least one array to concatenate'')
            else bind_result (py_global g ''ndimage'') (\<lambda>_. on_arr (\<lambda>a. a\<lparr>a_exact := False\<rparr>) v)))"

definition crop_samples :: "draw \<Rightarrow> string list \<Rightarrow> string \<Rightarrow> nat \<Rightarrow> nat list \<Rightarrow> nat list \<Rightarrow> nat \<Rightarrow> sample \<Rightarrow> sample list result" where
  "crop_samples d ks lk ncls ratios sz n s =
     (case s lk of
        None \<Rightarrow> Inl (KeyError lk)
      | Some (Arr la) \<Rightarrow>
          if length ratios \<noteq> ncls then Inl (ValueError ''ratios must have num_classes entries'')
          else if \<not> list_all2 (\<le>) sz (a_shape la)
          then Inl (ValueError ''The size of the proposed random crop ROI is larger than the image size.'')
          else map_result (\<lambda>j. arr_keys (crop_arr (crop_start (a_shape la) sz (d_centre d j)) sz) ks s) [0..<n]
      | Some _ \<Rightarrow> Inl (TypeError ''expected an array''))"

text \<open>One call of a transform on one sample; a random one uses the draw \<open>d\<close>.\<close>

definition single :: "sample result \<Rightarrow> sample list result" where
  "single r = bind_result r (\<lambda>s. Inr [s])"

fun xform_apply :: "geo \<Rightarrow> files \<Rightarrow> draw \<Rightarrow> xform \<Rightarrow> sample \<Rightarrow> sample list result" where
  "xform_apply g fs d (LoadImaged ks) s = single (upd_keys (\<lambda>_. load_value fs) (keyed ks) s)"
| "xform_apply g fs d (EnsureChannelFirstd ks) s = single (arr_keys id ks s)"
| "xform_apply g fs d (Orientationd ks ax) s = single (arr_keys (resample g (Orient ax)) ks s)"
| "xform_apply g fs d (Spacingd ks pix ms) s =
     single (arr_keys_m (\<lambda>m a. interp m (resample g (Respace pix) a)) ks ms s)"
| "xform_apply g fs d (CastToTyped ks dts) s = single (arr_keys_m (\<lambda>t a. a\<lparr>a_dtype := Some t\<rparr>) ks dts s)"
| "xform_apply g fs d (ScaleIntensityRanged ks a_min a_max b_min b_max clip) s = single (arr_keys rescale ks s)"
| "xform_apply g fs d (CopyItemsd ks tms names) s = single (copy_items ks tms names s)"
| "xform_apply g fs d (Lambdad ks f) s = single (upd_keys (\<lambda>_. lambda_value f) (keyed ks) s)"
| "xform_apply g fs d (EnsureTyped ks) s = single (present_keys ks s)"
| "xform_apply g fs d (SpatialPadd ks sz ms) s =
     single (bind_result (pair_rep ms (length ks)) (\<lambda>_.
       upd_keys (\<lambda>_ v. case v of Arr a \<Rightarrow> if length (a_shape a) = length sz then Inr (Arr (pad_arr sz a))
                                           else Inl (ValueError ''spatial_size must match the spatial dimensions'')
                                | _ \<Rightarrow> Inl (TypeError ''expected an array'')) (keyed ks) s))"
| "xform_apply g fs d (RandCropByLabelClassesd ks lk ncls ratios sz n) s = crop_samples d ks lk ncls ratios sz n s"
| "xform_apply g fs d (RandRotated ks ranges ms prob) s =
     single (arr_keys_m (\<lambda>m a. if d_fire d then interp m (a\<lparr>a_hist := a_hist a @ [Rotate (d_params d)]\<rparr>) else a) ks ms s)"
| "xform_apply g fs d (RandZoomd ks zmin zmax ms prob) s =
     single (arr_keys_m (\<lambda>m a. if d_fire d then interp m (a\<lparr>a_hist := a_hist a @ [Zoom (d_params d)]\<rparr>) else a) ks ms s)"
| "xform_apply g fs d (RandGaussianSmoothd ks sigma prob) s = single (arr_keys (\<lambda>a. if d_fire d then rescale a else a) ks s)"
| "xform_apply g fs d (RandScaleIntensityd ks f prob) s = single (arr_keys (\<lambda>a. if d_fire d then rescale a else a) ks s)"
| "xform_apply g fs d (RandShiftIntensityd ks off prob) s = single (arr_keys (\<lambda>a. if d_fire d then rescale a else a) ks s)"
| "xform_apply g fs d (RandGaussianNoised ks std prob) s = single (arr_keys (\<lambda>a. if d_fire d then rescale a else a) ks s)"
| "xform_apply g fs d (RandFlipd ks ax prob) s =
     single (arr_keys (\<lambda>a. if d_fire d then a\<lparr>a_hist := a_hist a @ [Flip ax]\<rparr> else a) ks s)"
| "xform_apply g fs d (ToTensord ks) s = single (present_keys ks s)"

section \<open>Compose and CacheDataset\<close>

text \<open>
  \<^verbatim>\<open>Compose(ts)(data)\<close>: the transforms in order, each on every sample of
  the current list (a crop turns one sample into several); \<open>dr i j\<close> is
  the draw of the \<open>j\<close>-th call of the transform at position \<open>i\<close>. An
  error of a transform becomes \<^verbatim>\<open>RuntimeError\<close>.
\<close>

definition apply_each :: "geo \<Rightarrow> files \<Rightarrow> (nat \<Rightarrow> draw) \<Rightarrow> xform \<Rightarrow> sample list \<Rightarrow> sample list result" where
  "apply_each g fs dj t ss =
     (case map_result (\<lambda>(j, s). xform_apply g fs (dj j) t s) (zip [0..<length ss] ss) of
        Inl e \<Rightarrow> Inl (RuntimeError ''applying transform'')
      | Inr sss \<Rightarrow> Inr (concat sss))"

fun run_xforms :: "geo \<Rightarrow> files \<Rightarrow> (nat \<Rightarrow> nat \<Rightarrow> draw) \<Rightarrow> nat \<Rightarrow> xform list \<Rightarrow> sample list \<Rightarrow> sample list result" where
  "run_xforms g fs dr i [] ss = Inr ss"
| "run_xforms g fs dr i (t # ts) ss = bind_result (apply_each g fs (dr i) t ss) (run_xforms g fs dr (Suc i) ts)"

text \<open>
  \<^verbatim>\<open>CacheDataset(data, transform, cache_rate=1.0)\<close>: when the dataset is
  built, each item goes through the transforms before the first random
  one, and the result is kept; each access runs the remaining transforms
  on the kept result, with fresh draws.
\<close>

definition first_random :: "xform list \<Rightarrow> nat" where
  "first_random ts = length (takeWhile (\<lambda>t. \<not> is_random t) ts)"

definition no_draw :: "nat \<Rightarrow> nat \<Rightarrow> draw" where
  "no_draw i j = \<lparr>d_fire = False, d_params = [], d_centre = (\<lambda>_. [])\<rparr>"

definition cache_item :: "geo \<Rightarrow> files \<Rightarrow> xform list \<Rightarrow> sample \<Rightarrow> sample list result" where
  "cache_item g fs ts s = run_xforms g fs no_draw 0 (take (first_random ts) ts) [s]"

definition cached_get :: "geo \<Rightarrow> files \<Rightarrow> (nat \<Rightarrow> nat \<Rightarrow> draw) \<Rightarrow> xform list \<Rightarrow> sample list \<Rightarrow> sample list result" where
  "cached_get g fs dr ts c = run_xforms g fs dr (first_random ts) (drop (first_random ts) ts) c"

text \<open>A manifest pair as the dictionary the dataset hands to the transforms.\<close>

definition pair_sample :: "file_pair \<Rightarrow> sample" where
  "pair_sample p = [''image'' \<mapsto> Path (image p), ''label'' \<mapsto> Path (label p)]"


section \<open>Runs\<close>

lemma run_xforms_append:
  "run_xforms g fs dr i (xs @ ys) ss = bind_result (run_xforms g fs dr i xs ss) (run_xforms g fs dr (i + length xs) ys)"
  by (induction xs arbitrary: i ss) (auto simp: bind_result_def split: sum.splits)

lemma apply_each_single:
  "apply_each g fs dj t [s] =
     (case xform_apply g fs (dj 0) t s of Inl e \<Rightarrow> Inl (RuntimeError ''applying transform'') | Inr l \<Rightarrow> Inr l)"
  by (simp add: apply_each_def bind_result_def split: sum.splits)

text \<open>A property of one sample that every transform of a list keeps, each giving one sample, holds after the run.\<close>

lemma run_xforms_single_inv:
  assumes "\<And>t d s. t \<in> set ts \<Longrightarrow> P s \<Longrightarrow> \<exists>s'. xform_apply g fs d t s = Inr [s'] \<and> P s'"
    and "P s"
  shows "\<exists>s'. run_xforms g fs dr i ts [s] = Inr [s'] \<and> P s'"
  using assms
proof (induction ts arbitrary: i s)
  case Nil
  then show ?case by simp
next
  case (Cons t ts)
  obtain s1 where s1: "xform_apply g fs (dr i 0) t s = Inr [s1]" and "P s1"
    using Cons.prems(1) [of t s "dr i 0"] Cons.prems(2) by auto
  then obtain s' where "run_xforms g fs dr (Suc i) ts [s1] = Inr [s'] \<and> P s'"
    using Cons.IH [of s1 "Suc i"] Cons.prems(1) by auto
  then show ?case
    using s1 by (simp add: apply_each_single)
qed


section \<open>Crops\<close>

lemma crop_start_le:
  assumes "i < length sh" and "length sz = length sh"
  shows "crop_start sh sz c ! i \<le> sh ! i - sz ! i"
  using assms by (simp add: crop_start_def)

lemma length_crop_start:
  "length sz = length sh \<Longrightarrow> length (crop_start sh sz c) = length sh"
  by (simp add: crop_start_def)

text \<open>A box that fits the label's grid crops every array of that grid to the box.\<close>

lemma crop_arr_shape:
  assumes "list_all2 (\<le>) sz sh" and "a_shape a = sh"
  shows "a_shape (crop_arr (crop_start sh sz c) sz a) = sz"
proof -
  have l: "length sz = length sh"
    using assms(1) by (rule list_all2_lengthD)
  have "min (crop_start sh sz c ! i + sz ! i) (sh ! i) - crop_start sh sz c ! i = sz ! i"
    if "i < length sh" for i
    using crop_start_le [OF that l, of c] list_all2_nthD [OF assms(1), of i] l that by simp
  then show ?thesis
    using assms(2) l length_crop_start [OF l, of c] by (auto intro!: nth_equalityI simp: crop_arr_def)
qed


section \<open>Deterministic transforms and the cache\<close>

lemma xform_apply_det: "\<not> is_random t \<Longrightarrow> xform_apply g fs d t s = xform_apply g fs d' t s"
  by (induction t) (simp_all only: xform_apply.simps is_random.simps not_True_eq_False simp_thms)

lemma apply_each_det:
  assumes "\<not> is_random t"
  shows "apply_each g fs dj t ss = apply_each g fs dj' t ss"
proof -
  have "\<And>j s. xform_apply g fs (dj j) t s = xform_apply g fs (dj' j) t s"
    using xform_apply_det [OF assms] by blast
  then show ?thesis
    by (simp add: apply_each_def)
qed

lemma run_xforms_det:
  "list_all (\<lambda>t. \<not> is_random t) ts \<Longrightarrow> run_xforms g fs dr i ts ss = run_xforms g fs dr' j ts ss"
proof (induction ts arbitrary: i j ss)
  case Nil
  then show ?case by simp
next
  case (Cons t ts)
  then have "apply_each g fs (dr i) t ss = apply_each g fs (dr' j) t ss"
    by (simp add: apply_each_det)
  moreover have "run_xforms g fs dr (Suc i) ts = run_xforms g fs dr' (Suc j) ts"
    using Cons by (auto intro: ext)
  ultimately show ?case
    by simp
qed

text \<open>
  The cache is sound: running the kept prefix once and the rest on each
  access gives what the whole \<^verbatim>\<open>Compose\<close> gives, whatever the draws.
\<close>

lemma cache_get_equiv:
  "bind_result (cache_item g fs ts s) (cached_get g fs dr ts) = run_xforms g fs dr 0 ts [s]"
proof -
  let ?k = "first_random ts"
  have pre: "take ?k ts = takeWhile (\<lambda>t. \<not> is_random t) ts"
    unfolding first_random_def by (rule takeWhile_eq_take [symmetric])
  then have "list_all (\<lambda>t. \<not> is_random t) (take ?k ts)"
    by (auto simp: list_all_iff dest: set_takeWhileD)
  then have "run_xforms g fs no_draw 0 (take ?k ts) [s] = run_xforms g fs dr 0 (take ?k ts) [s]"
    by (rule run_xforms_det)
  moreover have "length (take ?k ts) = ?k"
    by (simp add: first_random_def length_takeWhile_le min_absorb2)
  moreover have "run_xforms g fs dr 0 ts [s] =
      bind_result (run_xforms g fs dr 0 (take ?k ts) [s]) (run_xforms g fs dr (length (take ?k ts)) (drop ?k ts))"
    using run_xforms_append [of g fs dr 0 "take ?k ts" "drop ?k ts" "[s]"] by simp
  moreover have "cached_get g fs dr ts = run_xforms g fs dr ?k (drop ?k ts)"
    by (rule ext) (simp add: cached_get_def)
  ultimately show ?thesis
    by (simp add: cache_item_def)
qed

lemma run_xforms_Inl: "run_xforms g fs dr i ts ss = Inl e \<Longrightarrow> \<exists>m. e = RuntimeError m"
  by (induction ts arbitrary: i ss) (auto simp: apply_each_def bind_result_def split: sum.splits)

end
