(* ===== verification/Pipelines.thy ===== *)
theory Pipelines
  imports Transforms
begin

text \<open>
  The pre-processing of the two drivers: the training and validation
  \<^verbatim>\<open>Compose\<close> lists exactly as each script writes them (search lines
  236--289, train lines 223--276), the constants they use, and the
  \<^verbatim>\<open>CacheDataset\<close>s built from them (search lines 291--294, train lines
  278--279). Each driver has its own copy of the two lists; they agree
  up to the globals their dilation \<^verbatim>\<open>Lambdad\<close> is evaluated in. The
  lemmas show that every training list raises at that dilation, so
  building either driver's training dataset raises, and that the
  validation lists keep image and label aligned.
\<close>

section \<open>Constants (search lines 162--179, train lines 156--173)\<close>

definition spacing :: "real list" where
  "spacing = [1.0, 1.0, 1.0]"

definition patch_size :: "nat list" where
  "patch_size = [96, 96, 96]"

definition num_patches_per_image :: nat where
  "num_patches_per_image = 1"

section \<open>The search driver's pipelines\<close>

definition search_train_xforms :: "nat \<Rightarrow> xform list" where
  "search_train_xforms output_classes =
     [LoadImaged [''image'', ''label''],
      EnsureChannelFirstd [''image'', ''label''],
      Orientationd [''image'', ''label''] ''RAS'',
      Spacingd [''image'', ''label''] spacing (Many [''bilinear'', ''nearest'']),
      CastToTyped [''image''] (One Float32),
      ScaleIntensityRanged [''image''] (-125.0) 275.0 0.0 1.0 True,
      CastToTyped [''image'', ''label''] (Many [Float16, UInt8]),
      CopyItemsd [''label''] 1 [''label4crop''],
      Lambdad [''label4crop''] (Dilate search_globals output_classes 48),
      EnsureTyped [''image'', ''label''],
      CastToTyped [''image''] (One Float32),
      SpatialPadd [''image'', ''label'', ''label4crop''] patch_size (Many [''reflect'', ''constant'', ''constant'']),
      RandCropByLabelClassesd [''image'', ''label''] ''label4crop'' output_classes (replicate output_classes 1)
        patch_size num_patches_per_image,
      Lambdad [''label4crop''] Const0,
      RandRotated [''image'', ''label''] [0.3, 0.3, 0.3] (Many [''bilinear'', ''nearest'']) 0.2,
      RandZoomd [''image'', ''label''] 0.8 1.2 (Many [''trilinear'', ''nearest'']) 0.16,
      RandGaussianSmoothd [''image''] [0.5, 1.15, 0.5, 1.15, 0.5, 1.15] 0.15,
      RandScaleIntensityd [''image''] 0.3 0.5,
      RandShiftIntensityd [''image''] 0.1 0.5,
      RandGaussianNoised [''image''] 0.01 0.15,
      RandFlipd [''image'', ''label''] 0 0.5,
      RandFlipd [''image'', ''label''] 1 0.5,
      RandFlipd [''image'', ''label''] 2 0.5,
      CastToTyped [''image'', ''label''] (Many [Float32, UInt8]),
      ToTensord [''image'', ''label'']]"

definition search_val_xforms :: "xform list" where
  "search_val_xforms =
     [LoadImaged [''image'', ''label''],
      EnsureChannelFirstd [''image'', ''label''],
      Orientationd [''image'', ''label''] ''RAS'',
      Spacingd [''image'', ''label''] spacing (Many [''bilinear'', ''nearest'']),
      CastToTyped [''image''] (One Float32),
      ScaleIntensityRanged [''image''] (-125.0) 275.0 0.0 1.0 True,
      CastToTyped [''image'', ''label''] (Many [Float32, UInt8]),
      EnsureTyped [''image'', ''label''],
      ToTensord [''image'', ''label'']]"

section \<open>The training driver's pipelines\<close>

definition train_train_xforms :: "nat \<Rightarrow> xform list" where
  "train_train_xforms output_classes =
     [LoadImaged [''image'', ''label''],
      EnsureChannelFirstd [''image'', ''label''],
      Orientationd [''image'', ''label''] ''RAS'',
      Spacingd [''image'', ''label''] spacing (Many [''bilinear'', ''nearest'']),
      CastToTyped [''image''] (One Float32),
      ScaleIntensityRanged [''image''] (-125.0) 275.0 0.0 1.0 True,
      CastToTyped [''image'', ''label''] (Many [Float16, UInt8]),
      CopyItemsd [''label''] 1 [''label4crop''],
      Lambdad [''label4crop''] (Dilate train_globals output_classes 48),
      EnsureTyped [''image'', ''label''],
      CastToTyped [''image''] (One Float32),
      SpatialPadd [''image'', ''label'', ''label4crop''] patch_size (Many [''reflect'', ''constant'', ''constant'']),
      RandCropByLabelClassesd [''image'', ''label''] ''label4crop'' output_classes (replicate output_classes 1)
        patch_size num_patches_per_image,
      Lambdad [''label4crop''] Const0,
      RandRotated [''image'', ''label''] [0.3, 0.3, 0.3] (Many [''bilinear'', ''nearest'']) 0.2,
      RandZoomd [''image'', ''label''] 0.8 1.2 (Many [''trilinear'', ''nearest'']) 0.16,
      RandGaussianSmoothd [''image''] [0.5, 1.15, 0.5, 1.15, 0.5, 1.15] 0.15,
      RandScaleIntensityd [''image''] 0.3 0.5,
      RandShiftIntensityd [''image''] 0.1 0.5,
      RandGaussianNoised [''image''] 0.01 0.15,
      RandFlipd [''image'', ''label''] 0 0.5,
      RandFlipd [''image'', ''label''] 1 0.5,
      RandFlipd [''image'', ''label''] 2 0.5,
      CastToTyped [''image'', ''label''] (Many [Float32, UInt8]),
      ToTensord [''image'', ''label'']]"

definition train_val_xforms :: "xform list" where
  "train_val_xforms =
     [LoadImaged [''image'', ''label''],
      EnsureChannelFirstd [''image'', ''label''],
      Orientationd [''image'', ''label''] ''RAS'',
      Spacingd [''image'', ''label''] spacing (Many [''bilinear'', ''nearest'']),
      CastToTyped [''image''] (One Float32),
      ScaleIntensityRanged [''image''] (-125.0) 275.0 0.0 1.0 True,
      CastToTyped [''image'', ''label''] (Many [Float32, UInt8]),
      EnsureTyped [''image'', ''label''],
      ToTensord [''image'', ''label'']]"

section \<open>Datasets\<close>

text \<open>
  \<^verbatim>\<open>CacheDataset(data=files, transform=ts, cache_rate=1.0)\<close>: every item
  is run through the cached part when the dataset is built. The search
  driver builds three (\<^verbatim>\<open>train_ds_a\<close>, \<^verbatim>\<open>train_ds_w\<close>, \<^verbatim>\<open>val_ds\<close>), the
  training driver two; the \<^verbatim>\<open>else\<close> branch of \<^verbatim>\<open>if True\<close> is never taken.
\<close>

definition cache_dataset :: "geo \<Rightarrow> files \<Rightarrow> xform list \<Rightarrow> file_pair list \<Rightarrow> sample list list result" where
  "cache_dataset g fs ts items = map_result (\<lambda>p. cache_item g fs ts (pair_sample p)) items"

definition search_datasets ::
  "geo \<Rightarrow> files \<Rightarrow> nat \<Rightarrow> file_pair list \<Rightarrow> file_pair list \<Rightarrow> file_pair list
   \<Rightarrow> (sample list list \<times> sample list list \<times> sample list list) result" where
  "search_datasets g fs nc train_files_a train_files_w val_files =
     bind_result (cache_dataset g fs (search_train_xforms nc) train_files_a) (\<lambda>ds_a.
     bind_result (cache_dataset g fs (search_train_xforms nc) train_files_w) (\<lambda>ds_w.
     bind_result (cache_dataset g fs search_val_xforms val_files) (\<lambda>ds_v. Inr (ds_a, ds_w, ds_v))))"

definition train_datasets ::
  "geo \<Rightarrow> files \<Rightarrow> nat \<Rightarrow> file_pair list \<Rightarrow> file_pair list \<Rightarrow> (sample list list \<times> sample list list) result" where
  "train_datasets g fs nc train_files val_files =
     bind_result (cache_dataset g fs (train_train_xforms nc) train_files) (\<lambda>ds_t.
     bind_result (cache_dataset g fs train_val_xforms val_files) (\<lambda>ds_v. Inr (ds_t, ds_v)))"

section \<open>Evaluation\<close>

text \<open>The image and label arrays of a sample, when both are arrays.\<close>

definition arrays :: "sample \<Rightarrow> (arr \<times> arr) option" where
  "arrays s = (case (s ''image'', s ''label'') of (Some (Arr a), Some (Arr b)) \<Rightarrow> Some (a, b) | _ \<Rightarrow> None)"

definition resampled :: "geo \<Rightarrow> nat list \<Rightarrow> real list \<Rightarrow> nat list \<times> real list" where
  "resampled g sh af = (case g (Orient ''RAS'') sh af of (sh1, af1) \<Rightarrow> g (Respace spacing) sh1 af1)"

text \<open>The exception of the dilation \<^verbatim>\<open>Lambdad\<close> (search line 248, train line 235) for \<open>nc\<close> classes.\<close>

definition dilate_error :: "nat \<Rightarrow> py_error" where
  "dilate_error nc = (if nc = 0 then ValueError ''need at least one array to concatenate'' else NameError ''ndimage'')"

section \<open>The training pipeline\<close>

lemmas xform_simps = apply_each_def upd_keys_def keyed_def load_value_def on_arr_def arr_keys_def
  arr_keys_m_def pair_rep_def resample_def single_def interp_def rescale_def copy_items_def
  lambda_value_def present_keys_def pad_arr_def crop_samples_def

text \<open>
  The training lists of the two drivers differ only in the globals their
  dilation is evaluated in.
\<close>

lemma train_xforms_dilate:
  "train_train_xforms nc = (search_train_xforms nc)[8 := Lambdad [''label4crop''] (Dilate train_globals nc 48)]"
  by (simp add: train_train_xforms_def search_train_xforms_def)

lemma train_xforms_take8: "take 8 (train_train_xforms nc) = take 8 (search_train_xforms nc)"
  by (simp add: train_train_xforms_def search_train_xforms_def)

lemma search_train_nth8: "search_train_xforms nc ! 8 = Lambdad [''label4crop''] (Dilate search_globals nc 48)"
  by (simp add: search_train_xforms_def)

lemma train_train_nth8: "train_train_xforms nc ! 8 = Lambdad [''label4crop''] (Dilate train_globals nc 48)"
  by (simp add: train_train_xforms_def)

text \<open>The eight transforms before the dilation load a readable pair and copy the label to \<^verbatim>\<open>label4crop\<close>.\<close>

lemma search_train_prefix:
  assumes "fs (image p) = Some (sh1, af1)" and "fs (label p) = Some (sh2, af2)"
  shows "\<exists>s a. run_xforms g fs dr 0 (take 8 (search_train_xforms nc)) [pair_sample p] = Inr [s]
               \<and> s ''label4crop'' = Some (Arr a)"
  using assms
  by (simp add: search_train_xforms_def pair_sample_def xform_simps split: prod.splits)

text \<open>
  In the globals of either driver \<^verbatim>\<open>np\<close> is bound and \<^verbatim>\<open>ndimage\<close> is not:
  the dilation raises \<^verbatim>\<open>NameError\<close> (\<^verbatim>\<open>ValueError\<close> with no class).
\<close>

lemma dilate_raises:
  assumes "G = search_globals \<or> G = train_globals" and "s ''label4crop'' = Some v"
  shows "xform_apply g fs d (Lambdad [''label4crop''] (Dilate G nc 48)) s = Inl (dilate_error nc)"
  using assms globals_unbound [of "''ndimage''"] globals_bound [of "''np''"]
  by (auto simp: xform_simps fold_result_single dilate_error_def)

lemma apply_each_single_Inl:
  "xform_apply g fs (dj 0) t s = Inl e \<Longrightarrow> apply_each g fs dj t [s] = Inl (RuntimeError ''applying transform'')"
  by (simp add: apply_each_def bind_result_def)

lemma run_xforms_single_Inl_at:
  assumes "run_xforms g fs dr i (take n ts) [s0] = Inr [s]" and "n < length ts"
    and "xform_apply g fs (dr (i + n) 0) (ts ! n) s = Inl e"
  shows "run_xforms g fs dr i ts [s0] = Inl (RuntimeError ''applying transform'')"
proof -
  have "ts = take n ts @ [ts ! n] @ drop (Suc n) ts"
    using assms(2) by (simp add: id_take_nth_drop)
  then have "run_xforms g fs dr i ts [s0] = run_xforms g fs dr i (take n ts @ [ts ! n] @ drop (Suc n) ts) [s0]"
    by simp
  also have "\<dots> = Inl (RuntimeError ''applying transform'')"
    using assms(1,2) apply_each_single_Inl [of g fs "dr (i + n)", OF assms(3)]
    by (simp add: run_xforms_append min_def)
  finally show ?thesis .
qed


lemma load_unreadable:
  assumes "fs (image p) = None \<or> fs (label p) = None"
  shows "run_xforms g fs dr i (LoadImaged [''image'', ''label''] # ts) [pair_sample p]
           = Inl (RuntimeError ''applying transform'')"
  using assms by (auto simp: pair_sample_def xform_simps bind_result_def split: option.splits)

lemma train_xforms_raise:
  assumes "ts = search_train_xforms nc \<or> ts = train_train_xforms nc" and "8 < n"
  shows "run_xforms g fs dr 0 (take n ts) [pair_sample p] = Inl (RuntimeError ''applying transform'')"
proof (cases "fs (image p) = None \<or> fs (label p) = None")
  case True
  have "take n ts = LoadImaged [''image'', ''label''] # take (n - 1) (tl ts)"
    using assms by (cases n) (auto simp: search_train_xforms_def train_train_xforms_def)
  then show ?thesis
    using load_unreadable [OF True] by simp
next
  case False
  then obtain sh1 af1 sh2 af2 where "fs (image p) = Some (sh1, af1)" and "fs (label p) = Some (sh2, af2)"
    by (cases "fs (image p)"; cases "fs (label p)") auto
  then obtain s a where r: "run_xforms g fs dr 0 (take 8 (search_train_xforms nc)) [pair_sample p] = Inr [s]"
    and l: "s ''label4crop'' = Some (Arr a)"
    using search_train_prefix by blast
  have t8: "take 8 (take n ts) = take 8 (search_train_xforms nc)"
    using assms by (auto simp: train_xforms_take8 min_def)
  have "\<exists>G. (G = search_globals \<or> G = train_globals) \<and> take n ts ! 8 = Lambdad [''label4crop''] (Dilate G nc 48)"
    using assms by (auto simp: search_train_nth8 train_train_nth8)
  then obtain G where G: "G = search_globals \<or> G = train_globals"
    and n8: "take n ts ! 8 = Lambdad [''label4crop''] (Dilate G nc 48)"
    by blast
  have len: "8 < length (take n ts)"
    using assms by (auto simp: search_train_xforms_def train_train_xforms_def)
  show ?thesis
    by (rule run_xforms_single_Inl_at [OF _ len]) (use r t8 dilate_raises [where G = G and s = s, OF G l] n8 in simp_all)
qed

lemma length_train_xforms: "length (search_train_xforms nc) = 25 \<and> length (train_train_xforms nc) = 25"
  by (simp add: search_train_xforms_def train_train_xforms_def)

lemma first_random_train: "first_random (search_train_xforms nc) = 12 \<and> first_random (train_train_xforms nc) = 12"
  by (simp add: first_random_def search_train_xforms_def train_train_xforms_def)

lemma cache_train_raises:
  assumes "ts = search_train_xforms nc \<or> ts = train_train_xforms nc" and "items \<noteq> []"
  shows "cache_dataset g fs ts items = Inl (RuntimeError ''applying transform'')"
proof -
  obtain p ps where "items = p # ps"
    using assms(2) by (cases items) auto
  moreover have "cache_item g fs ts (pair_sample p) = Inl (RuntimeError ''applying transform'')"
    unfolding cache_item_def using assms(1) first_random_train train_xforms_raise [OF assms(1)]
    by auto
  ultimately show ?thesis
    by (simp add: cache_dataset_def)
qed

section \<open>The validation pipeline\<close>

lemma search_val_sample:
  assumes "fs (image p) = Some (sh, af)" and "fs (label p) = Some (sh, af)"
    and "resampled g sh af = (shr, afr)"
  shows "run_xforms g fs dr 0 search_val_xforms [pair_sample p] =
           Inr [[''image'' \<mapsto> Arr \<lparr>a_shape = shr, a_affine = afr, a_hist = [Orient ''RAS'', Respace spacing],
                                     a_dtype = Some Float32, a_exact = False\<rparr>,
                 ''label'' \<mapsto> Arr \<lparr>a_shape = shr, a_affine = afr, a_hist = [Orient ''RAS'', Respace spacing],
                                     a_dtype = Some UInt8, a_exact = True\<rparr>]]"
  using assms
  by (simp add: search_val_xforms_def pair_sample_def resampled_def xform_simps split: prod.splits)

lemma val_xforms_same: "train_val_xforms = search_val_xforms"
  by (simp add: train_val_xforms_def search_val_xforms_def)

lemma first_random_val: "first_random search_val_xforms = 9"
  by (simp add: first_random_def search_val_xforms_def)

lemma search_val_unreadable:
  assumes "fs (image p) = None \<or> fs (label p) = None"
  shows "cache_item g fs search_val_xforms (pair_sample p) = Inl (RuntimeError ''applying transform'')"
proof -
  have "take (first_random search_val_xforms) search_val_xforms
          = LoadImaged [''image'', ''label''] # tl search_val_xforms"
    unfolding first_random_val by (simp add: search_val_xforms_def)
  then show ?thesis
    unfolding cache_item_def by (simp only:) (rule load_unreadable [OF assms])
qed

lemma cache_dataset_Inl:
  "cache_dataset g fs ts items = Inl e \<Longrightarrow> \<exists>m. e = RuntimeError m"
  unfolding cache_dataset_def
  by (erule map_result_Inl_from) (auto simp: cache_item_def dest: run_xforms_Inl)

lemma cache_dataset_unreadable:
  assumes "p \<in> set items" and "fs (image p) = None \<or> fs (label p) = None"
  shows "\<exists>m. cache_dataset g fs search_val_xforms items = Inl (RuntimeError m)"
proof -
  obtain e where "cache_dataset g fs search_val_xforms items = Inl e"
    using map_result_Inl [OF assms(1), of "\<lambda>p. cache_item g fs search_val_xforms (pair_sample p)"]
      search_val_unreadable [OF assms(2)]
    by (auto simp: cache_dataset_def)
  then show ?thesis
    using cache_dataset_Inl by blast
qed


section \<open>Properties of the pre-processing\<close>

text \<open>
  C2. The training pipeline of either driver never yields a sample: on
  every manifest pair, whatever the geometry and the random draws,
  \<^verbatim>\<open>Compose\<close> raises \<^verbatim>\<open>RuntimeError\<close>. When both files can be read,
  the eight transforms before the dilation succeed and the dilation
  \<^verbatim>\<open>Lambdad\<close> raises \<^verbatim>\<open>NameError\<close>: its lambda calls
  \<^verbatim>\<open>ndimage.binary_dilation\<close> and neither script binds \<^verbatim>\<open>ndimage\<close>.
\<close>

theorem train_pipeline_raises:
  "run_xforms g fs dr 0 (search_train_xforms nc) [pair_sample p] = Inl (RuntimeError ''applying transform'')
   \<and> run_xforms g fs dr 0 (train_train_xforms nc) [pair_sample p] = Inl (RuntimeError ''applying transform'')
   \<and> (fs (image p) \<noteq> None \<and> fs (label p) \<noteq> None \<longrightarrow>
        (\<exists>s. run_xforms g fs dr 0 (take 8 (search_train_xforms nc)) [pair_sample p] = Inr [s]
             \<and> xform_apply g fs d (search_train_xforms nc ! 8) s = Inl (dilate_error nc)
             \<and> xform_apply g fs d (train_train_xforms nc ! 8) s = Inl (dilate_error nc)))"
proof (intro conjI impI)
  show "run_xforms g fs dr 0 (search_train_xforms nc) [pair_sample p] = Inl (RuntimeError ''applying transform'')"
    using train_xforms_raise [of "search_train_xforms nc" nc 25] length_train_xforms [of nc] by simp
  show "run_xforms g fs dr 0 (train_train_xforms nc) [pair_sample p] = Inl (RuntimeError ''applying transform'')"
    using train_xforms_raise [of "train_train_xforms nc" nc 25] length_train_xforms [of nc] by simp
next
  assume "fs (image p) \<noteq> None \<and> fs (label p) \<noteq> None"
  then obtain sh1 af1 sh2 af2 where "fs (image p) = Some (sh1, af1)" and "fs (label p) = Some (sh2, af2)"
    by (cases "fs (image p)"; cases "fs (label p)") auto
  then obtain s a where r: "run_xforms g fs dr 0 (take 8 (search_train_xforms nc)) [pair_sample p] = Inr [s]"
    and l: "s ''label4crop'' = Some (Arr a)"
    using search_train_prefix by blast
  show "\<exists>s. run_xforms g fs dr 0 (take 8 (search_train_xforms nc)) [pair_sample p] = Inr [s]
             \<and> xform_apply g fs d (search_train_xforms nc ! 8) s = Inl (dilate_error nc)
             \<and> xform_apply g fs d (train_train_xforms nc ! 8) s = Inl (dilate_error nc)"
    using r dilate_raises [where G = search_globals and s = s, OF _ l] dilate_raises [where G = train_globals and s = s, OF _ l]
    by (auto simp: search_train_nth8 train_train_nth8)
qed

theorem train_pipeline_raises_witness:
  "\<exists>s. run_xforms (\<lambda>op sh af. (sh, af)) (\<lambda>_. Some ([40, 200, 120], [1])) no_draw
          0 (take 8 (search_train_xforms 3)) [pair_sample \<lparr>image = ''img.nii.gz'', label = ''seg.nii.gz''\<rparr>] = Inr [s]
     \<and> xform_apply (\<lambda>op sh af. (sh, af)) (\<lambda>_. Some ([40, 200, 120], [1])) (no_draw 0 0) (search_train_xforms 3 ! 8) s
         = Inl (NameError ''ndimage'')
     \<and> xform_apply (\<lambda>op sh af. (sh, af)) (\<lambda>_. Some ([40, 200, 120], [1])) (no_draw 0 0) (train_train_xforms 3 ! 8) s
         = Inl (NameError ''ndimage'')"
  using train_pipeline_raises [where g = "\<lambda>op sh af. (sh, af)" and fs = "\<lambda>_. Some ([40, 200, 120], [1])"
      and dr = no_draw and nc = 3 and p = "\<lparr>image = ''img.nii.gz'', label = ''seg.nii.gz''\<rparr>" and d = "no_draw 0 0"]
  by (simp add: dilate_error_def)

text \<open>
  C6. The validation pipeline of either driver keeps an image and its
  label on one grid: for a pair whose files share their grid, both end
  with the same shape, affine and history of spatial operations; the label
  is only resampled with \<^verbatim>\<open>nearest\<close>, so it keeps the class values of the
  file; and the network receives \<^verbatim>\<open>float32\<close> images and \<^verbatim>\<open>uint8\<close>
  labels.
\<close>

theorem val_pipeline_aligned:
  assumes "fs (image p) = Some (sh, af)" and "fs (label p) = Some (sh, af)"
  shows "\<exists>s a b. run_xforms g fs dr 0 search_val_xforms [pair_sample p] = Inr [s]
            \<and> run_xforms g fs dr 0 train_val_xforms [pair_sample p] = Inr [s] \<and> arrays s = Some (a, b)
            \<and> a_shape a = a_shape b \<and> a_affine a = a_affine b \<and> a_hist a = a_hist b \<and> a_exact b
            \<and> a_dtype a = Some Float32 \<and> a_dtype b = Some UInt8"
proof -
  obtain shr afr where "resampled g sh af = (shr, afr)"
    by (cases "resampled g sh af")
  then show ?thesis
    using search_val_sample [OF assms] by (auto simp: val_xforms_same arrays_def)
qed

theorem val_pipeline_aligned_witness:
  "\<exists>s a b. run_xforms (\<lambda>op sh af. (sh, af)) (\<lambda>_. Some ([40, 200, 120], [1])) no_draw
              0 search_val_xforms [pair_sample \<lparr>image = ''img.nii.gz'', label = ''seg.nii.gz''\<rparr>] = Inr [s]
     \<and> run_xforms (\<lambda>op sh af. (sh, af)) (\<lambda>_. Some ([40, 200, 120], [1])) no_draw
              0 train_val_xforms [pair_sample \<lparr>image = ''img.nii.gz'', label = ''seg.nii.gz''\<rparr>] = Inr [s]
     \<and> arrays s = Some (a, b)
     \<and> a_shape a = a_shape b \<and> a_affine a = a_affine b \<and> a_hist a = a_hist b \<and> a_exact b
     \<and> a_dtype a = Some Float32 \<and> a_dtype b = Some UInt8"
  by (rule val_pipeline_aligned [where sh = "[40, 200, 120]" and af = "[1]"]) simp_all


text \<open>
  C14. The datasets are built when the driver starts: a manifest pair
  whose image or label cannot be read (it passed the existence check of
  the file collection) stops either driver with \<^verbatim>\<open>RuntimeError\<close> while
  \<^verbatim>\<open>CacheDataset\<close> is filled, before the first epoch.
\<close>

theorem datasets_unreadable:
  assumes "p \<in> set val_files" and "fs (image p) = None \<or> fs (label p) = None"
  shows "(\<exists>m. search_datasets g fs nc files_a files_w val_files = Inl (RuntimeError m))
       \<and> (\<exists>m. train_datasets g fs nc train_files val_files = Inl (RuntimeError m))"
proof -
  obtain m where v: "cache_dataset g fs search_val_xforms val_files = Inl (RuntimeError m)"
    using cache_dataset_unreadable [OF assms] by blast
  have "\<exists>m. search_datasets g fs nc files_a files_w val_files = Inl (RuntimeError m)"
  proof (cases "cache_dataset g fs (search_train_xforms nc) files_a")
    case (Inl e)
    then show ?thesis
      using cache_dataset_Inl [OF Inl] by (auto simp: search_datasets_def)
  next
    case (Inr ds_a)
    show ?thesis
    proof (cases "cache_dataset g fs (search_train_xforms nc) files_w")
      case (Inl e)
      then show ?thesis
        using cache_dataset_Inl [OF Inl] Inr by (auto simp: search_datasets_def)
    next
      case Inr2: (Inr ds_w)
      then show ?thesis
        using Inr v by (simp add: search_datasets_def)
    qed
  qed
  moreover have "\<exists>m. train_datasets g fs nc train_files val_files = Inl (RuntimeError m)"
  proof (cases "cache_dataset g fs (train_train_xforms nc) train_files")
    case (Inl e)
    then show ?thesis
      using cache_dataset_Inl [OF Inl] by (auto simp: train_datasets_def)
  next
    case (Inr ds_t)
    then show ?thesis
      using v unfolding train_datasets_def val_xforms_same by simp
  qed
  ultimately show ?thesis ..
qed

theorem datasets_unreadable_witness:
  "(\<exists>m. search_datasets (\<lambda>op sh af. (sh, af)) (\<lambda>f. if f = ''seg.nii.gz'' then None else Some ([40, 200, 120], [1])) 3
          [] [] [\<lparr>image = ''img.nii.gz'', label = ''seg.nii.gz''\<rparr>] = Inl (RuntimeError m))
   \<and> (\<exists>m. train_datasets (\<lambda>op sh af. (sh, af)) (\<lambda>f. if f = ''seg.nii.gz'' then None else Some ([40, 200, 120], [1])) 3
          [] [\<lparr>image = ''img.nii.gz'', label = ''seg.nii.gz''\<rparr>] = Inl (RuntimeError m))"
  by (rule datasets_unreadable [where p = "\<lparr>image = ''img.nii.gz'', label = ''seg.nii.gz''\<rparr>"]) simp_all

end
