(* ===== verification/Progress.thy ===== *)
theory Progress
  imports Prelude
begin

text \<open>
  What rank 0 does with the average metric of a validation pass: the
  best-metric tracker of both drivers and the files it writes
  (search lines 366--372 and 611--648, train lines 349--354 and 516--538).
  A file write is an artifact appended to a log; its contents are the
  records the scripts serialise. The decoded architecture the search
  checkpoint also holds (\<^verbatim>\<open>model.module._decode()\<close>) is not modelled.
\<close>

section \<open>State and artifacts\<close>

text \<open>
  \<^verbatim>\<open>best_metric = -1\<close>, \<^verbatim>\<open>best_metric_epoch = -1\<close>, and in the search
  script \<^verbatim>\<open>best_metric_iterations\<close>, which is only bound once a
  validation improves the metric (\<open>None\<close> before).
\<close>

record tracker =
  best_metric :: real
  best_metric_epoch :: int
  best_metric_iterations :: "nat option"

definition init_tracker :: tracker where
  "init_tracker = \<lparr>best_metric = -1, best_metric_epoch = -1, best_metric_iterations = None\<rparr>"

text \<open>\<^verbatim>\<open>progress.yaml\<close>: the dictionary \<^verbatim>\<open>dict_file\<close>.\<close>

record progress =
  best_avg_dice_score :: real
  best_avg_dice_score_epoch :: int
  best_avg_dice_score_iteration :: nat

text \<open>The search checkpoint's bookkeeping keys (\<^verbatim>\<open>search_code_<iter>.pth\<close>).\<close>

record search_ckpt =
  iter_num :: nat
  epochs :: nat
  best_dsc :: real
  best_path :: nat

text \<open>A row of \<^verbatim>\<open>accuracy_history.csv\<close> (learning rate and time omitted).\<close>

record history_row =
  row_epoch :: nat
  row_metric :: real
  row_loss :: real
  row_iter :: nat

datatype artifact =
    SaveBestModel nat
  | SaveSearchCode nat search_ckpt
  | WriteProgress progress
  | AppendHistory history_row

text \<open>One validation as rank 0 sees it: the loop's \<^verbatim>\<open>epoch\<close>, \<^verbatim>\<open>idx_iter\<close>, the average metric and the epoch loss.\<close>

record report =
  rep_epoch :: nat
  rep_iter :: nat
  rep_metric :: real
  rep_loss :: real

section \<open>The training driver (train lines 516--538)\<close>

text \<open>
  On improvement: update the tracker, save the weights and rewrite
  \<^verbatim>\<open>progress.yaml\<close>; always append the history row, whose epoch column is
  \<^verbatim>\<open>(epoch + 1) * num_epochs_per_validation\<close> (20).
\<close>

definition train_report :: "tracker \<Rightarrow> report \<Rightarrow> tracker \<times> artifact list" where
  "train_report t r =
     (let row = AppendHistory \<lparr>row_epoch = (rep_epoch r + 1) * 20, row_metric = rep_metric r,
                               row_loss = rep_loss r, row_iter = rep_iter r\<rparr> in
      if rep_metric r > best_metric t then
        (let t' = t\<lparr>best_metric := rep_metric r, best_metric_epoch := int (rep_epoch r + 1)\<rparr> in
         (t', [SaveBestModel (rep_iter r),
               WriteProgress \<lparr>best_avg_dice_score = best_metric t',
                              best_avg_dice_score_epoch = best_metric_epoch t',
                              best_avg_dice_score_iteration = rep_iter r\<rparr>, row]))
      else (t, [row]))"

section \<open>The search driver (search lines 611--648)\<close>

text \<open>
  On improvement the tracker also records the iteration. Then, on every
  validation: the search checkpoint (raising \<^verbatim>\<open>UnboundLocalError\<close> if
  \<^verbatim>\<open>best_metric_iterations\<close> was never bound), \<^verbatim>\<open>progress.yaml\<close> with the
  current \<^verbatim>\<open>idx_iter\<close>, and the history row.
\<close>

definition search_report :: "tracker \<Rightarrow> report \<Rightarrow> (tracker \<times> artifact list) result" where
  "search_report t r =
     (let t' = (if rep_metric r > best_metric t
                then t\<lparr>best_metric := rep_metric r, best_metric_epoch := int (rep_epoch r + 1),
                       best_metric_iterations := Some (rep_iter r)\<rparr>
                else t) in
      case best_metric_iterations t' of
        None \<Rightarrow> Inl (UnboundLocalError ''best_metric_iterations'')
      | Some bi \<Rightarrow>
          Inr (t', [SaveSearchCode (rep_iter r)
                      \<lparr>iter_num = rep_iter r, epochs = rep_epoch r + 1,
                       best_dsc = best_metric t', best_path = bi\<rparr>,
                    WriteProgress \<lparr>best_avg_dice_score = best_metric t',
                                   best_avg_dice_score_epoch = best_metric_epoch t',
                                   best_avg_dice_score_iteration = rep_iter r\<rparr>,
                    AppendHistory \<lparr>row_epoch = (rep_epoch r + 1) * 20, row_metric = rep_metric r,
                                   row_loss = rep_loss r, row_iter = rep_iter r\<rparr>]))"

section \<open>Runs\<close>

text \<open>A sequence of validations, the artifacts in the order they are written.\<close>

fun train_reports :: "tracker \<Rightarrow> report list \<Rightarrow> tracker \<times> artifact list" where
  "train_reports t [] = (t, [])"
| "train_reports t (r # rs) =
     (let (t1, a1) = train_report t r; (t2, a2) = train_reports t1 rs in (t2, a1 @ a2))"

fun search_reports :: "tracker \<Rightarrow> report list \<Rightarrow> (tracker \<times> artifact list) result" where
  "search_reports t [] = Inr (t, [])"
| "search_reports t (r # rs) =
     bind_result (search_report t r) (\<lambda>(t1, a1).
       bind_result (search_reports t1 rs) (\<lambda>(t2, a2). Inr (t2, a1 @ a2)))"

section \<open>Reference: the best report so far\<close>

text \<open>
  The best of a history: the first report with the greatest metric above
  the initial \<open>-1\<close>, if any.
\<close>

fun best_of :: "report option \<Rightarrow> report list \<Rightarrow> report option" where
  "best_of b [] = b"
| "best_of b (r # rs) =
     best_of (if rep_metric r > (case b of None \<Rightarrow> -1 | Some br \<Rightarrow> rep_metric br) then Some r else b) rs"

text \<open>The last \<^verbatim>\<open>progress.yaml\<close> written in a log.\<close>

fun last_progress :: "artifact list \<Rightarrow> progress option" where
  "last_progress [] = None"
| "last_progress (a # as) =
     (case last_progress as of
        Some p \<Rightarrow> Some p
      | None \<Rightarrow> (case a of WriteProgress p \<Rightarrow> Some p | _ \<Rightarrow> None))"

text \<open>The tracker each driver holds for a best report, and the progress record of a report.\<close>

definition best_value :: "report option \<Rightarrow> real" where
  "best_value b = (case b of None \<Rightarrow> -1 | Some r \<Rightarrow> rep_metric r)"

definition train_abs :: "report option \<Rightarrow> tracker" where
  "train_abs b = \<lparr>best_metric = best_value b,
                  best_metric_epoch = (case b of None \<Rightarrow> -1 | Some r \<Rightarrow> int (rep_epoch r + 1)),
                  best_metric_iterations = None\<rparr>"

definition search_abs :: "report option \<Rightarrow> tracker" where
  "search_abs b = (train_abs b)\<lparr>best_metric_iterations := map_option rep_iter b\<rparr>"

definition progress_of :: "report \<Rightarrow> progress" where
  "progress_of r = \<lparr>best_avg_dice_score = rep_metric r, best_avg_dice_score_epoch = int (rep_epoch r + 1),
                    best_avg_dice_score_iteration = rep_iter r\<rparr>"

section \<open>Lemmas\<close>

lemma best_of_step:
  "best_of b (r # rs) = best_of (if rep_metric r > best_value b then Some r else b) rs"
  by (simp add: best_value_def)

declare best_of.simps(2) [simp del]

lemma best_of_mono: "best_value b \<le> best_value (best_of b rs)"
proof (induction rs arbitrary: b)
  case Nil
  then show ?case by simp
next
  case (Cons r rs)
  show ?case
  proof (cases "rep_metric r > best_value b")
    case True
    then have "best_value b \<le> best_value (Some r)"
      by (simp add: best_value_def)
    also have "\<dots> \<le> best_value (best_of (Some r) rs)"
      by (rule Cons.IH)
    finally show ?thesis
      using True by (simp add: best_of_step)
  next
    case False
    with Cons.IH [of b] show ?thesis
      by (simp add: best_of_step)
  qed
qed

lemma best_of_None: "best_of b rs = None \<Longrightarrow> b = None"
  by (induction rs arbitrary: b) (auto simp: best_of_step split: if_splits)

lemma best_of_changed: "best_of b rs \<noteq> b \<Longrightarrow> best_value b < best_value (best_of b rs)"
proof (induction rs arbitrary: b)
  case Nil
  then show ?case by simp
next
  case (Cons r rs)
  show ?case
  proof (cases "rep_metric r > best_value b")
    case True
    then have "best_value b < best_value (Some r)"
      by (simp add: best_value_def)
    also have "\<dots> \<le> best_value (best_of (Some r) rs)"
      by (rule best_of_mono)
    finally show ?thesis
      using True by (simp add: best_of_step)
  next
    case False
    with Cons show ?thesis
      by (simp add: best_of_step)
  qed
qed

lemma train_report_abs:
  "train_report (train_abs b) r =
     (if rep_metric r > best_value b
      then (train_abs (Some r), [SaveBestModel (rep_iter r), WriteProgress (progress_of r),
              AppendHistory \<lparr>row_epoch = (rep_epoch r + 1) * 20, row_metric = rep_metric r,
                             row_loss = rep_loss r, row_iter = rep_iter r\<rparr>])
      else (train_abs b, [AppendHistory \<lparr>row_epoch = (rep_epoch r + 1) * 20, row_metric = rep_metric r,
                             row_loss = rep_loss r, row_iter = rep_iter r\<rparr>]))"
  by (simp add: train_report_def train_abs_def progress_of_def best_value_def Let_def)

lemma last_progress_append:
  "last_progress (xs @ ys) = (case last_progress ys of Some p \<Rightarrow> Some p | None \<Rightarrow> last_progress xs)"
  by (induction xs) (simp_all split: option.splits)

lemma train_reports_abs:
  "fst (train_reports (train_abs b) rs) = train_abs (best_of b rs)
   \<and> last_progress (snd (train_reports (train_abs b) rs))
       = (if best_of b rs = b then None else map_option progress_of (best_of b rs))"
proof (induction rs arbitrary: b)
  case Nil
  then show ?case by simp
next
  case (Cons r rs)
  show ?case
  proof (cases "rep_metric r > best_value b")
    case True
    have ne: "best_of (Some r) rs \<noteq> b"
      using True best_of_mono [of "Some r" rs] by (auto simp: best_value_def)
    have some: "best_of (Some r) rs \<noteq> None"
      using best_of_None by blast
    obtain t2 a2 where rec: "train_reports (train_abs (Some r)) rs = (t2, a2)"
      by fastforce
    with Cons.IH [of "Some r"] have t2: "t2 = train_abs (best_of (Some r) rs)"
      and a2: "last_progress a2 = (if best_of (Some r) rs = Some r then None
                                   else map_option progress_of (best_of (Some r) rs))"
      by simp_all
    show ?thesis
      using True ne some rec t2 a2
      by (auto simp: train_report_abs best_of_step last_progress_append)
  next
    case False
    then show ?thesis
      using Cons.IH [of b]
      by (auto simp: train_report_abs best_of_step last_progress_append split: prod.splits option.splits)
  qed
qed

lemma init_tracker_abs: "init_tracker = train_abs None" "init_tracker = search_abs None"
  by (simp_all add: init_tracker_def train_abs_def search_abs_def best_value_def)

lemma best_of_max:
  "best_of b rs = Some r \<Longrightarrow>
     (b = Some r \<or> r \<in> set rs) \<and> best_value b \<le> rep_metric r \<and> (\<forall>r' \<in> set rs. rep_metric r' \<le> rep_metric r)"
proof (induction rs arbitrary: b)
  case Nil
  then show ?case by (simp add: best_value_def)
next
  case (Cons x rs)
  show ?case
  proof (cases "rep_metric x > best_value b")
    case True
    with Cons.prems have "best_of (Some x) rs = Some r"
      by (simp add: best_of_step)
    from Cons.IH [OF this] True show ?thesis
      by (auto simp: best_value_def)
  next
    case False
    with Cons.prems have "best_of b rs = Some r"
      by (simp add: best_of_step)
    from Cons.IH [OF this] False show ?thesis
      by auto
  qed
qed

lemma best_of_None_iff: "best_of None rs = None \<longleftrightarrow> (\<forall>r \<in> set rs. rep_metric r \<le> -1)"
proof (induction rs)
  case Nil
  then show ?case by simp
next
  case (Cons x rs)
  show ?case
  proof (cases "rep_metric x > -1")
    case True
    have "best_of (Some x) rs \<noteq> None"
      using best_of_None by blast
    with True show ?thesis
      by (simp add: best_of_step best_value_def del: not_None_eq)
  next
    case False
    with Cons show ?thesis
      by (simp add: best_of_step best_value_def)
  qed
qed

lemma search_report_abs:
  "search_report (search_abs b) r =
     (if rep_metric r > best_value b
      then Inr (search_abs (Some r),
             [SaveSearchCode (rep_iter r) \<lparr>iter_num = rep_iter r, epochs = rep_epoch r + 1,
                                          best_dsc = rep_metric r, best_path = rep_iter r\<rparr>,
              WriteProgress (progress_of r),
              AppendHistory \<lparr>row_epoch = (rep_epoch r + 1) * 20, row_metric = rep_metric r,
                             row_loss = rep_loss r, row_iter = rep_iter r\<rparr>])
      else (case b of
              None \<Rightarrow> Inl (UnboundLocalError ''best_metric_iterations'')
            | Some br \<Rightarrow> Inr (search_abs b,
                 [SaveSearchCode (rep_iter r) \<lparr>iter_num = rep_iter r, epochs = rep_epoch r + 1,
                                              best_dsc = rep_metric br, best_path = rep_iter br\<rparr>,
                  WriteProgress ((progress_of br)\<lparr>best_avg_dice_score_iteration := rep_iter r\<rparr>),
                  AppendHistory \<lparr>row_epoch = (rep_epoch r + 1) * 20, row_metric = rep_metric r,
                                 row_loss = rep_loss r, row_iter = rep_iter r\<rparr>])))"
  by (cases b) (simp_all add: search_report_def search_abs_def train_abs_def progress_of_def best_value_def Let_def)

text \<open>Once a best report is known, every later validation of the search succeeds.\<close>

lemma search_reports_from_Some:
  "\<exists>log. search_reports (search_abs (Some br)) rs = Inr (search_abs (best_of (Some br) rs), log)"
proof (induction rs arbitrary: br)
  case Nil
  then show ?case by simp
next
  case (Cons r rs)
  show ?case
  proof (cases "rep_metric r > rep_metric br")
    case True
    with Cons.IH [of r] show ?thesis
      by (auto simp: search_report_abs best_of_step best_value_def)
  next
    case False
    with Cons.IH [of br] show ?thesis
      by (auto simp: search_report_abs best_of_step best_value_def)
  qed
qed

text \<open>The search's validations all succeed once the first one beats \<open>-1\<close>.\<close>

lemma search_reports_init_ok:
  assumes "rs = [] \<or> -1 < rep_metric (hd rs)"
  shows "\<exists>log. search_reports init_tracker rs = Inr (search_abs (best_of None rs), log)"
proof (cases rs)
  case Nil
  then show ?thesis by (simp add: init_tracker_abs(2))
next
  case (Cons r rs')
  with assms have "-1 < rep_metric r" by simp
  then show ?thesis
    using Cons search_reports_from_Some [of r rs']
    by (auto simp: init_tracker_abs(2) search_report_abs best_of_step best_value_def)
qed

text \<open>
  C13. The training driver's tracker always holds the value and the epoch
  of the first validation with the greatest average metric above \<open>-1\<close>
  (refinement of the tracker by the reference \<open>best_of\<close>).
\<close>

theorem train_tracker_best:
  "fst (train_reports init_tracker rs) = train_abs (best_of None rs)"
  using train_reports_abs [of None rs] by (simp add: init_tracker_abs)

text \<open>
  The best metric is the maximum of the validation averages when some
  average exceeds \<open>-1\<close>, and it is attained by one of the validations.
\<close>

theorem train_best_metric_max:
  assumes "\<exists>r \<in> set rs. -1 < rep_metric r"
  shows "best_metric (fst (train_reports init_tracker rs)) = Max (rep_metric ` set rs)"
proof -
  obtain b where b: "best_of None rs = Some b"
    using assms best_of_None_iff by fastforce
  from best_of_max [OF b] have mem: "b \<in> set rs" and ub: "\<forall>r' \<in> set rs. rep_metric r' \<le> rep_metric b"
    by simp_all
  have "Max (rep_metric ` set rs) = rep_metric b"
    using mem ub by (intro Max_eqI) auto
  then show ?thesis
    using train_reports_abs [of None rs] b by (simp add: init_tracker_abs train_abs_def best_value_def)
qed

theorem train_best_metric_max_witness:
  "best_metric (fst (train_reports init_tracker
      [\<lparr>rep_epoch = 0, rep_iter = 5, rep_metric = 1/2, rep_loss = 1\<rparr>,
       \<lparr>rep_epoch = 1, rep_iter = 10, rep_metric = 3/4, rep_loss = 1\<rparr>]))
   = Max (rep_metric ` set [\<lparr>rep_epoch = 0, rep_iter = 5, rep_metric = 1/2, rep_loss = 1\<rparr>,
                             \<lparr>rep_epoch = 1, rep_iter = 10, rep_metric = 3/4, rep_loss = 1\<rparr>])"
  by (rule train_best_metric_max) auto

text \<open>
  In the training driver the last \<^verbatim>\<open>progress.yaml\<close> written describes
  the best validation: its metric, its epoch and the iteration at which it
  was reached; none is written if no validation beats \<open>-1\<close>.
\<close>

theorem train_progress_is_best:
  "last_progress (snd (train_reports init_tracker rs)) = map_option progress_of (best_of None rs)"
  using train_reports_abs [of None rs] by (auto simp: init_tracker_abs)

text \<open>
  C15. The search driver raises \<^verbatim>\<open>UnboundLocalError\<close> exactly when its
  first validation does not beat the initial \<open>-1\<close>: only an improvement
  binds \<^verbatim>\<open>best_metric_iterations\<close>, which every checkpoint save reads.
\<close>

theorem search_unbound_iff:
  "(\<exists>e. search_reports init_tracker rs = Inl e) \<longleftrightarrow> (rs \<noteq> [] \<and> rep_metric (hd rs) \<le> -1)"
proof (cases "rs = [] \<or> -1 < rep_metric (hd rs)")
  case True
  then show ?thesis
    using search_reports_init_ok [OF True] by auto
next
  case False
  then obtain r rs' where "rs = r # rs'" and "rep_metric r \<le> -1"
    by (cases rs) auto
  then show ?thesis
    by (simp add: init_tracker_abs(2) search_report_abs best_value_def)
qed

theorem search_unbound_iff_witness:
  "\<exists>e. search_reports init_tracker [\<lparr>rep_epoch = 19, rep_iter = 100, rep_metric = -2, rep_loss = 1\<rparr>] = Inl e"
  using search_unbound_iff [of "[\<lparr>rep_epoch = 19, rep_iter = 100, rep_metric = -2, rep_loss = 1\<rparr>]"] by simp

lemma search_reports_last_progress:
  assumes "search_reports (search_abs (Some br)) rs = Inr (t, arts)" and "rs \<noteq> []"
  shows "last_progress arts = Some ((progress_of (the (best_of (Some br) rs)))\<lparr>best_avg_dice_score_iteration := rep_iter (last rs)\<rparr>)"
  using assms
proof (induction rs arbitrary: br t arts)
  case (Cons r rs)
  let ?b' = "if rep_metric r > rep_metric br then r else br"
  obtain a1 t2 a2 where s1: "search_report (search_abs (Some br)) r = Inr (search_abs (Some ?b'), a1)"
    and s2: "search_reports (search_abs (Some ?b')) rs = Inr (t2, a2)" and arts: "arts = a1 @ a2"
    and p1: "last_progress a1 = Some ((progress_of ?b')\<lparr>best_avg_dice_score_iteration := rep_iter r\<rparr>)"
    using Cons.prems(1)
    by (cases "rep_metric r > rep_metric br")
       (auto simp: search_report_abs best_value_def bind_result_def progress_of_def split: sum.splits)
  have bo: "best_of (Some br) (r # rs) = best_of (Some ?b') rs"
    by (simp add: best_of_step best_value_def)
  show ?case
  proof (cases "rs = []")
    case True
    then show ?thesis
      using s2 arts p1 bo by simp
  next
    case False
    then show ?thesis
      using Cons.IH [OF s2 False] arts bo by (simp add: last_progress_append)
  qed
qed simp

lemma search_reports_first:
  assumes "search_reports init_tracker (r # rs) = Inr (t, arts)"
  shows "-1 < rep_metric r"
  using assms by (auto simp: init_tracker_abs(2) search_report_abs best_value_def bind_result_def split: if_splits)

text \<open>
  C16. The search driver writes the current iteration into
  \<^verbatim>\<open>progress.yaml\<close> as \<^verbatim>\<open>best_avg_dice_score_iteration\<close>: after any
  run of validations that succeeds, the last file holds the score and the
  epoch of the best validation but the iteration of the latest one, while
  the training driver's last file is the best validation's own record.
\<close>

theorem search_progress_iteration_divergence:
  assumes "search_reports init_tracker rs = Inr (t, arts)" and "rs \<noteq> []"
  shows "\<exists>b. best_of None rs = Some b
           \<and> last_progress arts = Some ((progress_of b)\<lparr>best_avg_dice_score_iteration := rep_iter (last rs)\<rparr>)
           \<and> last_progress (snd (train_reports init_tracker rs)) = Some (progress_of b)"
proof -
  obtain r rs' where rs: "rs = r # rs'"
    using assms(2) by (cases rs) auto
  have r: "-1 < rep_metric r"
    using search_reports_first assms(1) rs by blast
  obtain a1 t2 a2 where s2: "search_reports (search_abs (Some r)) rs' = Inr (t2, a2)" and arts: "arts = a1 @ a2"
    and p1: "last_progress a1 = Some (progress_of r)"
    using assms(1) rs r
    by (auto simp: init_tracker_abs(2) search_report_abs best_value_def bind_result_def progress_of_def split: sum.splits)
  have bo: "best_of None rs = best_of (Some r) rs'"
    using rs r by (simp add: best_of_step best_value_def)
  obtain b where b: "best_of (Some r) rs' = Some b"
    by (metis best_of_None option.exhaust option.distinct(1))
  have "last_progress arts = Some ((progress_of b)\<lparr>best_avg_dice_score_iteration := rep_iter (last rs)\<rparr>)"
  proof (cases "rs' = []")
    case True
    then show ?thesis
      using arts p1 b s2 rs by (simp add: progress_of_def)
  next
    case False
    then show ?thesis
      using search_reports_last_progress [OF s2 False] arts b rs by (simp add: last_progress_append)
  qed
  moreover have "last_progress (snd (train_reports init_tracker rs)) = Some (progress_of b)"
    using train_reports_abs [of None rs] bo b by (auto simp: init_tracker_abs)
  ultimately show ?thesis
    using bo b by (intro exI [of _ b]) simp
qed

theorem search_progress_iteration_divergence_witness:
  "\<exists>t arts b. search_reports init_tracker [\<lparr>rep_epoch = 19, rep_iter = 100, rep_metric = 1/2, rep_loss = 1\<rparr>,
         \<lparr>rep_epoch = 39, rep_iter = 200, rep_metric = 1/4, rep_loss = 1\<rparr>] = Inr (t, arts)
     \<and> best_of None [\<lparr>rep_epoch = 19, rep_iter = 100, rep_metric = 1/2, rep_loss = 1\<rparr>,
         \<lparr>rep_epoch = 39, rep_iter = 200, rep_metric = 1/4, rep_loss = 1\<rparr>] = Some b
     \<and> last_progress arts = Some ((progress_of b)\<lparr>best_avg_dice_score_iteration := 200\<rparr>)
     \<and> last_progress (snd (train_reports init_tracker [\<lparr>rep_epoch = 19, rep_iter = 100, rep_metric = 1/2, rep_loss = 1\<rparr>,
         \<lparr>rep_epoch = 39, rep_iter = 200, rep_metric = 1/4, rep_loss = 1\<rparr>])) = Some (progress_of b)"
proof -
  obtain t arts where r: "search_reports init_tracker [\<lparr>rep_epoch = 19, rep_iter = 100, rep_metric = 1/2, rep_loss = 1\<rparr>,
         \<lparr>rep_epoch = 39, rep_iter = 200, rep_metric = 1/4, rep_loss = 1\<rparr>] = Inr (t, arts)"
    by (simp add: init_tracker_def search_report_def Let_def)
  show ?thesis
    using search_progress_iteration_divergence [OF r] r by auto
qed

text \<open>The only exception of the search bookkeeping is the \<^verbatim>\<open>UnboundLocalError\<close> of an unset best.\<close>

lemma search_report_Inl: "search_report t r = Inl e \<Longrightarrow> \<exists>v. e = UnboundLocalError v"
  by (auto simp: search_report_def Let_def split: option.splits if_splits)

end
