(* ===== verification/Schedule.thy ===== *)
theory Schedule
  imports Metrics Progress Namespace
begin

text \<open>
  The epoch loops of both drivers (search lines 366--534, train lines
  347--442) as state passing over every rank at once. The network, the
  losses and the optimisers are not modelled: a batch's loss is an input,
  and a training or architecture step is an event appended to the rank's
  trace together with the \<^verbatim>\<open>requires_grad\<close> flags of the weights and of
  the architecture parameters at the moment the optimiser steps. The
  search loop's architecture batches come from
  \<^verbatim>\<open>dataloader_a_iterator\<close>, which is re-created with
  \<^verbatim>\<open>iter(train_loader_a)\<close> when it raises \<^verbatim>\<open>StopIteration\<close>; a batch is
  named by the pass over \<^verbatim>\<open>train_loader_a\<close> it belongs to and its position
  in that pass. After the batches of an epoch the loss pair is all-reduced
  (\<open>Metrics.all_reduce_sum\<close>) and divided on rank 0; a validation computes
  \<open>Metrics.validation_metric\<close> from the ranks' Dice scores and hands it to
  the bookkeeping of \<open>Progress\<close>. The block before each loop, which
  raises \<^verbatim>\<open>NameError\<close> on rank 0, is modelled apart
  (\<open>search_prologue\<close>, \<open>train_prologue\<close>); the loops start from the
  state that block would otherwise leave.
\<close>

section \<open>The search loop (search lines 384--534)\<close>

datatype step_event =
    WeightStep nat nat bool bool
  | ArchStep nat nat nat bool bool

text \<open>
  \<open>WeightStep epoch step w a\<close>: \<^verbatim>\<open>optimizer.step()\<close> on batch \<open>step\<close> of
  \<^verbatim>\<open>train_loader_w\<close>; \<open>ArchStep epoch pass pos w a\<close>: the steps of
  \<^verbatim>\<open>arch_optimizer_a\<close> and \<^verbatim>\<open>arch_optimizer_c\<close> on batch \<open>pos\<close> of pass
  \<open>pass\<close> of \<^verbatim>\<open>train_loader_a\<close>; \<open>w\<close> and \<open>a\<close> are the flags then.
\<close>

record search_loop =
  idx_iter :: nat
  a_pass :: nat
  a_pos :: nat
  w_grad :: bool
  alpha_grad :: bool
  loss_torch :: "real list"
  trace :: "step_event list"

text \<open>
  Before the epoch loop: \<^verbatim>\<open>idx_iter = 0\<close>,
  \<^verbatim>\<open>dataloader_a_iterator = iter(train_loader_a)\<close> (first pass, nothing
  read), every parameter trainable (PyTorch's default).
\<close>

definition init_search_loop :: search_loop where
  "init_search_loop = \<lparr>idx_iter = 0, a_pass = 1, a_pos = 0, w_grad = True, alpha_grad = True,
                       loss_torch = [0, 0], trace = []\<rparr>"

text \<open>
  The block before the epoch loop as each rank runs it (search lines
  366--384): rank 0 evaluates \<^verbatim>\<open>print("num_tta", num_tta)\<close> and
  \<^verbatim>\<open>print("flip_tta", flip_tta)\<close>, looking each name up in the module
  globals \<open>g\<close>; the other ranks reach the loop. \<open>search_start\<close> is all
  ranks, in the search driver's globals.
\<close>

definition search_prologue :: "string list \<Rightarrow> nat \<Rightarrow> search_loop result" where
  "search_prologue g rank =
     (if rank = 0 then
        bind_result (py_global g ''print'') (\<lambda>_.
        bind_result (py_global g ''num_tta'') (\<lambda>_.
        bind_result (py_global g ''flip_tta'') (\<lambda>_. Inr init_search_loop)))
      else Inr init_search_loop)"

definition search_start :: "nat \<Rightarrow> search_loop list result" where
  "search_start world = map_result (search_prologue search_globals) [0..<world]"

text \<open>
  \<^verbatim>\<open>next(dataloader_a_iterator)\<close> on a loader of \<open>la\<close> batches, with the
  \<^verbatim>\<open>except StopIteration\<close> branch that restarts it; the second
  \<^verbatim>\<open>next\<close> raises when the loader is empty.
\<close>

definition next_arch :: "nat \<Rightarrow> search_loop \<Rightarrow> (nat \<times> search_loop) result" where
  "next_arch la s =
     (if a_pos s < la then Inr (a_pos s, s\<lparr>a_pos := a_pos s + 1\<rparr>)
      else if 0 < la then Inr (0, s\<lparr>a_pass := a_pass s + 1, a_pos := 1\<rparr>)
      else Inl StopIteration)"

text \<open>
  One iteration of \<^verbatim>\<open>for batch_data in train_loader_w\<close>: free the weights
  and freeze the architecture, step the weight optimiser, add the loss to
  \<^verbatim>\<open>loss_torch\<close>, count \<^verbatim>\<open>idx_iter\<close>, fetch an architecture batch, freeze
  the weights and free the architecture, step the architecture optimisers.
\<close>

definition search_step :: "nat \<Rightarrow> nat \<Rightarrow> nat \<Rightarrow> real \<Rightarrow> search_loop \<Rightarrow> search_loop result" where
  "search_step la epoch step l s =
     (let s1 = s\<lparr>w_grad := True, alpha_grad := False\<rparr>;
          s2 = s1\<lparr>trace := trace s1 @ [WeightStep epoch step (w_grad s1) (alpha_grad s1)]\<rparr>;
          s3 = s2\<lparr>loss_torch := (loss_torch s2)[0 := loss_torch s2 ! 0 + l, 1 := loss_torch s2 ! 1 + 1],
                  idx_iter := idx_iter s2 + 1\<rparr>
      in bind_result (next_arch la s3) (\<lambda>(pos, s4).
           let s5 = s4\<lparr>w_grad := False, alpha_grad := True\<rparr>
           in Inr (s5\<lparr>trace := trace s5 @ [ArchStep epoch (a_pass s5) pos (w_grad s5) (alpha_grad s5)]\<rparr>)))"

text \<open>The batches of one epoch, \<^verbatim>\<open>step += 1\<close> first; \<open>ls\<close> are the batch losses.\<close>

fun search_batches :: "nat \<Rightarrow> nat \<Rightarrow> nat \<Rightarrow> real list \<Rightarrow> search_loop \<Rightarrow> search_loop result" where
  "search_batches la epoch step [] s = Inr s"
| "search_batches la epoch step (l # ls) s =
     bind_result (search_step la epoch (Suc step) l s) (search_batches la epoch (Suc step) ls)"

text \<open>
  One epoch of every rank: \<^verbatim>\<open>loss_torch = torch.zeros(2)\<close>, the batches,
  the all-reduce and rank 0's \<^verbatim>\<open>loss_torch[0] / loss_torch[1]\<close>, and when
  \<^verbatim>\<open>(epoch + 1) % val_interval == 0\<close> the validation and its bookkeeping
  (\<open>Progress.search_report\<close>). \<open>losses\<close> holds each rank's batch losses,
  \<open>vals\<close> each rank's per-image Dice scores.
\<close>

type_synonym search_state = "search_loop list \<times> tracker \<times> artifact list"

definition search_epoch ::
  "nat \<Rightarrow> nat \<Rightarrow> nat \<Rightarrow> nat \<Rightarrow> real list list \<Rightarrow> dice list list list \<Rightarrow> search_state \<Rightarrow> search_state result" where
  "search_epoch la val_interval nc epoch losses vals st =
     (case st of (rs, t, arts) \<Rightarrow>
       bind_result (map_result (\<lambda>(r, ls). search_batches la epoch 0 ls (r\<lparr>loss_torch := [0, 0]\<rparr>)) (zip rs losses))
         (\<lambda>rs'. let lt = all_reduce_sum 2 (map loss_torch rs') in
           bind_result (py_truediv (lt ! 0) (lt ! 1)) (\<lambda>loss_epoch.
             if val_interval = 0 then Inl ZeroDivisionError
             else if (epoch + 1) mod val_interval = 0 then
               bind_result (validation_metric nc vals) (\<lambda>m.
                 bind_result (search_report t \<lparr>rep_epoch = epoch, rep_iter = idx_iter (rs' ! 0),
                                               rep_metric = m, rep_loss = loss_epoch\<rparr>)
                   (\<lambda>(t', a). Inr (rs', t', arts @ a)))
             else Inr (rs', t, arts))))"

text \<open>
  \<^verbatim>\<open>for epoch in range(num_epochs)\<close> on \<open>world\<close> ranks; \<open>inp epoch\<close> are the
  epoch's losses and Dice scores. The driver sets \<^verbatim>\<open>num_epochs = 1000\<close>
  and \<^verbatim>\<open>val_interval = num_epochs_per_validation = 20\<close>.
\<close>

definition search_run ::
  "nat \<Rightarrow> nat \<Rightarrow> nat \<Rightarrow> nat \<Rightarrow> nat \<Rightarrow> (nat \<Rightarrow> real list list \<times> dice list list list) \<Rightarrow> search_state result" where
  "search_run la val_interval nc num_epochs world inp =
     fold_result (\<lambda>epoch. search_epoch la val_interval nc epoch (fst (inp epoch)) (snd (inp epoch)))
       [0..<num_epochs] (replicate world init_search_loop, init_tracker, [])"


text \<open>The exceptions a search run can end with.\<close>

definition loop_error :: "py_error \<Rightarrow> bool" where
  "loop_error e = (e = ZeroDivisionError \<or> (\<exists>v. e = UnboundLocalError v))"

section \<open>The training loop (train lines 364--538)\<close>

text \<open>
  The training driver has no architecture step: a rank's state is its
  \<^verbatim>\<open>idx_iter\<close>, its \<^verbatim>\<open>loss_torch\<close> and the trace of the weight
  steps taken, as (epoch, step) pairs.
\<close>

record train_loop =
  t_idx_iter :: nat
  t_loss_torch :: "real list"
  t_steps :: "(nat \<times> nat) list"

definition init_train_loop :: train_loop where
  "init_train_loop = \<lparr>t_idx_iter = 0, t_loss_torch = [0, 0], t_steps = []\<rparr>"

definition train_step :: "nat \<Rightarrow> nat \<Rightarrow> real \<Rightarrow> train_loop \<Rightarrow> train_loop" where
  "train_step epoch step l s =
     s\<lparr>t_steps := t_steps s @ [(epoch, step)],
       t_loss_torch := (t_loss_torch s)[0 := t_loss_torch s ! 0 + l, 1 := t_loss_torch s ! 1 + 1],
       t_idx_iter := t_idx_iter s + 1\<rparr>"

text \<open>The training driver's block before its loop (train lines 347--364), the same \<^verbatim>\<open>print\<close> included.\<close>

definition train_prologue :: "string list \<Rightarrow> nat \<Rightarrow> train_loop result" where
  "train_prologue g rank =
     (if rank = 0 then
        bind_result (py_global g ''print'') (\<lambda>_.
        bind_result (py_global g ''num_tta'') (\<lambda>_.
        bind_result (py_global g ''flip_tta'') (\<lambda>_. Inr init_train_loop)))
      else Inr init_train_loop)"

definition train_start :: "nat \<Rightarrow> train_loop list result" where
  "train_start world = map_result (train_prologue train_globals) [0..<world]"

fun train_batches :: "nat \<Rightarrow> nat \<Rightarrow> real list \<Rightarrow> train_loop \<Rightarrow> train_loop" where
  "train_batches epoch step [] s = s"
| "train_batches epoch step (l # ls) s = train_batches epoch (Suc step) ls (train_step epoch (Suc step) l s)"

type_synonym train_state = "train_loop list \<times> tracker \<times> artifact list"

text \<open>
  One outer iteration: a single pass over \<^verbatim>\<open>train_loader\<close>, the loss
  all-reduce, and a validation every time (\<^verbatim>\<open>if True:\<close>), handed to
  \<open>Progress.train_report\<close>.
\<close>

definition train_epoch ::
  "nat \<Rightarrow> nat \<Rightarrow> real list list \<Rightarrow> dice list list list \<Rightarrow> train_state \<Rightarrow> train_state result" where
  "train_epoch nc epoch losses vals st =
     (case st of (rs, t, arts) \<Rightarrow>
       let rs' = map (\<lambda>(r, ls). train_batches epoch 0 ls (r\<lparr>t_loss_torch := [0, 0]\<rparr>)) (zip rs losses);
           lt = all_reduce_sum 2 (map t_loss_torch rs')
       in bind_result (py_truediv (lt ! 0) (lt ! 1)) (\<lambda>loss_epoch.
            bind_result (validation_metric nc vals) (\<lambda>m.
              case train_report t \<lparr>rep_epoch = epoch, rep_iter = t_idx_iter (rs' ! 0),
                                   rep_metric = m, rep_loss = loss_epoch\<rparr> of
                (t', a) \<Rightarrow> Inr (rs', t', arts @ a))))"

text \<open>
  \<^verbatim>\<open>for epoch in range(num_epochs // num_epochs_per_validation)\<close>
  (\<open>1000 div 20 = 50\<close> in the driver).
\<close>

definition train_run ::
  "nat \<Rightarrow> nat \<Rightarrow> nat \<Rightarrow> nat \<Rightarrow> (nat \<Rightarrow> real list list \<times> dice list list list) \<Rightarrow> train_state result" where
  "train_run nc num_epochs num_epochs_per_validation world inp =
     fold_result (\<lambda>epoch. train_epoch nc epoch (fst (inp epoch)) (snd (inp epoch)))
       [0..<num_epochs div num_epochs_per_validation] (replicate world init_train_loop, init_tracker, [])"

section \<open>The architecture iterator\<close>

text \<open>
  The number of architecture batches read so far, and the shape of the
  iterator's state: some batch of the current pass has been read, or it is
  the first pass.
\<close>

definition arch_consumed :: "nat \<Rightarrow> search_loop \<Rightarrow> nat" where
  "arch_consumed la s = (a_pass s - 1) * la + a_pos s"

definition iter_ok :: "nat \<Rightarrow> search_loop \<Rightarrow> bool" where
  "iter_ok la s = (1 \<le> a_pass s \<and> a_pos s \<le> la \<and> (a_pos s = 0 \<longrightarrow> a_pass s = 1))"

lemma iter_ok_init [simp]: "iter_ok la init_search_loop"
  by (simp add: iter_ok_def init_search_loop_def)

lemma arch_consumed_init [simp]: "arch_consumed la init_search_loop = 0"
  by (simp add: arch_consumed_def init_search_loop_def)

text \<open>The \<open>c\<close>-th architecture batch read is batch \<open>c mod la\<close> of pass \<open>c div la + 1\<close>.\<close>

lemma next_arch_ok:
  assumes "0 < la" and "iter_ok la s"
  shows "next_arch la s = Inr (arch_consumed la s mod la,
           s\<lparr>a_pass := Suc (arch_consumed la s div la), a_pos := Suc (arch_consumed la s mod la)\<rparr>)"
proof (cases "a_pos s < la")
  case True
  then have "arch_consumed la s mod la = a_pos s" and "arch_consumed la s div la = a_pass s - 1"
    by (simp_all add: arch_consumed_def)
  moreover have "Suc (a_pass s - 1) = a_pass s"
    using assms(2) by (simp add: iter_ok_def)
  ultimately show ?thesis
    using True by (simp add: next_arch_def)
next
  case False
  then have "a_pos s = la" and "1 \<le> a_pass s"
    using assms(2) by (simp_all add: iter_ok_def)
  then have "arch_consumed la s = a_pass s * la"
    by (simp add: arch_consumed_def algebra_simps)
  then have "arch_consumed la s mod la = 0" and "arch_consumed la s div la = a_pass s"
    using assms(1) by simp_all
  then show ?thesis
    using False assms(1) by (simp add: next_arch_def)
qed

lemma next_arch_consumed:
  assumes "0 < la"
  shows "arch_consumed la (s\<lparr>a_pass := Suc (c div la), a_pos := Suc (c mod la)\<rparr>) = Suc c"
    and "iter_ok la (s\<lparr>a_pass := Suc (c div la), a_pos := Suc (c mod la)\<rparr>)"
  using assms by (simp_all add: arch_consumed_def iter_ok_def Suc_leI)


section \<open>A search step\<close>

lemma search_step_ok:
  assumes "0 < la" and "iter_ok la s"
  shows "search_step la epoch step l s =
           Inr (s\<lparr>idx_iter := Suc (idx_iter s),
                  loss_torch := (loss_torch s)[0 := loss_torch s ! 0 + l, 1 := loss_torch s ! 1 + 1],
                  a_pass := Suc (arch_consumed la s div la), a_pos := Suc (arch_consumed la s mod la),
                  w_grad := False, alpha_grad := True,
                  trace := trace s @ [WeightStep epoch step True False,
                                      ArchStep epoch (Suc (arch_consumed la s div la)) (arch_consumed la s mod la) False True]\<rparr>)"
proof -
  let ?s3 = "s\<lparr>w_grad := True, alpha_grad := False,
                trace := trace s @ [WeightStep epoch step True False],
                loss_torch := (loss_torch s)[0 := loss_torch s ! 0 + l, 1 := loss_torch s ! 1 + 1],
                idx_iter := Suc (idx_iter s)\<rparr>"
  have "iter_ok la ?s3" and "arch_consumed la ?s3 = arch_consumed la s"
    using assms(2) by (simp_all add: iter_ok_def arch_consumed_def)
  then have "next_arch la ?s3 = Inr (arch_consumed la s mod la,
               ?s3\<lparr>a_pass := Suc (arch_consumed la s div la), a_pos := Suc (arch_consumed la s mod la)\<rparr>)"
    using next_arch_ok [OF assms(1), of ?s3] by simp
  then show ?thesis
    by (simp add: search_step_def Let_def)
qed

text \<open>Every step records the flags the code sets just before it.\<close>

fun flags_ok :: "step_event \<Rightarrow> bool" where
  "flags_ok (WeightStep epoch step w a) = (w \<and> \<not> a)"
| "flags_ok (ArchStep epoch pass pos w a) = (\<not> w \<and> a)"

lemma search_step_flags:
  assumes "search_step la epoch step l s = Inr s'"
  shows "\<exists>new. trace s' = trace s @ new \<and> (\<forall>e \<in> set new. flags_ok e)"
  using assms by (auto simp: search_step_def next_arch_def Let_def split: if_splits)

lemma search_batches_flags:
  assumes "search_batches la epoch step ls s = Inr s'" and "\<forall>e \<in> set (trace s). flags_ok e"
  shows "\<forall>e \<in> set (trace s'). flags_ok e"
  using assms
proof (induction ls arbitrary: step s)
  case Nil
  then show ?case by simp
next
  case (Cons l ls)
  then obtain s1 where s1: "search_step la epoch (Suc step) l s = Inr s1"
    and rest: "search_batches la epoch (Suc step) ls s1 = Inr s'"
    by auto
  have "\<forall>e \<in> set (trace s1). flags_ok e"
    using search_step_flags [OF s1] Cons.prems(2) by auto
  then show ?case
    using Cons.IH [OF rest] by simp
qed


section \<open>Properties of the search loop\<close>

lemma in_set_concat_map:
  "x \<in> set (f i) \<Longrightarrow> i \<in> set xs \<Longrightarrow> x \<in> set (concat (map f xs))"
  by auto

lemma search_batches_trace:
  assumes "0 < la" and "iter_ok la s"
  shows "\<exists>s'. search_batches la epoch k ls s = Inr s'
           \<and> trace s' = trace s @ concat (map (\<lambda>i. [WeightStep epoch (Suc (k + i)) True False,
                 ArchStep epoch (Suc ((arch_consumed la s + i) div la)) ((arch_consumed la s + i) mod la) False True])
               [0..<length ls])
           \<and> idx_iter s' = idx_iter s + length ls
           \<and> arch_consumed la s' = arch_consumed la s + length ls \<and> iter_ok la s'
           \<and> loss_torch s' = fold (\<lambda>l t. t[0 := t ! 0 + l, 1 := t ! 1 + 1]) ls (loss_torch s)"
  using assms(2)
proof (induction ls arbitrary: k s)
  case Nil
  then show ?case by simp
next
  case (Cons l ls)
  define c where "c = arch_consumed la s"
  define s1 where "s1 = s\<lparr>idx_iter := Suc (idx_iter s),
                  loss_torch := (loss_torch s)[0 := loss_torch s ! 0 + l, 1 := loss_torch s ! 1 + 1],
                  a_pass := Suc (c div la), a_pos := Suc (c mod la),
                  w_grad := False, alpha_grad := True,
                  trace := trace s @ [WeightStep epoch (Suc k) True False,
                                      ArchStep epoch (Suc (c div la)) (c mod la) False True]\<rparr>"
  have step: "search_step la epoch (Suc k) l s = Inr s1"
    using search_step_ok [OF assms(1) Cons.prems] by (simp add: s1_def c_def)
  have "iter_ok la s1" and "arch_consumed la s1 = Suc c"
    using next_arch_consumed [OF assms(1), where s = s and c = c] by (simp_all add: s1_def iter_ok_def arch_consumed_def)
  then obtain s' where run: "search_batches la epoch (Suc k) ls s1 = Inr s'"
    and tr: "trace s' = trace s1 @ concat (map (\<lambda>i. [WeightStep epoch (Suc (Suc k + i)) True False,
                 ArchStep epoch (Suc ((Suc c + i) div la)) ((Suc c + i) mod la) False True]) [0..<length ls])"
    and rest: "idx_iter s' = idx_iter s1 + length ls" "arch_consumed la s' = Suc c + length ls"
              "iter_ok la s'" "loss_torch s' = fold (\<lambda>l t. t[0 := t ! 0 + l, 1 := t ! 1 + 1]) ls (loss_torch s1)"
    using Cons.IH [of s1 "Suc k"] by auto
  have "trace s' = trace s @ concat (map (\<lambda>i. [WeightStep epoch (Suc (k + i)) True False,
                 ArchStep epoch (Suc ((c + i) div la)) ((c + i) mod la) False True]) [0..<length (l # ls)])"
    by (simp only: tr length_Cons concat_map_upt_Suc) (simp add: s1_def)
  moreover have "search_batches la epoch k (l # ls) s = Inr s'"
    using step run by simp
  moreover have "idx_iter s' = idx_iter s + length (l # ls)"
    using rest(1) by (simp add: s1_def)
  moreover have "arch_consumed la s' = arch_consumed la s + length (l # ls)"
    using rest(2) by (simp add: c_def)
  moreover have "loss_torch s' = fold (\<lambda>l t. t[0 := t ! 0 + l, 1 := t ! 1 + 1]) (l # ls) (loss_torch s)"
    using rest(4) by (simp add: s1_def)
  ultimately show ?case
    using rest(3) unfolding c_def by blast
qed

text \<open>
  C20. With a non-empty architecture loader of \<open>la\<close> batches, an epoch of
  \<open>n\<close> weight batches is exactly \<open>n\<close> rounds of one weight step (weights
  trainable, architecture frozen) followed by one architecture step
  (weights frozen, architecture trainable); the architecture batches are
  read in order, cycling through \<^verbatim>\<open>train_loader_a\<close> pass after pass from
  where the previous epoch stopped; \<^verbatim>\<open>idx_iter\<close> counts the rounds and
  \<^verbatim>\<open>loss_torch\<close> accumulates the batch losses.
\<close>

theorem search_batches_interleave:
  assumes "0 < la" and "iter_ok la s"
  shows "\<exists>s'. search_batches la epoch k ls s = Inr s'
           \<and> trace s' = trace s @ concat (map (\<lambda>i. [WeightStep epoch (Suc (k + i)) True False,
                 ArchStep epoch (Suc ((arch_consumed la s + i) div la)) ((arch_consumed la s + i) mod la) False True])
               [0..<length ls])
           \<and> idx_iter s' = idx_iter s + length ls
           \<and> arch_consumed la s' = arch_consumed la s + length ls \<and> iter_ok la s'
           \<and> loss_torch s' = fold (\<lambda>l t. t[0 := t ! 0 + l, 1 := t ! 1 + 1]) ls (loss_torch s)"
  by (rule search_batches_trace [OF assms])

theorem search_batches_interleave_witness:
  "\<exists>s'. search_batches 2 0 0 [1, 1, 1] init_search_loop = Inr s'
     \<and> trace s' = trace init_search_loop @ concat (map (\<lambda>i. [WeightStep 0 (Suc (0 + i)) True False,
           ArchStep 0 (Suc ((arch_consumed 2 init_search_loop + i) div 2)) ((arch_consumed 2 init_search_loop + i) mod 2) False True])
         [0..<length [1, 1, 1::real]])
     \<and> idx_iter s' = idx_iter init_search_loop + length [1, 1, 1::real]
     \<and> arch_consumed 2 s' = arch_consumed 2 init_search_loop + length [1, 1, 1::real] \<and> iter_ok 2 s'
     \<and> loss_torch s' = fold (\<lambda>l t. t[0 := t ! 0 + l, 1 := t ! 1 + 1]) [1, 1, 1::real] (loss_torch init_search_loop)"
  by (rule search_batches_interleave) simp_all


text \<open>
  C32. Every architecture batch is used: in an epoch with at least as many
  weight batches as \<^verbatim>\<open>train_loader_a\<close> has batches, each batch of
  \<^verbatim>\<open>train_loader_a\<close> is stepped on by the architecture optimisers, with
  the weights frozen and the architecture trainable, whatever position the
  iterator was left at by the epochs before.
\<close>

theorem search_epoch_arch_coverage:
  assumes "0 < la" and "iter_ok la s" and "la \<le> length ls"
  shows "\<exists>s'. search_batches la epoch k ls s = Inr s'
           \<and> {0..<la} \<subseteq> {pos. \<exists>pass. ArchStep epoch pass pos False True \<in> set (trace s')}"
proof -
  define c where "c = arch_consumed la s"
  obtain s' where run: "search_batches la epoch k ls s = Inr s'"
    and tr: "trace s' = trace s @ concat (map (\<lambda>i. [WeightStep epoch (Suc (k + i)) True False,
                 ArchStep epoch (Suc ((c + i) div la)) ((c + i) mod la) False True]) [0..<length ls])"
    using search_batches_trace [OF assms(1,2), of epoch k ls] unfolding c_def by blast
  have cov: "\<exists>pass. ArchStep epoch pass p False True \<in> set (trace s')" if p: "p < la" for p
  proof -
    define i where "i = (p + la - c mod la) mod la"
    have "i < length ls"
      using mod_less_divisor [OF assms(1)] assms(3) unfolding i_def by (rule less_le_trans)
    have "c = la * (c div la) + c mod la"
      by simp
    then have "c + (p + la - c mod la) = p + la * Suc (c div la)"
      using mod_less_divisor [OF assms(1), of c] by (simp only: mult_Suc_right)
    then have "(c + i) mod la = p"
      using p by (simp only: i_def mod_add_right_eq mod_mult_self2 mod_less)
    moreover have "ArchStep epoch (Suc ((c + i) div la)) ((c + i) mod la) False True \<in> set (trace s')"
      unfolding tr set_append
      by (rule UnI2, rule in_set_concat_map [of _ _ i]) (simp_all add: \<open>i < length ls\<close>)
    ultimately show ?thesis
      by blast
  qed
  have "{0..<la} \<subseteq> {pos. \<exists>pass. ArchStep epoch pass pos False True \<in> set (trace s')}"
    by (intro subsetI CollectI cov) simp
  then show ?thesis
    using run by (intro exI [of _ s'] conjI)
qed

theorem search_epoch_arch_coverage_witness:
  "\<exists>s'. search_batches 3 0 0 [1, 1, 1, 1] init_search_loop = Inr s'
     \<and> {0..<3} \<subseteq> {pos. \<exists>pass. ArchStep 0 pass pos False True \<in> set (trace s')}"
  by (rule search_epoch_arch_coverage) simp_all


section \<open>Epochs and runs\<close>

text \<open>What a successful epoch is made of.\<close>

lemma search_epoch_Inr:
  assumes "search_epoch la val_interval nc epoch losses vals (rs, t, arts) = Inr (rs', t', arts')"
  shows "map_result (\<lambda>(r, ls). search_batches la epoch 0 ls (r\<lparr>loss_torch := [0, 0]\<rparr>)) (zip rs losses) = Inr rs'"
    and "0 < val_interval"
    and "(epoch + 1) mod val_interval \<noteq> 0 \<Longrightarrow> t' = t \<and> arts' = arts"
    and "(epoch + 1) mod val_interval = 0 \<Longrightarrow>
           \<exists>m loss a. py_truediv (all_reduce_sum 2 (map loss_torch rs') ! 0) (all_reduce_sum 2 (map loss_torch rs') ! 1) = Inr loss
             \<and> validation_metric nc vals = Inr m
             \<and> search_report t \<lparr>rep_epoch = epoch, rep_iter = idx_iter (rs' ! 0), rep_metric = m, rep_loss = loss\<rparr>
                 = Inr (t', a) \<and> arts' = arts @ a"
  using assms by (auto simp: search_epoch_def Let_def split: if_splits prod.splits)

definition ranks_flags_ok :: "search_state \<Rightarrow> bool" where
  "ranks_flags_ok st = (\<forall>r \<in> set (fst st). \<forall>e \<in> set (trace r). flags_ok e)"

lemma search_epoch_flags:
  assumes "search_epoch la val_interval nc epoch losses vals st = Inr st'" and "ranks_flags_ok st"
  shows "ranks_flags_ok st'"
proof -
  obtain rs t arts rs' t' arts' where st: "st = (rs, t, arts)" and st': "st' = (rs', t', arts')"
    by (cases st, cases st') auto
  have m: "map_result (\<lambda>(r, ls). search_batches la epoch 0 ls (r\<lparr>loss_torch := [0, 0]\<rparr>)) (zip rs losses) = Inr rs'"
    using search_epoch_Inr(1) assms(1) st st' by simp
  have "\<forall>e \<in> set (trace r'). flags_ok e" if mem: "r' \<in> set rs'" for r'
  proof -
    obtain x where x: "x \<in> set (zip rs losses)"
      and fx: "(case x of (r, ls) \<Rightarrow> search_batches la epoch 0 ls (r\<lparr>loss_torch := [0, 0]\<rparr>)) = Inr r'"
      using bspec [OF map_result_Inr_set [OF m] mem] by (rule bexE)
    obtain r ls where "x = (r, ls)"
      by (cases x)
    then have "(r, ls) \<in> set (zip rs losses)"
      and run: "search_batches la epoch 0 ls (r\<lparr>loss_torch := [0, 0]\<rparr>) = Inr r'"
      using x fx by simp_all
    then have "r \<in> set rs"
      by (blast dest: set_zip_leftD)
    then have "\<forall>e \<in> set (trace (r\<lparr>loss_torch := [0, 0]\<rparr>)). flags_ok e"
      using assms(2) st by (simp add: ranks_flags_ok_def)
    then show ?thesis
      using search_batches_flags [OF run] by blast
  qed
  then show ?thesis
    by (simp add: ranks_flags_ok_def st')
qed


lemma search_run_Suc:
  "search_run la val_interval nc (Suc n) world inp =
     bind_result (search_run la val_interval nc n world inp)
       (search_epoch la val_interval nc n (fst (inp n)) (snd (inp n)))"
  by (simp add: search_run_def fold_result_append fold_result_single)

lemma search_step_empty_loader:
  "search_step 0 epoch step l s = Inl StopIteration"
  by (simp add: search_step_def next_arch_def Let_def)

text \<open>The artifacts that mark a validation: the search checkpoints.\<close>

fun is_search_code :: "artifact \<Rightarrow> bool" where
  "is_search_code (SaveSearchCode i c) = True"
| "is_search_code _ = False"

lemma search_report_codes:
  "search_report t r = Inr (t', a) \<Longrightarrow> length (filter is_search_code a) = 1"
  by (auto simp: search_report_def Let_def split: option.splits if_splits)

lemma search_epoch_codes:
  assumes "search_epoch la val_interval nc epoch losses vals (rs, t, arts) = Inr (rs', t', arts')"
  shows "length (filter is_search_code arts') =
           length (filter is_search_code arts) + (if (epoch + 1) mod val_interval = 0 then 1 else 0)"
proof (cases "(epoch + 1) mod val_interval = 0")
  case True
  then obtain m loss a where
    "search_report t \<lparr>rep_epoch = epoch, rep_iter = idx_iter (rs' ! 0), rep_metric = m, rep_loss = loss\<rparr> = Inr (t', a)"
    and "arts' = arts @ a"
    using search_epoch_Inr(4) [OF assms True] by blast
  then show ?thesis
    using True search_report_codes by simp
next
  case False
  then show ?thesis
    using search_epoch_Inr(3) [OF assms] by simp
qed

text \<open>
  C21. In every run that completes, every weight step of every rank is taken
  with the weights trainable and the architecture parameters frozen, and
  every architecture step with the weights frozen and the architecture
  parameters trainable.
\<close>

theorem search_run_flags:
  assumes "search_run la val_interval nc num_epochs world inp = Inr (rs, t, arts)"
  shows "list_all (\<lambda>r. list_all flags_ok (trace r)) rs"
proof -
  have "ranks_flags_ok (rs, t, arts)"
  proof (rule fold_result_invariant [where P = ranks_flags_ok])
    show "fold_result (\<lambda>epoch. search_epoch la val_interval nc epoch (fst (inp epoch)) (snd (inp epoch)))
            [0..<num_epochs] (replicate world init_search_loop, init_tracker, []) = Inr (rs, t, arts)"
      using assms by (simp add: search_run_def)
    show "ranks_flags_ok (replicate world init_search_loop, init_tracker, [])"
      by (simp add: ranks_flags_ok_def init_search_loop_def)
  qed (rule search_epoch_flags)
  then show ?thesis
    by (simp add: ranks_flags_ok_def list_all_iff)
qed

theorem search_run_flags_witness:
  "search_run 1 2 1 1 1 (\<lambda>e. ([[1/2]], [])) =
     Inr ([\<lparr>idx_iter = 1, a_pass = 1, a_pos = 1, w_grad = False, alpha_grad = True, loss_torch = [1/2, 1],
            trace = [WeightStep 0 1 True False, ArchStep 0 1 0 False True]\<rparr>], init_tracker, [])
   \<and> list_all (\<lambda>r. list_all flags_ok (trace r))
         [\<lparr>idx_iter = 1, a_pass = 1, a_pos = 1, w_grad = False, alpha_grad = True, loss_torch = [1/2, 1::real],
            trace = [WeightStep 0 1 True False, ArchStep 0 1 0 False True]\<rparr>]"
proof -
  have run: "search_run 1 2 1 1 1 (\<lambda>e. ([[1/2]], [])) =
     Inr ([\<lparr>idx_iter = 1, a_pass = 1, a_pos = 1, w_grad = False, alpha_grad = True, loss_torch = [1/2, 1],
            trace = [WeightStep 0 1 True False, ArchStep 0 1 0 False True]\<rparr>], init_tracker, [])"
    by (simp add: search_run_def search_epoch_def search_step_def next_arch_def init_search_loop_def
                  all_reduce_sum_def py_simps Let_def)
  show ?thesis
    using search_run_flags [OF run] run by simp
qed

text \<open>
  A completed run validates, and writes a search checkpoint, exactly
  \<open>num_epochs div val_interval\<close> times (50 for the driver's 1000 epochs and
  interval 20).
\<close>

theorem search_run_validations:
  assumes "search_run la val_interval nc num_epochs world inp = Inr (rs, t, arts)"
  shows "length (filter is_search_code arts) = num_epochs div val_interval"
  using assms
proof (induction num_epochs arbitrary: rs t arts)
  case 0
  then show ?case
    by (simp add: search_run_def)
next
  case (Suc n)
  then obtain rs0 t0 arts0 where run: "search_run la val_interval nc n world inp = Inr (rs0, t0, arts0)"
    and ep: "search_epoch la val_interval nc n (fst (inp n)) (snd (inp n)) (rs0, t0, arts0) = Inr (rs, t, arts)"
    by (auto simp: search_run_Suc)
  have "0 < val_interval"
    by (rule search_epoch_Inr(2) [OF ep])
  then show ?case
    using search_epoch_codes [OF ep] Suc.IH [OF run] by (simp add: div_Suc)
qed

theorem search_run_validations_witness:
  "search_run 1 1 1 1 1 (\<lambda>e. ([[1]], [[[Some 1]]])) =
     Inr ([\<lparr>idx_iter = 1, a_pass = 1, a_pos = 1, w_grad = False, alpha_grad = True, loss_torch = [1, 1],
            trace = [WeightStep 0 1 True False, ArchStep 0 1 0 False True]\<rparr>],
          \<lparr>best_metric = 1, best_metric_epoch = 1, best_metric_iterations = Some 1\<rparr>,
          [SaveSearchCode 1 \<lparr>iter_num = 1, epochs = 1, best_dsc = 1, best_path = 1\<rparr>,
           WriteProgress \<lparr>best_avg_dice_score = 1, best_avg_dice_score_epoch = 1, best_avg_dice_score_iteration = 1\<rparr>,
           AppendHistory \<lparr>row_epoch = 20, row_metric = 1, row_loss = 1, row_iter = 1\<rparr>])
   \<and> length (filter is_search_code
        [SaveSearchCode 1 \<lparr>iter_num = 1, epochs = 1, best_dsc = 1, best_path = 1\<rparr>,
         WriteProgress \<lparr>best_avg_dice_score = 1, best_avg_dice_score_epoch = 1, best_avg_dice_score_iteration = 1\<rparr>,
         AppendHistory \<lparr>row_epoch = 20, row_metric = 1, row_loss = 1, row_iter = 1\<rparr>]) = 1 div 1"
proof -
  have run: "search_run 1 1 1 1 1 (\<lambda>e. ([[1]], [[[Some 1]]])) =
     Inr ([\<lparr>idx_iter = 1, a_pass = 1, a_pos = 1, w_grad = False, alpha_grad = True, loss_torch = [1, 1],
            trace = [WeightStep 0 1 True False, ArchStep 0 1 0 False True]\<rparr>],
          \<lparr>best_metric = 1, best_metric_epoch = 1, best_metric_iterations = Some 1\<rparr>,
          [SaveSearchCode 1 \<lparr>iter_num = 1, epochs = 1, best_dsc = 1, best_path = 1\<rparr>,
           WriteProgress \<lparr>best_avg_dice_score = 1, best_avg_dice_score_epoch = 1, best_avg_dice_score_iteration = 1\<rparr>,
           AppendHistory \<lparr>row_epoch = 20, row_metric = 1, row_loss = 1, row_iter = 1\<rparr>])"
    by (simp add: search_run_def search_epoch_def search_step_def next_arch_def init_search_loop_def
                  all_reduce_sum_def py_simps Let_def validation_metric_def avg_metric_def class_means_def
                  metric_accumulate_def metric_update_def metric_class_update_def nan_to_num_def not_nan_def
                  search_report_def init_tracker_def)
  show ?thesis
    using search_run_validations [OF run] run by simp
qed


section \<open>Properties of the training loop\<close>

text \<open>The rows of \<^verbatim>\<open>accuracy_history.csv\<close> written so far.\<close>

fun history_rows :: "artifact list \<Rightarrow> history_row list" where
  "history_rows [] = []"
| "history_rows (AppendHistory row # as) = row # history_rows as"
| "history_rows (a # as) = history_rows as"

lemma history_rows_append [simp]:
  "history_rows (as @ bs) = history_rows as @ history_rows bs"
  by (induction as rule: history_rows.induct) simp_all

lemma train_report_history:
  "history_rows (snd (train_report t r)) =
     [\<lparr>row_epoch = (rep_epoch r + 1) * 20, row_metric = rep_metric r, row_loss = rep_loss r, row_iter = rep_iter r\<rparr>]"
  by (simp add: train_report_def Let_def)

lemma train_run_Suc:
  "train_run nc (k * Suc n) k world inp =
     bind_result (train_run nc (k * n) k world inp) (train_epoch nc n (fst (inp n)) (snd (inp n)))"
  if "0 < k"
  using that by (simp add: train_run_def fold_result_append fold_result_single)

lemma train_epoch_history:
  assumes "train_epoch nc epoch losses vals (rs, t, arts) = Inr (rs', t', arts')"
  shows "map row_epoch (history_rows arts') = map row_epoch (history_rows arts) @ [(epoch + 1) * 20]"
proof -
  obtain r where "arts' = arts @ snd (train_report t r)" and "rep_epoch r = epoch"
    using assms by (auto simp: train_epoch_def Let_def prod.case_eq_if)
  then show ?thesis
    by (simp add: train_report_history)
qed

text \<open>
  C23. The training driver makes \<open>num_epochs div 20\<close> passes over its data
  (50 for \<^verbatim>\<open>num_epochs = 1000\<close>), one per outer iteration, yet labels the
  validation after pass \<open>e + 1\<close> as epoch \<open>20 (e + 1)\<close> in
  \<^verbatim>\<open>accuracy_history.csv\<close>: the last row says 1000.
\<close>

theorem train_history_epochs:
  assumes "train_run nc (20 * n) 20 world inp = Inr (rs, t, arts)"
  shows "map row_epoch (history_rows arts) = map (\<lambda>e. (e + 1) * 20) [0..<n]"
  using assms
proof (induction n arbitrary: rs t arts)
  case 0
  then show ?case
    by (simp add: train_run_def)
next
  case (Suc n)
  have "bind_result (train_run nc (20 * n) 20 world inp) (train_epoch nc n (fst (inp n)) (snd (inp n)))
        = Inr (rs, t, arts)"
    using Suc.prems train_run_Suc [of 20 nc n world inp] by simp
  then obtain st where "train_run nc (20 * n) 20 world inp = Inr st"
    and "train_epoch nc n (fst (inp n)) (snd (inp n)) st = Inr (rs, t, arts)"
    by (auto simp only: bind_result_eq_Inr)
  moreover obtain rs0 t0 arts0 where "st = (rs0, t0, arts0)"
    by (cases st)
  ultimately have run: "train_run nc (20 * n) 20 world inp = Inr (rs0, t0, arts0)"
    and ep: "train_epoch nc n (fst (inp n)) (snd (inp n)) (rs0, t0, arts0) = Inr (rs, t, arts)"
    by simp_all
  show ?case
    using train_epoch_history [OF ep] Suc.IH [OF run] by simp
qed


theorem train_history_epochs_witness:
  "train_run 1 (20 * 2) 20 1 (\<lambda>e. ([[1, 2]], [[[Some 1]]])) =
     Inr ([\<lparr>t_idx_iter = 4, t_loss_torch = [3, 2], t_steps = [(0, 1), (0, 2), (1, 1), (1, 2)]\<rparr>],
          \<lparr>best_metric = 1, best_metric_epoch = 1, best_metric_iterations = None\<rparr>,
          [SaveBestModel 2,
           WriteProgress \<lparr>best_avg_dice_score = 1, best_avg_dice_score_epoch = 1, best_avg_dice_score_iteration = 2\<rparr>,
           AppendHistory \<lparr>row_epoch = 20, row_metric = 1, row_loss = 3 / 2, row_iter = 2\<rparr>,
           AppendHistory \<lparr>row_epoch = 40, row_metric = 1, row_loss = 3 / 2, row_iter = 4\<rparr>])
   \<and> map row_epoch (history_rows
          [SaveBestModel 2,
           WriteProgress \<lparr>best_avg_dice_score = 1, best_avg_dice_score_epoch = 1, best_avg_dice_score_iteration = 2\<rparr>,
           AppendHistory \<lparr>row_epoch = 20, row_metric = 1, row_loss = 3 / 2, row_iter = 2\<rparr>,
           AppendHistory \<lparr>row_epoch = 40, row_metric = 1, row_loss = 3 / 2, row_iter = 4\<rparr>])
        = map (\<lambda>e. (e + 1) * 20) [0..<2]"
proof -
  have run: "train_run 1 (20 * 2) 20 1 (\<lambda>e. ([[1, 2]], [[[Some 1]]])) =
     Inr ([\<lparr>t_idx_iter = 4, t_loss_torch = [3, 2], t_steps = [(0, 1), (0, 2), (1, 1), (1, 2)]\<rparr>],
          \<lparr>best_metric = 1, best_metric_epoch = 1, best_metric_iterations = None\<rparr>,
          [SaveBestModel 2,
           WriteProgress \<lparr>best_avg_dice_score = 1, best_avg_dice_score_epoch = 1, best_avg_dice_score_iteration = 2\<rparr>,
           AppendHistory \<lparr>row_epoch = 20, row_metric = 1, row_loss = 3 / 2, row_iter = 2\<rparr>,
           AppendHistory \<lparr>row_epoch = 40, row_metric = 1, row_loss = 3 / 2, row_iter = 4\<rparr>])"
    by (simp add: train_run_def train_epoch_def train_step_def init_train_loop_def upt_rec
                  all_reduce_sum_def py_simps Let_def validation_metric_def avg_metric_def class_means_def
                  metric_accumulate_def metric_update_def metric_class_update_def nan_to_num_def not_nan_def
                  train_report_def init_tracker_def)
  show ?thesis
    using train_history_epochs [OF run] run by simp
qed

lemma search_report_history:
  "search_report t r = Inr (t', a) \<Longrightarrow>
     history_rows a = [\<lparr>row_epoch = (rep_epoch r + 1) * 20, row_metric = rep_metric r,
                         row_loss = rep_loss r, row_iter = rep_iter r\<rparr>]"
  by (auto simp: search_report_def Let_def split: option.splits if_splits)

lemma search_epoch_history:
  assumes "search_epoch la val_interval nc epoch losses vals (rs, t, arts) = Inr (rs', t', arts')"
  shows "map row_epoch (history_rows arts') =
           map row_epoch (history_rows arts) @ (if (epoch + 1) mod val_interval = 0 then [(epoch + 1) * 20] else [])"
proof (cases "(epoch + 1) mod val_interval = 0")
  case True
  then obtain m loss a where
    "search_report t \<lparr>rep_epoch = epoch, rep_iter = idx_iter (rs' ! 0), rep_metric = m, rep_loss = loss\<rparr> = Inr (t', a)"
    and "arts' = arts @ a"
    using search_epoch_Inr(4) [OF assms True] by blast
  then show ?thesis
    using True search_report_history by fastforce
next
  case False
  then show ?thesis
    using search_epoch_Inr(3) [OF assms] by simp
qed

text \<open>
  C24. The search driver does validate after every \<open>val_interval\<close>-th epoch,
  but its history row (and its printed epoch) is \<open>20 (epoch + 1)\<close>, as if
  every epoch were 20: the first validation, after epoch 20, is written as
  epoch 400.
\<close>

theorem search_history_epochs:
  assumes "search_run la val_interval nc num_epochs world inp = Inr (rs, t, arts)"
  shows "map row_epoch (history_rows arts) = map (\<lambda>e. (e + 1) * 20) (filter (\<lambda>e. (e + 1) mod val_interval = 0) [0..<num_epochs])"
  using assms
proof (induction num_epochs arbitrary: rs t arts)
  case 0
  then show ?case
    by (simp add: search_run_def)
next
  case (Suc n)
  then obtain rs0 t0 arts0 where run: "search_run la val_interval nc n world inp = Inr (rs0, t0, arts0)"
    and ep: "search_epoch la val_interval nc n (fst (inp n)) (snd (inp n)) (rs0, t0, arts0) = Inr (rs, t, arts)"
    by (auto simp: search_run_Suc)
  show ?case
    using search_epoch_history [OF ep] Suc.IH [OF run] by simp
qed


theorem search_history_epochs_witness:
  "search_run 1 2 1 2 1 (\<lambda>e. ([[1]], [[[Some 1]]])) =
     Inr ([\<lparr>idx_iter = 2, a_pass = 2, a_pos = 1, w_grad = False, alpha_grad = True, loss_torch = [1, 1],
            trace = [WeightStep 0 1 True False, ArchStep 0 1 0 False True,
                     WeightStep 1 1 True False, ArchStep 1 2 0 False True]\<rparr>],
          \<lparr>best_metric = 1, best_metric_epoch = 2, best_metric_iterations = Some 2\<rparr>,
          [SaveSearchCode 2 \<lparr>iter_num = 2, epochs = 2, best_dsc = 1, best_path = 2\<rparr>,
           WriteProgress \<lparr>best_avg_dice_score = 1, best_avg_dice_score_epoch = 2, best_avg_dice_score_iteration = 2\<rparr>,
           AppendHistory \<lparr>row_epoch = 40, row_metric = 1, row_loss = 1, row_iter = 2\<rparr>])
   \<and> map row_epoch (history_rows
          [SaveSearchCode 2 \<lparr>iter_num = 2, epochs = 2, best_dsc = 1, best_path = 2\<rparr>,
           WriteProgress \<lparr>best_avg_dice_score = 1, best_avg_dice_score_epoch = 2, best_avg_dice_score_iteration = 2\<rparr>,
           AppendHistory \<lparr>row_epoch = 40, row_metric = 1, row_loss = 1, row_iter = 2\<rparr>])
        = map (\<lambda>e. (e + 1) * 20) (filter (\<lambda>e. (e + 1) mod 2 = 0) [0..<2])"
proof -
  have run: "search_run 1 2 1 2 1 (\<lambda>e. ([[1]], [[[Some 1]]])) =
     Inr ([\<lparr>idx_iter = 2, a_pass = 2, a_pos = 1, w_grad = False, alpha_grad = True, loss_torch = [1, 1],
            trace = [WeightStep 0 1 True False, ArchStep 0 1 0 False True,
                     WeightStep 1 1 True False, ArchStep 1 2 0 False True]\<rparr>],
          \<lparr>best_metric = 1, best_metric_epoch = 2, best_metric_iterations = Some 2\<rparr>,
          [SaveSearchCode 2 \<lparr>iter_num = 2, epochs = 2, best_dsc = 1, best_path = 2\<rparr>,
           WriteProgress \<lparr>best_avg_dice_score = 1, best_avg_dice_score_epoch = 2, best_avg_dice_score_iteration = 2\<rparr>,
           AppendHistory \<lparr>row_epoch = 40, row_metric = 1, row_loss = 1, row_iter = 2\<rparr>])"
    by (simp add: search_run_def search_epoch_def search_step_def next_arch_def init_search_loop_def upt_rec
                  all_reduce_sum_def py_simps Let_def validation_metric_def avg_metric_def class_means_def
                  metric_accumulate_def metric_update_def metric_class_update_def nan_to_num_def not_nan_def
                  search_report_def init_tracker_def)
  show ?thesis
    using search_history_epochs [OF run] run by simp
qed


section \<open>What a search validation logs\<close>

lemma search_step_loss:
  "search_step la epoch step l s = Inr s' \<Longrightarrow>
     loss_torch s' = (loss_torch s)[0 := loss_torch s ! 0 + l, 1 := loss_torch s ! 1 + 1]"
  by (auto simp: search_step_def next_arch_def Let_def split: if_splits)

lemma search_batches_loss:
  "search_batches la epoch k ls s = Inr s' \<Longrightarrow>
     loss_torch s' = fold (\<lambda>l t. t[0 := t ! 0 + l, 1 := t ! 1 + 1]) ls (loss_torch s)"
proof (induction ls arbitrary: k s)
  case Nil
  then show ?case by simp
next
  case (Cons l ls)
  then obtain s1 where "search_step la epoch (Suc k) l s = Inr s1"
    and "search_batches la epoch (Suc k) ls s1 = Inr s'"
    by auto
  then show ?case
    using Cons.IH search_step_loss by fastforce
qed

text \<open>After the batches, every rank's \<^verbatim>\<open>loss_torch\<close> is \<open>Metrics.loss_accumulate\<close> of its losses.\<close>

lemma search_epoch_losses:
  assumes "search_epoch la val_interval nc epoch losses vals (rs, t, arts) = Inr (rs', t', arts')"
    and "length rs = length losses"
  shows "map loss_torch rs' = map loss_accumulate losses"
proof -
  have m: "length rs' = length losses \<and> (\<forall>i < length losses.
             search_batches la epoch 0 (losses ! i) ((rs ! i)\<lparr>loss_torch := [0, 0]\<rparr>) = Inr (rs' ! i))"
    using map_result_nth [OF search_epoch_Inr(1) [OF assms(1)]] assms(2) by simp
  show ?thesis
  proof (rule nth_equalityI)
    show "length (map loss_torch rs') = length (map loss_accumulate losses)"
      using m by simp
    fix i assume "i < length (map loss_torch rs')"
    then have i: "i < length losses"
      using m by simp
    then have "search_batches la epoch 0 (losses ! i) ((rs ! i)\<lparr>loss_torch := [0, 0]\<rparr>) = Inr (rs' ! i)"
      using m by blast
    from search_batches_loss [OF this] i m
    show "map loss_torch rs' ! i = map loss_accumulate losses ! i"
      by (simp add: loss_accumulate_def)
  qed
qed

text \<open>
  C26. The row rank 0 appends to \<^verbatim>\<open>accuracy_history.csv\<close> at a search
  validation holds the mean of all ranks' batch losses of the epoch
  (\<open>Metrics.epoch_loss\<close>), the distributed validation metric
  (\<open>Metrics.validation_metric\<close>) and rank 0's \<^verbatim>\<open>idx_iter\<close>.
\<close>

theorem search_epoch_row:
  assumes "search_epoch la val_interval nc epoch losses vals (rs, t, arts) = Inr (rs', t', arts')"
    and "length rs = length losses" and "(epoch + 1) mod val_interval = 0"
  shows "\<exists>l m. epoch_loss losses = Inr l \<and> validation_metric nc vals = Inr m
           \<and> history_rows arts' = history_rows arts @
                 [\<lparr>row_epoch = (epoch + 1) * 20, row_metric = m, row_loss = l, row_iter = idx_iter (rs' ! 0)\<rparr>]"
proof -
  obtain m l a where l: "py_truediv (all_reduce_sum 2 (map loss_torch rs') ! 0) (all_reduce_sum 2 (map loss_torch rs') ! 1) = Inr l"
    and "validation_metric nc vals = Inr m"
    and r: "search_report t \<lparr>rep_epoch = epoch, rep_iter = idx_iter (rs' ! 0), rep_metric = m, rep_loss = l\<rparr> = Inr (t', a)"
    and "arts' = arts @ a"
    using search_epoch_Inr(4) [OF assms(1,3)] by blast
  moreover have "epoch_loss losses = Inr l"
    using l search_epoch_losses [OF assms(1,2)] by (simp add: epoch_loss_def)
  ultimately show ?thesis
    using search_report_history [OF r] by auto
qed


theorem search_epoch_row_witness:
  "search_epoch 1 1 1 0 [[1, 2], [3]] [[[Some 1]], [[Some (1/2)]]] ([init_search_loop, init_search_loop], init_tracker, []) =
     Inr ([\<lparr>idx_iter = 2, a_pass = 2, a_pos = 1, w_grad = False, alpha_grad = True, loss_torch = [3, 2],
              trace = [WeightStep 0 1 True False, ArchStep 0 1 0 False True,
                       WeightStep 0 2 True False, ArchStep 0 2 0 False True]\<rparr>,
            \<lparr>idx_iter = 1, a_pass = 1, a_pos = 1, w_grad = False, alpha_grad = True, loss_torch = [3, 1],
              trace = [WeightStep 0 1 True False, ArchStep 0 1 0 False True]\<rparr>],
          \<lparr>best_metric = 3 / 4, best_metric_epoch = 1, best_metric_iterations = Some 2\<rparr>,
          [SaveSearchCode 2 \<lparr>iter_num = 2, epochs = 1, best_dsc = 3 / 4, best_path = 2\<rparr>,
            WriteProgress \<lparr>best_avg_dice_score = 3 / 4, best_avg_dice_score_epoch = 1, best_avg_dice_score_iteration = 2\<rparr>,
            AppendHistory \<lparr>row_epoch = 20, row_metric = 3 / 4, row_loss = 2, row_iter = 2\<rparr>])
   \<and> (\<exists>l m. epoch_loss [[1, 2], [3]] = Inr l \<and> validation_metric 1 [[[Some 1]], [[Some (1/2)]]] = Inr m
         \<and> history_rows [SaveSearchCode 2 \<lparr>iter_num = 2, epochs = 1, best_dsc = 3 / 4, best_path = 2\<rparr>,
            WriteProgress \<lparr>best_avg_dice_score = 3 / 4, best_avg_dice_score_epoch = 1, best_avg_dice_score_iteration = 2\<rparr>,
            AppendHistory \<lparr>row_epoch = 20, row_metric = 3 / 4, row_loss = 2, row_iter = 2\<rparr>] = history_rows [] @
               [\<lparr>row_epoch = (0 + 1) * 20, row_metric = m, row_loss = l, row_iter = idx_iter ([\<lparr>idx_iter = 2, a_pass = 2, a_pos = 1, w_grad = False, alpha_grad = True, loss_torch = [3, 2],
              trace = [WeightStep 0 1 True False, ArchStep 0 1 0 False True,
                       WeightStep 0 2 True False, ArchStep 0 2 0 False True]\<rparr>,
            \<lparr>idx_iter = 1, a_pass = 1, a_pos = 1, w_grad = False, alpha_grad = True, loss_torch = [3, 1],
              trace = [WeightStep 0 1 True False, ArchStep 0 1 0 False True]\<rparr>] ! 0)\<rparr>])"
proof -
  have run: "search_epoch 1 1 1 0 [[1, 2], [3]] [[[Some 1]], [[Some (1/2)]]] ([init_search_loop, init_search_loop], init_tracker, []) =
     Inr ([\<lparr>idx_iter = 2, a_pass = 2, a_pos = 1, w_grad = False, alpha_grad = True, loss_torch = [3, 2],
              trace = [WeightStep 0 1 True False, ArchStep 0 1 0 False True,
                       WeightStep 0 2 True False, ArchStep 0 2 0 False True]\<rparr>,
            \<lparr>idx_iter = 1, a_pass = 1, a_pos = 1, w_grad = False, alpha_grad = True, loss_torch = [3, 1],
              trace = [WeightStep 0 1 True False, ArchStep 0 1 0 False True]\<rparr>],
          \<lparr>best_metric = 3 / 4, best_metric_epoch = 1, best_metric_iterations = Some 2\<rparr>,
          [SaveSearchCode 2 \<lparr>iter_num = 2, epochs = 1, best_dsc = 3 / 4, best_path = 2\<rparr>,
            WriteProgress \<lparr>best_avg_dice_score = 3 / 4, best_avg_dice_score_epoch = 1, best_avg_dice_score_iteration = 2\<rparr>,
            AppendHistory \<lparr>row_epoch = 20, row_metric = 3 / 4, row_loss = 2, row_iter = 2\<rparr>])"
    by (simp add: search_epoch_def search_step_def next_arch_def init_search_loop_def
                  all_reduce_sum_def py_simps Let_def validation_metric_def avg_metric_def class_means_def
                  metric_accumulate_def metric_update_def metric_class_update_def nan_to_num_def not_nan_def
                  search_report_def init_tracker_def)
  show ?thesis
    using search_epoch_row [OF run] run by simp
qed


section \<open>Checkpoint names\<close>

text \<open>The iteration numbers of the search checkpoints written so far (\<^verbatim>\<open>search_code_<iter>.pth\<close>).\<close>

fun checkpoint_iters :: "artifact list \<Rightarrow> nat list" where
  "checkpoint_iters [] = []"
| "checkpoint_iters (SaveSearchCode i c # as) = i # checkpoint_iters as"
| "checkpoint_iters (a # as) = checkpoint_iters as"

lemma checkpoint_iters_append [simp]:
  "checkpoint_iters (as @ bs) = checkpoint_iters as @ checkpoint_iters bs"
  by (induction as rule: checkpoint_iters.induct) simp_all

lemma search_report_checkpoint:
  "search_report t r = Inr (t', a) \<Longrightarrow> checkpoint_iters a = [rep_iter r]"
  by (auto simp: search_report_def Let_def split: option.splits if_splits)

text \<open>Rank 0 after an epoch of \<open>n\<close> batches with a non-empty architecture loader.\<close>

lemma search_epoch_rank0:
  assumes "search_epoch la val_interval nc epoch losses vals (r # rs, t, arts) = Inr (rs', t', arts')"
    and "0 < la" and "iter_ok la r" and "losses = l # ls"
  shows "rs' \<noteq> [] \<and> iter_ok la (rs' ! 0) \<and> idx_iter (rs' ! 0) = idx_iter r + length l"
proof -
  have m: "map_result (\<lambda>(r, ls). search_batches la epoch 0 ls (r\<lparr>loss_torch := [0, 0]\<rparr>)) (zip (r # rs) losses) = Inr rs'"
    by (rule search_epoch_Inr(1) [OF assms(1)])
  obtain r' rs'' where rs': "rs' = r' # rs''"
    and b: "search_batches la epoch 0 l (r\<lparr>loss_torch := [0, 0]\<rparr>) = Inr r'"
    using m assms(4) by auto
  have "iter_ok la (r\<lparr>loss_torch := [0, 0]\<rparr>)"
    using assms(3) by (simp add: iter_ok_def)
  then obtain s' where "search_batches la epoch 0 l (r\<lparr>loss_torch := [0, 0]\<rparr>) = Inr s'"
    and "idx_iter s' = idx_iter r + length l" and "iter_ok la s'"
    using search_batches_interleave [OF assms(2)] by fastforce
  then show ?thesis
    using b rs' by simp
qed

lemma search_epoch_checkpoint:
  assumes "search_epoch la val_interval nc epoch losses vals (rs, t, arts) = Inr (rs', t', arts')"
  shows "checkpoint_iters arts' =
           checkpoint_iters arts @ (if (epoch + 1) mod val_interval = 0 then [idx_iter (rs' ! 0)] else [])"
proof (cases "(epoch + 1) mod val_interval = 0")
  case True
  then obtain m loss a where
    "search_report t \<lparr>rep_epoch = epoch, rep_iter = idx_iter (rs' ! 0), rep_metric = m, rep_loss = loss\<rparr> = Inr (t', a)"
    and "arts' = arts @ a"
    using search_epoch_Inr(4) [OF assms True] by blast
  then show ?thesis
    using True search_report_checkpoint by fastforce
next
  case False
  then show ?thesis
    using search_epoch_Inr(3) [OF assms] by simp
qed

text \<open>
  C28. When every epoch gives rank 0 the same number \<open>n\<close> of weight batches
  and the architecture loader is not empty, the search checkpoint written
  at the validation after epoch \<open>e\<close> is \<^verbatim>\<open>search_code_<(e + 1) n>.pth\<close>:
  for \<open>n > 0\<close> no checkpoint overwrites another.
\<close>

theorem search_run_checkpoints:
  assumes "search_run la val_interval nc num_epochs world inp = Inr (rs, t, arts)"
    and "0 < la" and "0 < world"
    and "\<forall>e < num_epochs. \<exists>ls. fst (inp e) = ls \<and> ls \<noteq> [] \<and> length (hd ls) = n"
  shows "checkpoint_iters arts = map (\<lambda>e. (e + 1) * n) (filter (\<lambda>e. (e + 1) mod val_interval = 0) [0..<num_epochs])
         \<and> rs \<noteq> [] \<and> iter_ok la (rs ! 0) \<and> idx_iter (rs ! 0) = num_epochs * n"
  using assms(1,4)
proof (induction num_epochs arbitrary: rs t arts)
  case 0
  then have "rs = replicate world init_search_loop" and "arts = []"
    by (simp_all add: search_run_def)
  then show ?case
    using assms(3) by (cases world) (simp_all add: init_search_loop_def iter_ok_def)
next
  case (Suc e)
  then obtain rs0 t0 arts0 where run: "search_run la val_interval nc e world inp = Inr (rs0, t0, arts0)"
    and ep: "search_epoch la val_interval nc e (fst (inp e)) (snd (inp e)) (rs0, t0, arts0) = Inr (rs, t, arts)"
    by (auto simp: search_run_Suc)
  have ih: "checkpoint_iters arts0 = map (\<lambda>e. (e + 1) * n) (filter (\<lambda>e. (e + 1) mod val_interval = 0) [0..<e])"
    and "rs0 \<noteq> []" and ok: "iter_ok la (rs0 ! 0)" and it: "idx_iter (rs0 ! 0) = e * n"
    using Suc.IH [OF run] Suc.prems(2) by auto
  obtain r rs1 where rs0: "rs0 = r # rs1"
    using \<open>rs0 \<noteq> []\<close> by (cases rs0) auto
  obtain l ls where inp: "fst (inp e) = l # ls" and "length l = n"
    using Suc.prems(2) by (cases "fst (inp e)") auto
  have r0: "rs \<noteq> [] \<and> iter_ok la (rs ! 0) \<and> idx_iter (rs ! 0) = e * n + n"
    using search_epoch_rank0 [OF ep [unfolded rs0 inp] assms(2)] ok it rs0 \<open>length l = n\<close> by simp
  then show ?case
    using search_epoch_checkpoint [OF ep] ih by simp
qed


theorem search_run_checkpoints_witness:
  "search_run 1 2 1 2 1 (\<lambda>e. ([[1]], [[[Some 1]]])) = Inr ([\<lparr>idx_iter = 2, a_pass = 2, a_pos = 1, w_grad = False, alpha_grad = True, loss_torch = [1, 1],
            trace = [WeightStep 0 1 True False, ArchStep 0 1 0 False True,
                     WeightStep 1 1 True False, ArchStep 1 2 0 False True]\<rparr>], \<lparr>best_metric = 1, best_metric_epoch = 2, best_metric_iterations = Some 2\<rparr>, [SaveSearchCode 2 \<lparr>iter_num = 2, epochs = 2, best_dsc = 1, best_path = 2\<rparr>,
           WriteProgress \<lparr>best_avg_dice_score = 1, best_avg_dice_score_epoch = 2, best_avg_dice_score_iteration = 2\<rparr>,
           AppendHistory \<lparr>row_epoch = 40, row_metric = 1, row_loss = 1, row_iter = 2\<rparr>])
   \<and> checkpoint_iters [SaveSearchCode 2 \<lparr>iter_num = 2, epochs = 2, best_dsc = 1, best_path = 2\<rparr>,
           WriteProgress \<lparr>best_avg_dice_score = 1, best_avg_dice_score_epoch = 2, best_avg_dice_score_iteration = 2\<rparr>,
           AppendHistory \<lparr>row_epoch = 40, row_metric = 1, row_loss = 1, row_iter = 2\<rparr>]
       = map (\<lambda>e. (e + 1) * 1) (filter (\<lambda>e. (e + 1) mod 2 = 0) [0..<2])
   \<and> [\<lparr>idx_iter = 2, a_pass = 2, a_pos = 1, w_grad = False, alpha_grad = True, loss_torch = [1, 1],
            trace = [WeightStep 0 1 True False, ArchStep 0 1 0 False True,
                     WeightStep 1 1 True False, ArchStep 1 2 0 False True]\<rparr>] \<noteq> [] \<and> iter_ok 1 ([\<lparr>idx_iter = 2, a_pass = 2, a_pos = 1, w_grad = False, alpha_grad = True, loss_torch = [1, 1],
            trace = [WeightStep 0 1 True False, ArchStep 0 1 0 False True,
                     WeightStep 1 1 True False, ArchStep 1 2 0 False True]\<rparr>] ! 0) \<and> idx_iter ([\<lparr>idx_iter = 2, a_pass = 2, a_pos = 1, w_grad = False, alpha_grad = True, loss_torch = [1, 1],
            trace = [WeightStep 0 1 True False, ArchStep 0 1 0 False True,
                     WeightStep 1 1 True False, ArchStep 1 2 0 False True]\<rparr>] ! 0) = 2 * 1"
proof -
  have run: "search_run 1 2 1 2 1 (\<lambda>e. ([[1]], [[[Some 1]]])) = Inr ([\<lparr>idx_iter = 2, a_pass = 2, a_pos = 1, w_grad = False, alpha_grad = True, loss_torch = [1, 1],
            trace = [WeightStep 0 1 True False, ArchStep 0 1 0 False True,
                     WeightStep 1 1 True False, ArchStep 1 2 0 False True]\<rparr>], \<lparr>best_metric = 1, best_metric_epoch = 2, best_metric_iterations = Some 2\<rparr>, [SaveSearchCode 2 \<lparr>iter_num = 2, epochs = 2, best_dsc = 1, best_path = 2\<rparr>,
           WriteProgress \<lparr>best_avg_dice_score = 1, best_avg_dice_score_epoch = 2, best_avg_dice_score_iteration = 2\<rparr>,
           AppendHistory \<lparr>row_epoch = 40, row_metric = 1, row_loss = 1, row_iter = 2\<rparr>])"
    by (simp add: search_run_def search_epoch_def search_step_def next_arch_def init_search_loop_def upt_rec
                  all_reduce_sum_def py_simps Let_def validation_metric_def avg_metric_def class_means_def
                  metric_accumulate_def metric_update_def metric_class_update_def nan_to_num_def not_nan_def
                  search_report_def init_tracker_def)
  have h: "\<forall>e < 2. \<exists>ls. fst ((\<lambda>e. ([[1::real]], [[[Some (1::real)]]])) e) = ls \<and> ls \<noteq> [] \<and> length (hd ls) = 1"
    by simp
  show ?thesis
    using search_run_checkpoints [OF run _ _ h] run by simp
qed


section \<open>The start of the loops\<close>

text \<open>
  As written, rank 0 of either driver would raise \<^verbatim>\<open>NameError\<close> at
  \<^verbatim>\<open>print("num_tta", num_tta)\<close>; no launch gets that far, since the
  training \<^verbatim>\<open>CacheDataset\<close> raises earlier (\<open>Pipelines\<close>). The loop
  models \<open>search_run\<close> and \<open>train_run\<close> start from the state the block
  would give without that line.
\<close>

lemma prologue_name_error:
  assumes "0 < world"
  shows "search_start world = Inl (NameError ''num_tta'') \<and> train_start world = Inl (NameError ''num_tta'')"
proof -
  have "[0..<world] = 0 # [1..<world]"
    using assms by (simp add: upt_conv_Cons)
  then show ?thesis
    using globals_unbound [of "''num_tta''"]
    by (simp add: search_start_def train_start_def search_prologue_def train_prologue_def py_global_def py_builtins_def)
qed

section \<open>Exceptions of a search run\<close>

text \<open>
  With a non-empty architecture loader the unguarded second
  \<^verbatim>\<open>next(dataloader_a_iterator)\<close> always returns: a search run can only
  stop with the \<^verbatim>\<open>ZeroDivisionError\<close> of a division or the
  \<^verbatim>\<open>UnboundLocalError\<close> of the bookkeeping, never with
  \<^verbatim>\<open>StopIteration\<close>.
\<close>

lemma search_step_Inr: "0 < la \<Longrightarrow> \<exists>s'. search_step la epoch step l s = Inr s'"
  by (auto simp: search_step_def next_arch_def Let_def)

lemma search_batches_Inr: "0 < la \<Longrightarrow> \<exists>s'. search_batches la epoch step ls s = Inr s'"
proof (induction ls arbitrary: step s)
  case (Cons l ls)
  then obtain s1 where "search_step la epoch (Suc step) l s = Inr s1"
    using search_step_Inr by blast
  with Cons show ?case by simp
qed simp

lemma search_epoch_Inl:
  assumes "0 < la" and "search_epoch la val_interval nc epoch losses vals st = Inl e"
  shows "loop_error e"
proof -
  obtain rs t arts where st: "st = (rs, t, arts)"
    by (cases st) auto
  obtain rs' where b: "map_result (\<lambda>(r, ls). search_batches la epoch 0 ls (r\<lparr>loss_torch := [0, 0]\<rparr>)) (zip rs losses) = Inr rs'"
    using search_batches_Inr [OF assms(1)] by (fastforce intro: map_result_Inr_ex)
  show ?thesis
    using assms(2) validation_metric_Inl search_report_Inl
    by (auto simp: search_epoch_def st b Let_def py_truediv_def loop_error_def bind_result_def
             split: sum.splits if_splits prod.splits)
qed

lemma search_run_errors:
  assumes "0 < la" and "search_run la val_interval nc num_epochs world inp = Inl e"
  shows "loop_error e"
proof (rule fold_result_Inl_from)
  show "fold_result (\<lambda>epoch. search_epoch la val_interval nc epoch (fst (inp epoch)) (snd (inp epoch)))
          [0..<num_epochs] (replicate world init_search_loop, init_tracker, []) = Inl e"
    using assms(2) by (simp add: search_run_def)
qed (rule search_epoch_Inl [OF assms(1)])

end
