(* ===== verification/Spec2Isabelle.thy ===== *)
theory Spec2Isabelle
  imports Architecture Config DataPipeline Dice Pipelines Schedule
begin

text \<open>
  A verification library for the DiNTS tutorial drivers of the MONAI
  research contributions: \<^verbatim>\<open>src/DiNTS/Tutorial/search_dints.py\<close> (the
  differentiable architecture search) and
  \<^verbatim>\<open>src/DiNTS/Tutorial/train_dints.py\<close> (training of a searched
  architecture). Both are one \<^verbatim>\<open>main()\<close> each; the model class
  \<^verbatim>\<open>DiNTS\<close>, PyTorch and MONAI are not part of the sources and are only
  called.

  \<^bold>\<open>Theories.\<close>
  \<^item> \<open>Prelude\<close>: the Python exceptions as the datatype \<open>py_error\<close>, results
    \<open>py_error + 'a\<close> with \<open>bind_result\<close> for exception propagation, and the
    generic list and multiset lemmas the components share (collection
    \<open>py_simps\<close> for the evaluation rules of built-ins).
  \<^item> \<open>PySemantics\<close>: the Python built-ins the drivers rely on, modelled from
    the language reference: \<^verbatim>\<open>//\<close> and \<^verbatim>\<open>/\<close> with
    \<^verbatim>\<open>ZeroDivisionError\<close>, list slicing with negative and out-of-range
    bounds (\<open>py_slice\<close>), \<^verbatim>\<open>range\<close> with a step (\<open>py_range\<close>), dict
    subscription with \<^verbatim>\<open>KeyError\<close>, and \<^verbatim>\<open>posixpath.join\<close>.
  \<^item> \<open>Folds\<close>: the data selection of both scripts (search lines 189--229,
    train lines 183--215): \<open>fold_split\<close> is the cross-validation split
    \<^verbatim>\<open>split = len(data) // num_folds\<close> with its two slices,
    \<open>select_fold\<close> adds the manifest lookup, \<open>collect_files_loop\<close> and
    \<open>collect_files\<close> are the loop that joins entries to \<^verbatim>\<open>--root\<close> and
    skips missing files. The file system is a predicate on paths.
  \<^item> \<open>Metrics\<close>: the validation metric of both drivers (search lines
    539--609, train lines 443--513): the per-image update of the vector
    \<^verbatim>\<open>metric\<close> with its NaN masking (\<open>metric_class_update\<close>,
    \<open>metric_update\<close>, \<open>metric_accumulate\<close>), the all-reduce as an
    element-wise sum over ranks (\<open>all_reduce_sum\<close>), rank 0's class means
    and average (\<open>class_means\<close>, \<open>avg_metric\<close>, \<open>validation_metric\<close>),
    and the epoch loss (\<open>loss_accumulate\<close>, \<open>epoch_loss\<close>). A Dice score
    is a \<open>real option\<close>, \<open>None\<close> standing for NaN. \<open>val_loop_run\<close> is
    the training driver's whole validation loop state; its metric is
    \<open>metric_accumulate\<close> (\<open>Metrics.val_loop_run_fields\<close>).
  \<^item> \<open>Namespace\<close>: the module globals of each driver, read off its
    import block (\<open>search_imports\<close>, search lines 12--92;
    \<open>train_imports\<close>, train lines 12--91) with the binding rules of
    \<^verbatim>\<open>import\<close> and \<^verbatim>\<open>from ... import\<close> (\<open>bound_names\<close>,
    \<open>module_globals\<close>), and the lookup of a global name
    (\<open>py_global\<close>) that raises \<^verbatim>\<open>NameError\<close> for a name bound neither
    there nor among the builtins. The drivers name four unbound globals:
    \<^verbatim>\<open>ndimage\<close>, \<^verbatim>\<open>EnsureType\<close>, \<^verbatim>\<open>num_tta\<close> and \<^verbatim>\<open>flip_tta\<close>
    (\<open>Namespace.globals_unbound\<close>).
  \<^item> \<open>Dice\<close>: how each validation image's row \<^verbatim>\<open>value\<close> would be
    computed (train lines 306--307 and 452--501, search lines 323--324 and
    567--578). A tensor is a record of its spatial shape and its channels,
    each a list of voxels. \<open>post_pred\<close> and \<open>post_label\<close> build the
    \<^verbatim>\<open>Compose\<close> lists of \<^verbatim>\<open>EnsureType\<close> and \<^verbatim>\<open>AsDiscrete\<close>,
    looking each name up in the driver's globals; \<open>train_post_setup\<close>
    and \<open>search_post_setup\<close> are the two lines of each driver, which
    raise \<^verbatim>\<open>NameError\<close> on \<^verbatim>\<open>EnsureType\<close>
    (\<open>Dice.post_setup_name_error\<close>). The lists themselves
    (\<open>post_xform\<close>, \<open>post_apply\<close>, \<open>post_compose\<close>) rely on
    \<^verbatim>\<open>torch.argmax\<close>, which keeps the first maximum (\<open>argmax_list\<close>,
    \<open>torch_argmax0\<close>), and on MONAI's \<^verbatim>\<open>one_hot\<close> with its
    \<^verbatim>\<open>AssertionError\<close> and \<^verbatim>\<open>RuntimeError\<close> (\<open>monai_one_hot\<close>).
    \<open>compute_meandice\<close> covers \<^verbatim>\<open>ignore_background\<close>, the shape
    check, and a NaN score where the label channel is empty. These library
    functions are modelled from MONAI 0.8's sources and documentation.
    \<open>val_value\<close> is one image, \<open>val_pass\<close> the loop over
    \<^verbatim>\<open>val_loader\<close> feeding \<open>Metrics.val_step\<close>, both given the
    post-processing lists.
  \<^item> \<open>Progress\<close>: rank 0's bookkeeping after a validation (search lines
    611--648, train lines 516--538): the tracker record
    (\<^verbatim>\<open>best_metric\<close>, \<^verbatim>\<open>best_metric_epoch\<close>,
    \<^verbatim>\<open>best_metric_iterations\<close>), the files written as a list of
    artifacts, \<open>train_report\<close> and \<open>search_report\<close>, and the reference
    \<open>best_of\<close> (the first report with the greatest metric) that both refine.
  \<^item> \<open>Partition\<close>: MONAI's \<^verbatim>\<open>partition_dataset\<close>, modelled from its
    documented behaviour (it is library code), and \<open>rank_shard\<close>, the
    drivers' \<^verbatim>\<open>partition_dataset(...)[dist.get_rank()]\<close> (search lines
    212, 215, 229, train lines 202, 216). The seeded shuffle is a given
    permutation of the indices.
  \<^item> \<open>DataPipeline\<close>: a rank's data from the manifest to its shards
    (search lines 187--230, train lines 181--217): \<open>search_halves\<close> is
    the search's \<^verbatim>\<open>random.shuffle\<close> of the training files, its cut into a
    weight half and an architecture half and their sharding;
    \<open>search_data\<close> and \<open>train_data\<close> compose \<open>select_fold\<close>,
    \<open>collect_files\<close> and \<open>rank_shard\<close> in the order of the scripts. The
    unseeded shuffle of each rank is a permutation given per rank.
    \<open>batches\<close> is PyTorch's \<^verbatim>\<open>DataLoader\<close> batching (library code,
    modelled from its documentation).
  \<^item> \<open>Config\<close>: the first block of both drivers (search lines 96--175,
    train lines 95--169): Python's \<^verbatim>\<open>int()\<close> and \<^verbatim>\<open>str()\<close> on
    integers (\<open>py_int\<close>, \<open>py_str_int\<close>, from the language reference), the
    nine \<^verbatim>\<open>add_argument\<close> calls (\<open>arg_specs\<close>), \<^verbatim>\<open>parse_args\<close> as a
    \<open>while_option\<close> loop over the tokens (\<open>parse_step\<close>, \<open>parse_loop\<close>,
    \<open>parse_args\<close>; library code modelled from its documentation: long
    options with one value, \<^verbatim>\<open>--opt=value\<close>, unique abbreviations, the
    last occurrence winning, exit status 2 on errors), the namespace as an
    association list, and the hyper-parameter block (\<open>search_config\<close>,
    \<open>train_config\<close>; \<open>search_args\<close> and \<open>train_args\<close> compose them),
    and the \<^verbatim>\<open>--checkpoint\<close> test (\<open>choose_weights\<close>, search lines
    352--357; \<open>train_choose_weights\<close>, train lines 334--339, the same
    test), which trains from scratch when the path names no file.
  \<^item> \<open>Architecture\<close>: loading the searched architecture (search lines
    303--320, train lines 284--301): the reads of \<^verbatim>\<open>node_a\<close>,
    \<^verbatim>\<open>code_a\<close>, \<^verbatim>\<open>code_c\<close> from the checkpoint dictionary
    (\<open>load_arch\<close>), the float conversion and \<^verbatim>\<open>F.one_hot\<close> over
    \<^verbatim>\<open>cell_ops = 5\<close> (\<open>one_hot\<close>, from the PyTorch documentation),
    composed in \<open>arch_tensors\<close>. Arrays are lists of rows tagged with
    their element type.
  \<^item> \<open>Transforms\<close>: MONAI's dictionary transforms, \<^verbatim>\<open>Compose\<close> and
    \<^verbatim>\<open>CacheDataset\<close>, modelled from the MONAI documentation as an
    interpreter over a list of transform constructors (\<open>xform\<close>,
    \<open>xform_apply\<close>, \<open>run_xforms\<close>, \<open>cache_item\<close>, \<open>cached_get\<close>). An
    array is its shape, affine, history of spatial operations, dtype and
    whether its values were ever interpolated; random transforms take one
    draw per call, shared by their keys; resampling shapes are a parameter.
    The dilation \<^verbatim>\<open>Lambdad\<close> of the training lists (\<open>lam\<close>,
    \<open>lambda_value\<close>) evaluates \<^verbatim>\<open>np\<close> and then \<^verbatim>\<open>ndimage\<close> in
    the driver's globals, and \<^verbatim>\<open>Compose\<close> wraps any exception of a
    transform as \<^verbatim>\<open>RuntimeError\<close>.
  \<^item> \<open>Pipelines\<close>: the training and validation \<^verbatim>\<open>Compose\<close> lists of
    each driver as written (search lines 236--289, train lines 223--276),
    the datasets built from them (search lines 291--294, train lines
    278--279), and their evaluation transform by transform.
  \<^item> \<open>Schedule\<close>: the epoch loops of both drivers over all ranks at once
    (search lines 366--540, train lines 347--442). A search round
    (\<open>search_step\<close>) records a weight step and an architecture step with
    the \<^verbatim>\<open>requires_grad\<close> flags in force, reads the architecture batch
    from the restartable iterator (\<open>next_arch\<close>) and accumulates the loss;
    \<open>search_epoch\<close> and \<open>train_epoch\<close> add the all-reduce of the loss,
    the validation (\<open>Metrics.validation_metric\<close>) and the bookkeeping
    (\<open>Progress\<close>); \<open>search_run\<close> and \<open>train_run\<close> are the outer
    loops. The network is not run: the batch losses and per-image Dice
    scores of each epoch and rank are inputs. \<open>search_prologue\<close> and
    \<open>train_prologue\<close> are the block before each loop on one rank, whose
    \<^verbatim>\<open>print\<close> looks up \<^verbatim>\<open>num_tta\<close> and \<^verbatim>\<open>flip_tta\<close> in the
    globals; \<open>search_start\<close> and \<open>train_start\<close> run it on every rank.

  \<^bold>\<open>What the lemmas show.\<close> The fold split is a partition of the manifest
  for every fold index \<open>\<ge> 0\<close> (C1); the validation folds are consecutive
  blocks covering the first \<open>k * (n div k)\<close> entries
  (\<open>Folds.validation_folds_cover\<close>), so the last \<open>n mod k\<close> entries are
  always trained on and never validated (C3); a negative fold index is not
  rejected: \<open>-1\<close> duplicates the training data and validates on nothing,
  \<open>-2\<close> and below count their block from the end (C4); file collection is
  a filter of the root-joined entries in order (C5) and raises
  \<^verbatim>\<open>KeyError\<close> on an entry without both keys
  (\<open>Folds.collect_files_key_error\<close>).

  As written, neither driver gets to its training loop. Every training
  \<^verbatim>\<open>Compose\<close> list raises \<^verbatim>\<open>RuntimeError\<close> at its dilation
  \<^verbatim>\<open>Lambdad\<close>, whatever the files (C2), and \<^verbatim>\<open>CacheDataset\<close> runs
  that transform while the dataset is built, so every launch stops there
  on every rank (C11); an unreadable file stops the validation dataset the
  same way (C14). The validation lists, which have no dilation, keep image
  and label on one grid, never interpolate labels and give float32 and
  uint8 arrays (C6). Were those errors fixed, the block before the loops
  would still raise \<^verbatim>\<open>NameError\<close> on \<^verbatim>\<open>num_tta\<close>
  (\<open>Schedule.prologue_name_error\<close>), and the post-processing lines on
  \<^verbatim>\<open>EnsureType\<close> (\<open>Dice.post_setup_name_error\<close>). The loop lemmas below
  are about the loops these blocks would start.

  The distributed validation equals a single process over all images (C7)
  and over the ranks' shards (C8); its closed form (C9) uses the class-0
  NaN flag for every class, so it is the per-class mean of the valid
  scores only when class 0 is valid wherever another class is (C10;
  \<open>Metrics.nan_mask_divergence\<close> is a case where they differ). The epoch
  loss is the mean batch loss (\<open>Metrics.epoch_loss_mean\<close>). The trackers
  refine \<open>best_of\<close> (C13, \<open>Progress.train_best_metric_max\<close>,
  \<open>Progress.train_progress_is_best\<close>); the search bookkeeping raises
  \<^verbatim>\<open>UnboundLocalError\<close> exactly when no validation beats \<open>-1\<close> (C15),
  which averages of Dice scores never allow (C12), and its
  \<^verbatim>\<open>progress.yaml\<close> pairs the best score with the latest iteration (C16).
  The validation shards cover the validation images exactly once (C17);
  the training shards have equal length \<open>ceil(n/k)\<close> and cover the data
  (C18); fewer items than ranks raise \<^verbatim>\<open>RuntimeError\<close> (C19). A search
  epoch alternates weight and architecture steps, cycling through the
  architecture loader (C20); every step runs with the right parameters
  frozen (C21); the architecture half is never empty, so a search run never
  stops with \<^verbatim>\<open>StopIteration\<close>, only with \<^verbatim>\<open>ZeroDivisionError\<close> or
  \<^verbatim>\<open>UnboundLocalError\<close> (C22); a run validates
  \<open>num_epochs div val_interval\<close> times
  (\<open>Schedule.search_run_validations\<close>); both drivers label their epochs
  20 times too high (C23, C24). With one shuffle on every rank the weight
  and architecture images are disjoint and cover the training set (C25);
  with the scripts' independent shuffles they need not be
  (\<open>DataPipeline.search_halves_rank_overlap\<close>). The row logged at a
  search validation holds \<open>Metrics.epoch_loss\<close> and
  \<open>Metrics.validation_metric\<close> of the epoch (C26). The training driver's
  loaders have the same number of batches on every rank (C27). The search
  checkpoints are numbered by the iterations so far, \<open>(e + 1) n\<close> for
  \<open>n\<close> batches per epoch (C28). After a successful parse, the
  configuration block can only fail with \<^verbatim>\<open>ValueError\<close> (C29); the
  command line \<^verbatim>\<open>--fold -1\<close> is accepted and trains on duplicated data
  with an empty validation set (C30). A checkpoint with operation indices
  in \<open>0..4\<close> loads into one-hot rows of 5 entries (C31), and missing keys
  and bad indices raise (\<open>Architecture.arch_tensors_missing_key\<close>,
  \<open>Architecture.arch_tensors_bad_code\<close>). An epoch with at least as many
  weight batches as the architecture loader has batches uses every
  architecture batch (C32). Of \<^verbatim>\<open>compute_meandice\<close>, the lemmas show
  that on one-hot channels each foreground score is the Dice coefficient
  of the two labellings (\<open>Dice.dice_channel_onehot\<close>,
  \<open>Dice.meandice_onehot\<close>), in \<open>[0, 1]\<close> and NaN exactly when the label
  lacks the class (\<open>Dice.compute_meandice_ok\<close>,
  \<open>Dice.dice_channel_onehot_None\<close>).

  \<^bold>\<open>Bounds.\<close> No fuel is used: every loop runs over a finite list
  (the manifest, the ranks, the batches, \<^verbatim>\<open>range(num_epochs)\<close>), and
  \<open>py_range\<close> terminates by the measure \<open>b - a\<close>. The argparse token loop
  is a \<open>while_option\<close>, which is \<open>None\<close> when it does not stop;
  \<open>Config.parse_args_terminates\<close> proves it is always \<open>Some\<close>, by the measure \<open>parse_measure\<close> (tokens
  left, plus one while no error is recorded). The driver constants
  (\<^verbatim>\<open>num_epochs = 1000\<close>, \<^verbatim>\<open>num_epochs_per_validation = 20\<close>)
  are parameters of \<open>search_run\<close> and \<open>train_run\<close>; the factor 20 in
  the history rows is the source's constant.

  \<^bold>\<open>Not modelled.\<close> \<^verbatim>\<open>torch.load\<close> and the \<^verbatim>\<open>DiNTS\<close>
  constructor (the checkpoint is given as its dictionary), the
  distributed initialisation and devices, the voxel arithmetic of the
  transforms (values, dilation, intensity scaling; only what the arrays'
  geometry, dtype and interpolation record), the
  network's forward pass, the losses, the optimisers' updates, mixed
  precision, the sliding-window inference (its prediction is the input of
  \<open>Dice.val_value\<close>), logging and the writing of
  files beyond the records they hold: numerical library code the scripts
  only call. Module resolution is not modelled: every import is taken to
  succeed and to bind its names. Python floats are modelled as reals: rounding is not modelled.
\<close>

section \<open>Properties across components\<close>

text \<open>
  C12. Validation averages produced by the metric pipeline from Dice scores
  in \<open>[0, 1]\<close> always beat the initial \<open>best_metric = -1\<close>, so the search
  driver's bookkeeping never raises \<^verbatim>\<open>UnboundLocalError\<close> and its tracker
  holds the first best validation, with its iteration.
\<close>

theorem search_bookkeeping_total:
  assumes "\<forall>r \<in> set rs. \<exists>vals. (\<forall>v \<in> set vals. \<forall>c < nc. \<forall>x. v ! c = Some x \<longrightarrow> 0 \<le> x \<and> x \<le> 1)
                                \<and> avg_metric nc (metric_accumulate nc vals) = Inr (rep_metric r)"
  shows "\<exists>log. search_reports init_tracker rs = Inr (search_abs (best_of None rs), log)"
proof (rule search_reports_init_ok)
  show "rs = [] \<or> -1 < rep_metric (hd rs)"
  proof (cases rs)
    case (Cons r rs')
    with assms obtain vals where
      "\<forall>v \<in> set vals. \<forall>c < nc. \<forall>x. v ! c = Some x \<longrightarrow> 0 \<le> x \<and> x \<le> 1"
      and "avg_metric nc (metric_accumulate nc vals) = Inr (rep_metric r)"
      by auto
    then have "0 \<le> rep_metric r"
      using avg_metric_bounds by blast
    with Cons show ?thesis by simp
  qed simp
qed

theorem search_bookkeeping_total_witness:
  "\<exists>log. search_reports init_tracker [\<lparr>rep_epoch = 19, rep_iter = 100, rep_metric = 2/5, rep_loss = 1\<rparr>]
         = Inr (search_abs (best_of None [\<lparr>rep_epoch = 19, rep_iter = 100, rep_metric = 2/5, rep_loss = 1\<rparr>]), log)"
proof (rule search_bookkeeping_total [where nc = 2])
  have "avg_metric 2 (metric_accumulate 2 [[Some (4/5), None]]) = Inr (2/5)"
    by (simp add: avg_metric_def class_means_accumulate py_simps nan_to_num_def not_nan_def upt_rec)
  moreover have "\<forall>v \<in> set [[Some (4/5::real), None]]. \<forall>c < 2. \<forall>x. v ! c = Some x \<longrightarrow> 0 \<le> x \<and> x \<le> 1"
    by (simp add: less_Suc_eq numeral_2_eq_2)
  ultimately have "\<exists>vals. (\<forall>v \<in> set vals. \<forall>c < 2. \<forall>x. v ! c = Some x \<longrightarrow> 0 \<le> x \<and> x \<le> 1)
             \<and> avg_metric 2 (metric_accumulate 2 vals) = Inr (2/5)"
    by blast
  then show "\<forall>r \<in> set [\<lparr>rep_epoch = 19, rep_iter = 100, rep_metric = 2/5, rep_loss = 1\<rparr>].
      \<exists>vals. (\<forall>v \<in> set vals. \<forall>c < 2. \<forall>x. v ! c = Some x \<longrightarrow> 0 \<le> x \<and> x \<le> 1)
             \<and> avg_metric 2 (metric_accumulate 2 vals) = Inr (rep_metric r)"
    by simp
qed


text \<open>
  C11. A launch of either driver never reaches its training loop: once the
  data are split among the ranks (the search driver's two halves, the
  training driver's padded shard), building the training
  \<^verbatim>\<open>CacheDataset\<close> runs the cached transforms on the rank's first pair,
  and the dilation \<^verbatim>\<open>Lambdad\<close> at index 8 names the unimported
  \<^verbatim>\<open>ndimage\<close>, so \<^verbatim>\<open>Compose\<close> raises \<^verbatim>\<open>RuntimeError\<close>, whatever the
  files hold.
\<close>

theorem launch_stops_at_datasets:
  assumes "search_halves tf shuf pw pa world rank = Inr (w, a)"
    and "mset pa = mset [0..<length shuf - length shuf div 2]"
    and "rank_shard tf' perm True world True rank = Inr t"
    and "mset perm = mset [0..<length tf']"
  shows "search_datasets g fs nc a w v = Inl (RuntimeError ''applying transform'')
       \<and> train_datasets g fs nc t v' = Inl (RuntimeError ''applying transform'')"
proof -
  have "a \<noteq> []"
    by (rule search_halves_arch_nonempty [OF assms(1,2)])
  then have "cache_dataset g fs (search_train_xforms nc) a = Inl (RuntimeError ''applying transform'')"
    by (intro cache_train_raises [where nc = nc]) simp_all
  moreover have "t \<noteq> []"
    using rank_shard_training_nonempty [OF assms(3)] assms(4) by simp
  then have "cache_dataset g fs (train_train_xforms nc) t = Inl (RuntimeError ''applying transform'')"
    by (intro cache_train_raises [where nc = nc]) simp_all
  ultimately show ?thesis
    by (simp add: search_datasets_def train_datasets_def)
qed

theorem launch_stops_at_datasets_witness:
  "search_datasets (\<lambda>op sh af. (sh, af)) (\<lambda>_. Some ([40, 200, 120], [1])) 3
      [\<lparr>image = ''b.nii'', label = ''bl.nii''\<rparr>] [\<lparr>image = ''a.nii'', label = ''al.nii''\<rparr>] []
     = Inl (RuntimeError ''applying transform'')
   \<and> train_datasets (\<lambda>op sh af. (sh, af)) (\<lambda>_. Some ([40, 200, 120], [1])) 3
      [\<lparr>image = ''a.nii'', label = ''al.nii''\<rparr>] []
     = Inl (RuntimeError ''applying transform'')"
proof (rule launch_stops_at_datasets [where tf = "[\<lparr>image = ''a.nii'', label = ''al.nii''\<rparr>, \<lparr>image = ''b.nii'', label = ''bl.nii''\<rparr>]"
         and shuf = "[0, 1]" and pw = "[0]" and pa = "[0]" and world = 1 and rank = 0
         and tf' = "[\<lparr>image = ''a.nii'', label = ''al.nii''\<rparr>]" and perm = "[0]"])
  show "search_halves [\<lparr>image = ''a.nii'', label = ''al.nii''\<rparr>, \<lparr>image = ''b.nii'', label = ''bl.nii''\<rparr>] [0, 1] [0] [0] 1 0
          = Inr ([\<lparr>image = ''a.nii'', label = ''al.nii''\<rparr>], [\<lparr>image = ''b.nii'', label = ''bl.nii''\<rparr>])"
    by code_simp
  show "rank_shard [\<lparr>image = ''a.nii'', label = ''al.nii''\<rparr>] [0] True 1 True 0 = Inr [\<lparr>image = ''a.nii'', label = ''al.nii''\<rparr>]"
    by code_simp
qed simp_all

text \<open>
  C22. The search loop cannot stop with \<^verbatim>\<open>StopIteration\<close>: the
  architecture half of every rank is non-empty, so its loader has a batch
  and the unguarded second \<^verbatim>\<open>next(dataloader_a_iterator)\<close> after a reset
  always returns. A search run that raises raises the
  \<^verbatim>\<open>ZeroDivisionError\<close> of a division or the \<^verbatim>\<open>UnboundLocalError\<close> of
  the bookkeeping.
\<close>

theorem search_run_no_stop_iteration:
  assumes "search_halves tf shuf pw pa world rank = Inr (w, a)"
    and "mset pa = mset [0..<length shuf - length shuf div 2]"
    and "0 < bs"
    and "search_run (length (batches bs a)) val_interval nc num_epochs world' inp = Inl e"
  shows "e = ZeroDivisionError \<or> (\<exists>v. e = UnboundLocalError v)"
proof -
  have "a \<noteq> []"
    by (rule search_halves_arch_nonempty [OF assms(1,2)])
  then have "0 < length (batches bs a)"
    by (rule batches_nonempty [OF assms(3)])
  then have "loop_error e"
    by (rule search_run_errors [OF _ assms(4)])
  then show ?thesis
    by (simp add: loop_error_def)
qed

theorem search_run_no_stop_iteration_witness:
  "search_run (length (batches 1 [\<lparr>image = ''b.nii'', label = ''bl.nii''\<rparr>])) 0 1 1 1 (\<lambda>e. ([[1]], [[[Some 1]]]))
     = Inl ZeroDivisionError
   \<and> (ZeroDivisionError = ZeroDivisionError \<or> (\<exists>v. ZeroDivisionError = UnboundLocalError v))"
proof
  show run: "search_run (length (batches 1 [\<lparr>image = ''b.nii'', label = ''bl.nii''\<rparr>])) 0 1 1 1 (\<lambda>e. ([[1]], [[[Some 1]]]))
     = Inl ZeroDivisionError"
    by code_simp
  show "ZeroDivisionError = ZeroDivisionError \<or> (\<exists>v. ZeroDivisionError = UnboundLocalError v)"
  proof (rule search_run_no_stop_iteration [where tf = "[\<lparr>image = ''a.nii'', label = ''al.nii''\<rparr>, \<lparr>image = ''b.nii'', label = ''bl.nii''\<rparr>]"
      and shuf = "[0, 1]" and pw = "[0]" and pa = "[0]" and world = 1 and rank = 0 and bs = 1
      and val_interval = 0 and nc = 1 and num_epochs = 1 and world' = 1 and inp = "\<lambda>e. ([[1]], [[[Some 1]]])"])
    show "search_halves [\<lparr>image = ''a.nii'', label = ''al.nii''\<rparr>, \<lparr>image = ''b.nii'', label = ''bl.nii''\<rparr>] [0, 1] [0] [0] 1 0
          = Inr ([\<lparr>image = ''a.nii'', label = ''al.nii''\<rparr>], [\<lparr>image = ''b.nii'', label = ''bl.nii''\<rparr>])"
      by code_simp
  qed (rule run | simp)+
qed

text \<open>
  C8. Sharding the validation images over \<open>k\<close> ranks with
  \<^verbatim>\<open>partition_dataset(..., shuffle=False, even_divisible=False)\<close>, running
  the accumulation on each rank and all-reducing gives the same validation
  average as one process accumulating over all images: the reported metric
  does not depend on the number of GPUs.
\<close>

theorem validation_metric_sharded:
  assumes "0 < k" and "k \<le> length vals"
  shows "\<exists>shards. map (Partition.rank_shard vals perm False k False) [0..<k] = map Inr shards
                 \<and> validation_metric nc shards = validation_metric nc [vals]"
proof -
  obtain parts where p: "partition_dataset vals perm False k False False = Inr parts"
    and "length parts = k" and m: "mset (concat parts) = mset vals"
    using partition_validation_parts [OF assms] by blast
  have "validation_metric nc parts = avg_metric nc (metric_accumulate nc (concat parts))"
    by (simp add: validation_metric_def all_reduce_metric_accumulate)
  also have "\<dots> = avg_metric nc (metric_accumulate nc vals)"
    by (simp only: metric_accumulate_mset [OF m])
  also have "\<dots> = validation_metric nc [vals]"
    by (simp only: validation_metric_def all_reduce_metric_accumulate concat.simps append_Nil2)
  finally show ?thesis
    using rank_shard_map [OF p] \<open>length parts = k\<close> by auto
qed

theorem validation_metric_sharded_witness:
  "\<exists>shards. map (Partition.rank_shard [[Some (4/5), None], [None, Some (3/5)], [Some 1, Some 1]] [] False 2 False) [0..<2]
              = map Inr shards
            \<and> validation_metric 2 shards = validation_metric 2 [[[Some (4/5), None], [None, Some (3/5)], [Some 1, Some 1]]]"
  by (rule validation_metric_sharded) simp_all


text \<open>
  C27. In the training driver every rank's \<^verbatim>\<open>train_loader\<close> (batches of
  \<^verbatim>\<open>num_images_per_batch = 2\<close> over its shard) has the same number of
  batches, so the ranks take the same number of optimiser steps per epoch
  and meet at the same collective calls, and the batches of all ranks
  together contain every training image.
\<close>

theorem train_loader_lockstep:
  assumes "0 < k" and "k \<le> length train_files" and "mset perm = mset [0..<length train_files]"
  shows "\<exists>shards. map (Partition.rank_shard train_files perm True k True) [0..<k] = map Inr shards
           \<and> map (\<lambda>sh. length (batches 2 sh)) shards = replicate k (ceil_div (ceil_div (length train_files) k) 2)
           \<and> mset train_files \<subseteq># mset (concat (concat (map (batches 2) shards)))"
proof -
  obtain parts where p: "partition_dataset train_files perm True k False True = Inr parts"
    and "length parts = k" and len: "\<forall>sh \<in> set parts. length sh = ceil_div (length train_files) k"
    and "mset train_files \<subseteq># mset (concat parts)"
    using partition_training_parts [of k train_files True perm] assms by auto
  moreover have "\<forall>sh \<in> set parts. length (batches 2 sh) = ceil_div (ceil_div (length train_files) k) 2"
    using len by (simp add: batches_length)
  then have "map (\<lambda>sh. length (batches 2 sh)) parts = replicate k (ceil_div (ceil_div (length train_files) k) 2)"
    using map_const_replicate [of parts] \<open>length parts = k\<close> by simp
  moreover have "concat (concat (map (batches 2) parts)) = concat parts"
    by (induction parts) (simp_all add: batches_concat)
  ultimately show ?thesis
    using rank_shard_map [OF p] by auto
qed

theorem train_loader_lockstep_witness:
  "\<exists>shards. map (Partition.rank_shard [10, 11, 12, 13, 14::nat] [4, 2, 0, 1, 3] True 2 True) [0..<2] = map Inr shards
     \<and> map (\<lambda>sh. length (batches 2 sh)) shards = replicate 2 (ceil_div (ceil_div (length [10, 11, 12, 13, 14::nat]) 2) 2)
     \<and> mset [10, 11, 12, 13, 14::nat] \<subseteq># mset (concat (concat (map (batches 2) shards)))"
  by (rule train_loader_lockstep; code_simp)


text \<open>
  C30. A command line with \<^verbatim>\<open>--fold -1\<close> is accepted: \<^verbatim>\<open>argparse\<close>
  takes \<^verbatim>\<open>-1\<close> as the value, \<^verbatim>\<open>int()\<close> converts it, and the fold split
  then trains on the data twice over (its head once more) and validates on
  nothing; no check rejects a fold index outside \<open>[0, num_folds)\<close>.
\<close>

theorem cli_negative_fold:
  assumes "5 \<le> length data"
  shows "\<exists>ns cfg. parse_args arg_specs [''--arch_ckpt'', ''a.pth'', ''--fold'', ''-1'', ''--json'', ''d.json'', ''--json_key'', ''training'', ''--local_rank'', ''0'', ''--num_folds'', ''5'', ''--output_root'', ''out'', ''--root'', ''/d''] = Some (Inr ns)
           \<and> search_config ns = Inr cfg
           \<and> fold_split data (cfg_num_folds cfg) (cfg_fold cfg)
               = Inr (take (length data - length data div 5) data @ data, [])"
proof -
  define ns :: namespace where "ns = [(''arch_ckpt'', Some ''a.pth''), (''checkpoint'', None), (''fold'', Some ''-1''),
     (''json'', Some ''d.json''), (''json_key'', Some ''training''), (''local_rank'', Some ''0''),
     (''num_folds'', Some ''5''), (''output_root'', Some ''out''), (''root'', Some ''/d'')]"
  have p: "parse_args arg_specs [''--arch_ckpt'', ''a.pth'', ''--fold'', ''-1'', ''--json'', ''d.json'', ''--json_key'', ''training'', ''--local_rank'', ''0'', ''--num_folds'', ''5'', ''--output_root'', ''out'', ''--root'', ''/d''] = Some (Inr ns)"
    unfolding ns_def by code_simp
  have c: "search_config ns = Inr \<lparr>cfg_amp = True, cfg_determ = False, cfg_fold = -1, cfg_num_images_per_batch = 2,
            cfg_num_epochs = 1000, cfg_num_epochs_per_validation = 20, cfg_num_folds = 5, cfg_output_classes = 3\<rparr>"
    unfolding ns_def by code_simp
  have "fold_split data (int 5) (-1) = Inr (take (length data - length data div 5) data @ data, [])"
    by (rule fold_split_minus_one) (use assms in simp_all)
  then show ?thesis
    using p c by auto
qed

theorem cli_negative_fold_witness:
  "\<exists>ns cfg. parse_args arg_specs [''--arch_ckpt'', ''a.pth'', ''--fold'', ''-1'', ''--json'', ''d.json'', ''--json_key'', ''training'', ''--local_rank'', ''0'', ''--num_folds'', ''5'', ''--output_root'', ''out'', ''--root'', ''/d''] = Some (Inr ns)
     \<and> search_config ns = Inr cfg
     \<and> fold_split [0..<10::nat] (cfg_num_folds cfg) (cfg_fold cfg)
         = Inr (take (length [0..<10::nat] - length [0..<10::nat] div 5) [0..<10] @ [0..<10], [])"
  by (rule cli_negative_fold) simp

end
